(* ===== verification/Prelude.thy ===== *)
theory Prelude
  imports Complex_Main "HOL-Library.Sublist" "HOL-Library.Multiset"
begin

text \<open>
  Shared vocabulary of the development. The JavaScript of \<open>src/src/app/utils\<close> works on
  arrays parsed from local storage with \<open>find\<close>, \<open>findIndex\<close>, \<open>some\<close>, \<open>filter\<close>,
  \<open>map\<close> and in-place writes \<open>arr[i].f = v\<close>. This theory gives their HOL counterparts,
  the timestamp type, and the lemmas about them that the component theories share.
  \<^item> \<open>js_findIndex\<close>: \<open>Array.prototype.findIndex\<close>, whose sentinel \<open>-1\<close> is \<open>None\<close>;
  \<^item> \<open>model_defs\<close>: the collection of definitions unfolded by the component proofs;
  \<^item> \<open>eval_simps\<close>: the rules that let \<open>simp\<close> evaluate the model on concrete inputs;
  \<^item> \<open>timestamp\<close>: an instant as milliseconds since the epoch.
\<close>

named_theorems model_defs "definitions of the model unfolded by its proofs"
named_theorems eval_simps "rules that evaluate the model on concrete inputs"

declare char_of_eq_iff [eval_simps] Let_def [eval_simps]

text \<open>
  Every timestamp of the source is an ISO 8601 string produced by \<open>toISOString()\<close>.
  Those strings have a fixed width for the years 0000 to 9999, so their lexicographic order
  (the order \<open>r.timestamp < fiveMinutesAgo\<close> uses) is the order of the instants they
  denote. The model keeps the instant, in milliseconds.
\<close>

type_synonym timestamp = int

subsection \<open>Numbers printed in identifiers\<close>

text \<open>
  The identifiers \<open>`user_${Date.now()}_${...}`\<close> print an integer in decimal, as
  \<open>String(n)\<close> does for a safe integer.
\<close>

fun js_nat_digits :: "nat \<Rightarrow> string" where
  "js_nat_digits n =
     (if n < 10 then [char_of (48 + n)] else js_nat_digits (n div 10) @ [char_of (48 + n mod 10)])"

definition js_int_to_string :: "int \<Rightarrow> string" where
  "js_int_to_string i =
     (if i < 0 then CHR ''-'' # js_nat_digits (nat (- i)) else js_nat_digits (nat i))"

declare js_int_to_string_def [eval_simps] js_nat_digits.simps [eval_simps]
declare js_nat_digits.simps [simp del]

subsection \<open>\<open>findIndex\<close>\<close>

fun js_findIndex :: "('a \<Rightarrow> bool) \<Rightarrow> 'a list \<Rightarrow> nat option" where
  "js_findIndex P [] = None"
| "js_findIndex P (x # xs) = (if P x then Some 0 else map_option Suc (js_findIndex P xs))"

subsection \<open>Lemmas\<close>

lemma eq_char_of_iff [eval_simps]: "c = char_of n \<longleftrightarrow> take_bit 8 n = of_char c"
  by (metis char_of_eq_iff)

lemma js_findIndex_None_iff:
  "js_findIndex P xs = None \<longleftrightarrow> \<not> list_ex P xs"
  by (induction xs) auto

lemma js_findIndex_SomeD:
  "js_findIndex P xs = Some i \<Longrightarrow> i < length xs \<and> P (xs ! i) \<and> (\<forall>j < i. \<not> P (xs ! j))"
proof (induction xs arbitrary: i)
  case Nil
  then show ?case by simp
next
  case (Cons x xs)
  then show ?case
    by (auto split: if_splits simp: nth_Cons' less_Suc_eq_0_disj)
qed

lemma js_findIndex_append_notin:
  "\<not> list_ex P xs \<Longrightarrow> js_findIndex P (xs @ ys) = map_option (\<lambda>i. length xs + i) (js_findIndex P ys)"
proof (induction xs)
  case Nil
  show ?case by (simp add: option.map_ident)
next
  case (Cons a xs)
  then show ?case by (simp add: option.map_comp comp_def)
qed

lemma find_conv_js_findIndex:
  "find P xs = map_option (\<lambda>i. xs ! i) (js_findIndex P xs)"
  by (induction xs) (auto simp: option.map_comp comp_def)

lemma js_findIndex_Some_find:
  "js_findIndex P xs = Some i \<Longrightarrow> find P xs = Some (xs ! i)"
  by (simp add: find_conv_js_findIndex)

lemma find_append_notin:
  "\<not> list_ex P xs \<Longrightarrow> find P (xs @ ys) = find P ys"
  by (induction xs) auto

lemma find_Some_in_set:
  "find P xs = Some x \<Longrightarrow> x \<in> set xs \<and> P x"
  by (induction xs) (auto split: if_splits)

lemma length_filter_sort_key: "length (filter P (sort_key f xs)) = length (filter P xs)"
  by (metis mset_filter mset_sort size_mset)

lemma set_drop_dropWhile_subset: "set (drop n (dropWhile P xs)) \<subseteq> set xs"
  by (meson order_trans set_drop_subset set_dropWhileD subsetI)

text \<open>Floor division by a positive divisor, as a pair of bounds.\<close>

lemma int_le_div_iff: "0 < d \<Longrightarrow> a * d \<le> x \<longleftrightarrow> a \<le> x div (d::int)"
proof
  assume d: "0 < d" and ad: "a * d \<le> x"
  have e: "x div d * d + x mod d = x" by (rule div_mult_mod_eq)
  have "x mod d < d" using d by simp
  with e ad have "a * d < x div d * d + d" by linarith
  then have "a * d < (x div d + 1) * d" by (simp add: distrib_right)
  with d show "a \<le> x div d" by (simp add: mult_less_cancel_right)
next
  assume d: "0 < d" and "a \<le> x div d"
  with d have ad: "a * d \<le> x div d * d" by (simp add: mult_le_cancel_right)
  have e: "x div d * d + x mod d = x" by (rule div_mult_mod_eq)
  have "0 \<le> x mod d" using d by simp
  with e ad show "a * d \<le> x" by linarith
qed

lemma int_div_less_iff: "0 < d \<Longrightarrow> x < b * d \<longleftrightarrow> x div d < (b::int)"
  using int_le_div_iff [of d b x] by linarith
subsection \<open>In-place writes at an index\<close>

text \<open>
  \<open>arr[i].f = v\<close> at an index returned by \<open>findIndex\<close> (so always in range) is
  \<open>xs[i := g (xs ! i)]\<close>.
\<close>

lemma set_update_in_range:
  "i < length xs \<Longrightarrow> y \<in> set (xs[i := v]) \<Longrightarrow> y = v \<or> y \<in> set xs"
  by (metis in_set_conv_nth length_list_update nth_list_update)

lemma list_all_update_keep:
  "list_all Q xs \<Longrightarrow> Q v \<Longrightarrow> list_all Q (xs[i := v])"
  by (simp add: list_all_iff) (metis in_set_conv_nth length_list_update nth_list_update nth_list_update_neq)

end
