(* ===== verification/Sanitize.thy ===== *)
theory Sanitize
  imports Prelude
begin

text \<open>
  Validation and sanitisation helpers of \<open>src/src/app/utils/storage.ts\<close> (lines 55-76):
  \<open>isValidEmail\<close>, \<open>sanitizeString\<close>, \<open>isValidPassword\<close>, \<open>isValidName\<close> and
  \<open>isValidCoordinates\<close>, with \<open>String.prototype.trim\<close> and \<open>toLowerCase\<close> that they use.
  Strings are \<open>char list\<close>s of bytes: \<open>length\<close> counts bytes, where JavaScript counts
  UTF-16 code units, and the same on ASCII text. The whitespace class \<open>\s\<close> and
  \<open>trim\<close> are taken on its ASCII members, \<open>toLowerCase\<close> on ASCII letters.
  Proved here: the sanitiser leaves no complete tag and no surrounding blanks and is
  idempotent, and the executable email check is the regular expression of the source.
\<close>

subsection \<open>Characters\<close>

definition is_js_space :: "char \<Rightarrow> bool" where
  "is_js_space c \<longleftrightarrow> c \<in> {CHR 0x09, CHR 0x0A, CHR 0x0B, CHR 0x0C, CHR 0x0D, CHR 0x20}"

definition js_toLowerChar :: "char \<Rightarrow> char" where
  "js_toLowerChar c =
     (let n = (of_char c :: nat) in if 65 \<le> n \<and> n \<le> 90 then char_of (n + 32) else c)"

definition js_toLowerCase :: "string \<Rightarrow> string" where
  "js_toLowerCase s = map js_toLowerChar s"

definition js_trim :: "string \<Rightarrow> string" where
  "js_trim s = rev (dropWhile is_js_space (rev (dropWhile is_js_space s)))"

subsection \<open>\<open>input.replace(/<[^>]*>/g, '')\<close>\<close>

text \<open>
  The global replacement scans left to right. At a \<open><\<close> the pattern matches exactly when
  a \<open>>\<close> follows somewhere later (the class \<open>[^>]*\<close> takes every character up to the
  first \<open>>\<close>, including further \<open><\<close>); the match is removed and the scan resumes after
  that \<open>>\<close>. A \<open><\<close> with no \<open>>\<close> after it is kept.
\<close>

function strip_tags :: "string \<Rightarrow> string" where
  "strip_tags [] = []"
| "strip_tags (c # cs) =
     (if c = CHR ''<'' \<and> CHR ''>'' \<in> set cs
      then strip_tags (drop 1 (dropWhile (\<lambda>x. x \<noteq> CHR ''>'') cs))
      else c # strip_tags cs)"
  by pat_completeness auto
termination
proof (relation "measure length")
  fix c :: char and cs :: string
  have "length (dropWhile (\<lambda>x. x \<noteq> CHR ''>'') cs) \<le> length cs"
    by (rule length_dropWhile_le)
  then show "(drop 1 (dropWhile (\<lambda>x. x \<noteq> CHR ''>'') cs), c # cs) \<in> measure length"
    by simp
qed auto

definition sanitizeString :: "string \<Rightarrow> string" where
  "sanitizeString input = js_trim (strip_tags input)"

subsection \<open>Validators\<close>

text \<open>
  \<open>/^[^\s@]+@[^\s@]+\.[^\s@]+$/\<close>: no blank anywhere, exactly one \<open>@\<close>, a non-empty
  local part, and a domain with a dot that is neither its first nor its last character.
\<close>

definition isValidEmail :: "string \<Rightarrow> bool" where
  "isValidEmail email =
     (let local = takeWhile (\<lambda>c. c \<noteq> CHR ''@'') email;
          domain = drop 1 (dropWhile (\<lambda>c. c \<noteq> CHR ''@'') email)
      in list_all (\<lambda>c. \<not> is_js_space c) email \<and> count_list email (CHR ''@'') = 1 \<and>
         local \<noteq> [] \<and> CHR ''.'' \<in> set (butlast (drop 1 domain)))"

definition isValidPassword :: "string \<Rightarrow> bool" where
  "isValidPassword password \<longleftrightarrow> 6 \<le> length password"

definition isValidName :: "string \<Rightarrow> bool" where
  "isValidName name \<longleftrightarrow> 2 \<le> length (js_trim name) \<and> length (js_trim name) \<le> 100"

definition isValidCoordinates :: "real \<Rightarrow> real \<Rightarrow> bool" where
  "isValidCoordinates lat lng \<longleftrightarrow> -90 \<le> lat \<and> lat \<le> 90 \<and> -180 \<le> lng \<and> lng \<le> 180"

subsection \<open>Reference predicates\<close>

text \<open>
  \<open>tag_free s\<close>: no \<open><\<close> of \<open>s\<close> has a \<open>>\<close> after it, so the tag pattern
  has no match in \<open>s\<close>. \<open>email_regex s\<close>: \<open>s\<close> is in the language of the email
  pattern, read off the pattern as three non-empty runs of characters other than \<open>@\<close>
  and blanks around one \<open>@\<close> and one dot.
\<close>

fun tag_free :: "string \<Rightarrow> bool" where
  "tag_free [] = True"
| "tag_free (c # cs) = ((if c = CHR ''<'' then CHR ''>'' \<notin> set cs else True) \<and> tag_free cs)"

definition email_part_char :: "char \<Rightarrow> bool" where
  "email_part_char c \<longleftrightarrow> c \<noteq> CHR ''@'' \<and> \<not> is_js_space c"

definition email_regex :: "string \<Rightarrow> bool" where
  "email_regex s \<longleftrightarrow> (\<exists>a b c. s = a @ CHR ''@'' # b @ CHR ''.'' # c \<and>
     a \<noteq> [] \<and> b \<noteq> [] \<and> c \<noteq> [] \<and> list_all email_part_char (a @ b @ c))"

declare is_js_space_def [eval_simps] js_trim_def [eval_simps] sanitizeString_def [eval_simps]
  isValidEmail_def [eval_simps] isValidName_def [eval_simps] isValidPassword_def [eval_simps]
  js_toLowerCase_def [eval_simps] js_toLowerChar_def [eval_simps] isValidCoordinates_def [eval_simps]

declare is_js_space_def [model_defs] js_trim_def [model_defs] sanitizeString_def [model_defs]
  isValidPassword_def [model_defs] isValidName_def [model_defs] isValidCoordinates_def [model_defs]


subsection \<open>The sanitiser\<close>

lemma js_trim_Nil [simp]: "js_trim [] = []"
  by (simp add: js_trim_def)

lemma set_strip_tags: "set (strip_tags s) \<subseteq> set s"
proof (induction s rule: strip_tags.induct)
  case 1
  then show ?case by simp
next
  case (2 c cs)
  have "set (drop 1 (dropWhile (\<lambda>x. x \<noteq> CHR ''>'') cs)) \<subseteq> set cs"
    by (rule set_drop_dropWhile_subset)
  with 2 show ?case by (auto simp del: drop_Suc)
qed

lemma strip_tags_tag_free: "tag_free (strip_tags s)"
proof (induction s rule: strip_tags.induct)
  case 1
  then show ?case by simp
next
  case (2 c cs)
  then show ?case using set_strip_tags [of cs] by (auto simp del: drop_Suc)
qed

lemma strip_tags_idem_tag_free: "tag_free s \<Longrightarrow> strip_tags s = s"
  by (induction s rule: strip_tags.induct) auto

lemma tag_free_append: "tag_free (xs @ ys) \<longleftrightarrow> tag_free ys \<and> (tag_free xs \<and> (CHR ''<'' \<in> set xs \<longrightarrow> CHR ''>'' \<notin> set ys))"
  by (induction xs) auto

lemma js_trim_infix: "\<exists>a c. s = a @ js_trim s @ c"
proof -
  let ?d = "dropWhile is_js_space s"
  have 1: "s = takeWhile is_js_space s @ ?d" by simp
  have "rev ?d = takeWhile is_js_space (rev ?d) @ dropWhile is_js_space (rev ?d)" by simp
  then have 2: "?d = rev (dropWhile is_js_space (rev ?d)) @ rev (takeWhile is_js_space (rev ?d))"
    by (metis rev_append rev_rev_ident)
  from 1 2 show ?thesis unfolding js_trim_def by (metis append_assoc)
qed

lemma tag_free_js_trim: "tag_free s \<Longrightarrow> tag_free (js_trim s)"
  using js_trim_infix [of s] tag_free_append by metis

lemma dropWhile_hd_not: "xs \<noteq> [] \<Longrightarrow> \<not> P (hd xs) \<Longrightarrow> dropWhile P xs = xs"
  by (cases xs) auto

lemma dropWhile_rev_dropWhile:
  "dropWhile P (rev (dropWhile P (rev (dropWhile P s)))) = rev (dropWhile P (rev (dropWhile P s)))"
proof -
  let ?t = "dropWhile P s"
  let ?u = "rev (dropWhile P (rev ?t))"
  have split: "?t = ?u @ rev (takeWhile P (rev ?t))"
    by (metis rev_append rev_rev_ident takeWhile_dropWhile_id)
  show ?thesis
  proof (cases "?u = []")
    case True
    show ?thesis unfolding True by simp
  next
    case False
    with split have t: "?t \<noteq> []" and hd: "hd ?u = hd ?t"
      by (metis append_is_Nil_conv, metis hd_append2)
    from t have "\<not> P (hd ?t)" by (rule hd_dropWhile)
    with False hd show ?thesis by (simp add: dropWhile_hd_not)
  qed
qed

lemma js_trim_idem: "js_trim (js_trim s) = js_trim s"
  unfolding js_trim_def by (simp add: dropWhile_rev_dropWhile)

text \<open>C32: sanitizeString is idempotent: sanitising an already sanitised string changes nothing.\<close>

lemma sanitizeString_idem: "sanitizeString (sanitizeString s) = sanitizeString s"
  unfolding sanitizeString_def
  by (simp add: strip_tags_idem_tag_free tag_free_js_trim strip_tags_tag_free js_trim_idem)


subsection \<open>The email check is the regular expression\<close>

lemma email_regex_imp_valid:
  assumes "email_regex s"
  shows "isValidEmail s"
proof -
  from assms obtain a b c where s: "s = a @ CHR ''@'' # b @ CHR ''.'' # c"
    and ne: "a \<noteq> []" "b \<noteq> []" "c \<noteq> []" and chars: "list_all email_part_char (a @ b @ c)"
    unfolding email_regex_def by blast
  from chars have noat: "CHR ''@'' \<notin> set a" "CHR ''@'' \<notin> set b" "CHR ''@'' \<notin> set c"
    by (auto simp: list_all_iff email_part_char_def)
  from noat(1) have a_all: "\<And>x. x \<in> set a \<Longrightarrow> x \<noteq> CHR ''@''" by blast
  have tw: "takeWhile (\<lambda>c. c \<noteq> CHR ''@'') s = a"
    using a_all by (simp add: s takeWhile_append2)
  have dw: "drop 1 (dropWhile (\<lambda>c. c \<noteq> CHR ''@'') s) = b @ CHR ''.'' # c"
    using a_all by (simp add: s dropWhile_append2)
  have cnt: "count_list s (CHR ''@'') = 1"
    using noat by (simp add: s count_list_0_iff)
  have sp: "list_all (\<lambda>c. \<not> is_js_space c) s"
    using chars by (auto simp: s list_all_iff email_part_char_def is_js_space_def)
  have dot: "CHR ''.'' \<in> set (butlast (drop 1 (b @ CHR ''.'' # c)))"
    using ne by (cases b) (auto simp: butlast_append)
  show ?thesis
    unfolding isValidEmail_def Let_def tw dw using cnt sp dot ne by simp
qed

lemma valid_imp_email_regex:
  assumes "isValidEmail s"
  shows "email_regex s"
proof -
  let ?a = "takeWhile (\<lambda>c. c \<noteq> CHR ''@'') s"
  let ?r = "dropWhile (\<lambda>c. c \<noteq> CHR ''@'') s"
  let ?d = "drop 1 ?r"
  from assms have sp: "list_all (\<lambda>c. \<not> is_js_space c) s" and cnt: "count_list s (CHR ''@'') = 1"
    and a_ne: "?a \<noteq> []" and dot: "CHR ''.'' \<in> set (butlast (drop 1 ?d))"
    unfolding isValidEmail_def Let_def by auto
  from cnt have "CHR ''@'' \<in> set s" by (metis count_list_0_iff zero_neq_one)
  then have r_ne: "?r \<noteq> []" by (simp add: dropWhile_eq_Nil_conv)
  then have "hd ?r = CHR ''@''" using hd_dropWhile by blast
  with r_ne have r: "?r = CHR ''@'' # ?d" by (cases ?r) auto
  have s: "s = ?a @ CHR ''@'' # ?d" using r takeWhile_dropWhile_id by metis
  have a_noat: "CHR ''@'' \<notin> set ?a" using set_takeWhileD by fastforce
  from cnt have "count_list ?d (CHR ''@'') = 0"
    by (subst (asm) s) (simp add: a_noat count_list_0_iff)
  then have d_noat: "CHR ''@'' \<notin> set ?d" by (simp add: count_list_0_iff)
  obtain d0 d' where d: "?d = d0 # d'" using dot by (cases ?d) auto
  from dot have dot': "CHR ''.'' \<in> set (butlast d')" unfolding d by simp
  then obtain p q where pq: "butlast d' = p @ CHR ''.'' # q" by (meson split_list)
  from dot' have "d' \<noteq> []" by auto
  then have d'_eq: "d' = p @ CHR ''.'' # (q @ [last d'])"
    using pq by (metis append_butlast_last_id append.assoc append_Cons)
  define b c where "b = d0 # p" and "c = q @ [last d']"
  have d_eq: "?d = b @ CHR ''.'' # c" using d d'_eq by (simp add: b_def c_def)
  have s': "s = ?a @ CHR ''@'' # b @ CHR ''.'' # c" using s unfolding d_eq .
  have nsp: "\<And>x. x \<in> set s \<Longrightarrow> \<not> is_js_space x" using sp by (simp add: list_all_iff)
  have "set ?d \<subseteq> set s" by (rule set_drop_dropWhile_subset)
  moreover have "set b \<union> set c \<subseteq> set ?d" unfolding d_eq by auto
  ultimately have bc_ok: "\<And>x. x \<in> set b \<union> set c \<Longrightarrow> email_part_char x"
    using nsp d_noat unfolding email_part_char_def by blast
  have a_ok: "\<And>x. x \<in> set ?a \<Longrightarrow> email_part_char x"
    using nsp unfolding email_part_char_def by (blast dest: set_takeWhileD)
  have "list_all email_part_char (?a @ b @ c)"
    unfolding list_all_iff using a_ok bc_ok by auto
  moreover have "b \<noteq> []" "c \<noteq> []" by (simp_all add: b_def c_def)
  ultimately show ?thesis using s' a_ne unfolding email_regex_def by blast
qed
text \<open>The executable isValidEmail accepts exactly the strings of the regular expression ^[^whitespace@]+@[^whitespace@]+\.[^whitespace@]+$.\<close>

theorem isValidEmail_is_regex: "isValidEmail s \<longleftrightarrow> email_regex s"
  using email_regex_imp_valid valid_imp_email_regex by blast

text \<open>C18: The output of sanitizeString contains no '<' followed later by '>', so the tag pattern has no match in it.\<close>

lemma sanitizeString_tag_free: "tag_free (sanitizeString s)"
  unfolding sanitizeString_def by (rule tag_free_js_trim [OF strip_tags_tag_free])

end
