(* ===== verification/Store.thy ===== *)
theory Store
  imports Sanitize
begin

text \<open>
  The data model and the persistent store adapter of \<open>src/src/app/utils/storage.ts\<close>.
  \<^item> The interfaces \<open>User\<close>, \<open>Report\<close> and \<open>Notification\<close> (lines 13-39, 502-511)
    are records; the stored user \<open>User & { password: string }\<close> is the record extension
    \<open>stored_user\<close>, and \<open>const { password: _, ...rest } = u\<close> is \<open>user.truncate\<close>.
  \<^item> Local storage holds one JSON array per key of \<open>STORAGE_KEYS\<close> (lines 5-11). The
    model keeps the parsed value of each key, \<open>None\<close> where \<open>safeGetItem\<close> returns
    \<open>null\<close>; a read error and an absent key give the same \<open>null\<close>, and every caller
    treats them alike, so they are one value here. Only this module writes the keys, so
    \<open>JSON.parse (JSON.stringify v) = v\<close> is taken as given.
  \<^item> What the browser decides is an environment \<open>env\<close> passed to each operation: the
    clock \<open>Date.now()\<close>, the random suffix of fresh identifiers, and which keys refuse a
    write (\<open>QuotaExceededError\<close> or another write failure).
  \<^item> \<open>safeSetItem\<close> (lines 97-109) returns \<open>False\<close> and leaves the store as it was when
    the write fails, \<open>True\<close> and the written store otherwise.
\<close>

subsection \<open>Records of the data model\<close>

datatype role = RoleUser | RoleAdmin

record user =
  user_id :: string
  email :: string
  name :: string
  role :: role
  ecoPoints :: int
  credits :: int
  user_createdAt :: timestamp
  user_updatedAt :: timestamp

record stored_user = user +
  password :: string

record location =
  lat :: real
  lng :: real
  address :: string

datatype status = Pending | Reviewed | Resolved

record report =
  report_id :: string
  userId :: string
  report_type :: string
  description :: string
  photo :: "string option"
  location :: location
  timestamp :: timestamp
  status :: status
  report_createdAt :: timestamp
  report_updatedAt :: timestamp

datatype notification_type = Report_reviewed | Report_resolved

record notification =
  notification_id :: string
  notif_userId :: string
  notif_type :: notification_type
  title :: string
  message :: string
  reportId :: string
  read :: bool
  notif_createdAt :: timestamp

subsection \<open>Errors\<close>

datatype error_code =
    INVALID_EMAIL | INVALID_PASSWORD | INVALID_NAME | STORAGE_ERROR | USER_EXISTS
  | SAVE_ERROR | REGISTER_ERROR | INVALID_CREDENTIALS | LOGIN_ERROR | ADMIN_LOGIN_ERROR
  | INVALID_USER | INVALID_TYPE | INVALID_DESCRIPTION | INVALID_LOCATION
  | DUPLICATE_REPORT | SAVE_REPORT_ERROR

record storage_error =
  err_code :: error_code
  err_message :: string

definition createError :: "error_code \<Rightarrow> string \<Rightarrow> storage_error" where
  "createError c m = \<lparr>err_code = c, err_message = m\<rparr>"

subsection \<open>The store and its environment\<close>

datatype skey = USERS | REPORTS | CURRENT_USER | NOTIFICATIONS | VERSION

record store =
  users_data :: "stored_user list option"
  reports_data :: "report list option"
  current_user_data :: "user option"
  notifications_data :: "notification list option"
  version_data :: "string option"

record env =
  now :: timestamp
  rand :: string
  write_fails :: "skey \<Rightarrow> bool"

definition STORAGE_VERSION :: string where
  "STORAGE_VERSION = ''1.0.0''"

definition safeSetItem :: "env \<Rightarrow> skey \<Rightarrow> (store \<Rightarrow> store) \<Rightarrow> store \<Rightarrow> bool \<times> store" where
  "safeSetItem ev k write st = (if write_fails ev k then (False, st) else (True, write st))"

text \<open>\<open>safeSetItem(STORAGE_KEYS.K, JSON.stringify(v))\<close>, one per key.\<close>

definition set_users :: "env \<Rightarrow> stored_user list \<Rightarrow> store \<Rightarrow> bool \<times> store" where
  "set_users ev us = safeSetItem ev USERS (\<lambda>s. s\<lparr>users_data := Some us\<rparr>)"

definition set_reports :: "env \<Rightarrow> report list \<Rightarrow> store \<Rightarrow> bool \<times> store" where
  "set_reports ev rs = safeSetItem ev REPORTS (\<lambda>s. s\<lparr>reports_data := Some rs\<rparr>)"

definition set_notifications :: "env \<Rightarrow> notification list \<Rightarrow> store \<Rightarrow> bool \<times> store" where
  "set_notifications ev ns = safeSetItem ev NOTIFICATIONS (\<lambda>s. s\<lparr>notifications_data := Some ns\<rparr>)"

definition set_current_user :: "env \<Rightarrow> user \<Rightarrow> store \<Rightarrow> bool \<times> store" where
  "set_current_user ev u = safeSetItem ev CURRENT_USER (\<lambda>s. s\<lparr>current_user_data := Some u\<rparr>)"

definition set_version :: "env \<Rightarrow> string \<Rightarrow> store \<Rightarrow> bool \<times> store" where
  "set_version ev v = safeSetItem ev VERSION (\<lambda>s. s\<lparr>version_data := Some v\<rparr>)"

text \<open>
  \<open>initializeStorage\<close> (lines 122-142). On a version mismatch it calls the migration and
  writes the version marker; it then creates the empty user and report arrays where they are
  absent. The migration rewrites the stored arrays with the missing timestamps filled in; on
  the typed records of this model no timestamp is missing, and theory \<open>Migration\<close> shows
  that the migration leaves a complete record as it is, so it is left out here.
\<close>

definition initializeStorage :: "env \<Rightarrow> store \<Rightarrow> store" where
  "initializeStorage ev st =
     (let st1 = (if version_data st \<noteq> Some STORAGE_VERSION
                 then snd (set_version ev STORAGE_VERSION st) else st);
          st2 = (if users_data st1 = None then snd (set_users ev [] st1) else st1)
      in if reports_data st2 = None then snd (set_reports ev [] st2) else st2)"

definition empty_store :: store where
  "empty_store = \<lparr>users_data = None, reports_data = None, current_user_data = None,
                  notifications_data = None, version_data = None\<rparr>"

text \<open>A concrete environment: the clock at \<open>t\<close>, a fixed random suffix, no failing write.\<close>

definition demo_env :: "timestamp \<Rightarrow> env" where
  "demo_env t = \<lparr>now = t, rand = ''x7k2'', write_fails = (\<lambda>_. False)\<rparr>"

declare createError_def [eval_simps] safeSetItem_def [eval_simps] set_users_def [eval_simps]
  set_reports_def [eval_simps] set_notifications_def [eval_simps] set_current_user_def [eval_simps]
  set_version_def [eval_simps] STORAGE_VERSION_def [eval_simps] user.truncate_def [eval_simps]
  initializeStorage_def [eval_simps] empty_store_def [eval_simps] demo_env_def [eval_simps]

declare createError_def [model_defs] safeSetItem_def [model_defs] set_users_def [model_defs]
  set_reports_def [model_defs] set_notifications_def [model_defs] set_current_user_def [model_defs]
  set_version_def [model_defs]

subsection \<open>Writes\<close>

lemma safeSetItem_cases:
  "safeSetItem ev k w st = (True, st') \<longleftrightarrow> \<not> write_fails ev k \<and> st' = w st"
  "safeSetItem ev k w st = (False, st') \<longleftrightarrow> write_fails ev k \<and> st' = st"
  by (auto simp: safeSetItem_def)

lemma safeSetItem_frame:
  "snd (safeSetItem ev k w st) = (if write_fails ev k then st else w st)"
  by (simp add: safeSetItem_def)

lemma initializeStorage_collections:
  assumes "\<not> write_fails ev USERS" and "\<not> write_fails ev REPORTS"
  shows "users_data (initializeStorage ev st) \<noteq> None \<and> reports_data (initializeStorage ev st) \<noteq> None"
  using assms by (simp add: initializeStorage_def Let_def model_defs)

lemma initializeStorage_keeps:
  "users_data st \<noteq> None \<Longrightarrow> users_data (initializeStorage ev st) = users_data st"
  "reports_data st \<noteq> None \<Longrightarrow> reports_data (initializeStorage ev st) = reports_data st"
  "notifications_data (initializeStorage ev st) = notifications_data st"
  "current_user_data (initializeStorage ev st) = current_user_data st"
  by (auto simp: initializeStorage_def Let_def model_defs)

end
