(* ===== verification/Accounts.thy ===== *)
theory Accounts
  imports Store
begin

text \<open>
  The account directory of \<open>src/src/app/utils/storage.ts\<close>: \<open>ADMIN_ACCOUNTS\<close>
  (lines 47-52), \<open>registerUser\<close> (177-234), \<open>loginUser\<close> (236-264), \<open>loginAdmin\<close>
  (266-295), \<open>getAllUsers\<close> (438-449), \<open>getCurrentUser\<close> (452-469) and
  \<open>updateCurrentUser\<close> (472-499). Each operation takes the store and, where it writes or
  reads the clock, the environment, and returns its JavaScript result with the new store;
  \<open>{ user, error }\<close> is the sum \<open>storage_error + user\<close>.
  The \<open>catch\<close> branches (\<open>REGISTER_ERROR\<close>, \<open>LOGIN_ERROR\<close>,
  \<open>ADMIN_LOGIN_ERROR\<close>) are reached only by a \<open>JSON.parse\<close> of data this module did
  not write; on the typed store nothing throws, so they are not branches of the model.
\<close>

subsection \<open>Administrators\<close>

record admin_account =
  admin_email :: string
  admin_password :: string
  admin_name :: string

definition ADMIN_ACCOUNTS :: "admin_account list" where
  "ADMIN_ACCOUNTS =
    [\<lparr>admin_email = ''admin1@sydney.gov.au'', admin_password = ''admin1pass'', admin_name = ''Admin One''\<rparr>,
     \<lparr>admin_email = ''admin2@sydney.gov.au'', admin_password = ''admin2pass'', admin_name = ''Admin Two''\<rparr>,
     \<lparr>admin_email = ''admin3@sydney.gov.au'', admin_password = ''admin3pass'', admin_name = ''Admin Three''\<rparr>,
     \<lparr>admin_email = ''admin4@sydney.gov.au'', admin_password = ''admin4pass'', admin_name = ''Admin Four''\<rparr>]"

subsection \<open>Operations\<close>

text \<open>The record \<open>newUser\<close> of \<open>registerUser\<close> (lines 208-219).\<close>

definition new_member :: "env \<Rightarrow> string \<Rightarrow> string \<Rightarrow> string \<Rightarrow> stored_user" where
  "new_member ev em pw nm =
     \<lparr>user_id = ''user_'' @ js_int_to_string (now ev) @ ''_'' @ rand ev, email = em, name = nm,
      role = RoleUser, ecoPoints = 0, credits = 0, user_createdAt = now ev,
      user_updatedAt = now ev, password = pw\<rparr>"

definition registerUser ::
  "env \<Rightarrow> string \<Rightarrow> string \<Rightarrow> string \<Rightarrow> store \<Rightarrow> (storage_error + user) \<times> store" where
  "registerUser ev em pw nm st =
     (if \<not> isValidEmail em
      then (Inl (createError INVALID_EMAIL ''Please enter a valid email address''), st)
      else if \<not> isValidPassword pw
      then (Inl (createError INVALID_PASSWORD ''Password must be at least 6 characters''), st)
      else if \<not> isValidName nm
      then (Inl (createError INVALID_NAME ''Name must be between 2 and 100 characters''), st)
      else
        let sanitizedEmail = sanitizeString (js_toLowerCase em);
            sanitizedName = sanitizeString nm
        in case users_data st of
             None \<Rightarrow> (Inl (createError STORAGE_ERROR ''Unable to access storage''), st)
           | Some users \<Rightarrow>
               if list_ex (\<lambda>u. email u = sanitizedEmail) users
               then (Inl (createError USER_EXISTS ''An account with this email already exists''), st)
               else
                 let newUser = new_member ev sanitizedEmail pw sanitizedName;
                     (saved, st') = set_users ev (users @ [newUser]) st
                 in if \<not> saved
                    then (Inl (createError SAVE_ERROR ''Failed to save user data''), st')
                    else (Inr (user.truncate newUser), st'))"

definition loginUser :: "string \<Rightarrow> string \<Rightarrow> store \<Rightarrow> storage_error + user" where
  "loginUser em pw st =
     (if \<not> isValidEmail em
      then Inl (createError INVALID_CREDENTIALS ''Invalid email or password'')
      else
        let sanitizedEmail = sanitizeString (js_toLowerCase em)
        in case users_data st of
             None \<Rightarrow> Inl (createError STORAGE_ERROR ''Unable to access storage'')
           | Some users \<Rightarrow>
               (case find (\<lambda>u. email u = sanitizedEmail \<and> password u = pw) users of
                  None \<Rightarrow> Inl (createError INVALID_CREDENTIALS ''Invalid email or password'')
                | Some u \<Rightarrow> Inr (user.truncate u)))"

definition loginAdmin :: "env \<Rightarrow> string \<Rightarrow> string \<Rightarrow> storage_error + user" where
  "loginAdmin ev em pw =
     (let sanitizedEmail = sanitizeString (js_toLowerCase em)
      in case find (\<lambda>a. admin_email a = sanitizedEmail \<and> admin_password a = pw) ADMIN_ACCOUNTS of
           None \<Rightarrow> Inl (createError INVALID_CREDENTIALS ''Invalid admin credentials'')
         | Some a \<Rightarrow> Inr \<lparr>user_id = ''admin_'' @ admin_email a, email = admin_email a,
                          name = admin_name a, role = RoleAdmin, ecoPoints = 0, credits = 0,
                          user_createdAt = now ev, user_updatedAt = now ev\<rparr>)"

definition getAllUsers :: "store \<Rightarrow> user list" where
  "getAllUsers st = (case users_data st of None \<Rightarrow> [] | Some users \<Rightarrow> map user.truncate users)"

text \<open>\<open>Math.floor(ecoPoints / 100)\<close> on an integer is the floor division \<open>div\<close>.\<close>

definition credits_of :: "int \<Rightarrow> int" where
  "credits_of p = p div 100"

definition getCurrentUser :: "string \<Rightarrow> store \<Rightarrow> user option" where
  "getCurrentUser uid st =
     (case users_data st of
        None \<Rightarrow> None
      | Some users \<Rightarrow>
          map_option (\<lambda>u. user.truncate (u\<lparr>credits := credits_of (ecoPoints u)\<rparr>))
            (find (\<lambda>u. user_id u = uid) users))"

text \<open>Lines 482-483: the recomputed credits and the new \<open>updatedAt\<close>.\<close>

definition sync_credits :: "env \<Rightarrow> stored_user \<Rightarrow> stored_user" where
  "sync_credits ev u = u\<lparr>credits := credits_of (ecoPoints u), user_updatedAt := now ev\<rparr>"

text \<open>
  The point award that \<open>saveReport\<close> applies to the owner of an accepted report
  (lines 372-383): ten eco-points, the credits recomputed, \<open>updatedAt\<close> stamped. It is
  best effort: an absent user array, an unknown owner or a failed write leave the directory
  as it was, and nothing is reported to the caller.
\<close>

definition award_eco_points :: "env \<Rightarrow> stored_user \<Rightarrow> stored_user" where
  "award_eco_points ev u =
     u\<lparr>ecoPoints := ecoPoints u + 10, credits := credits_of (ecoPoints u + 10),
       user_updatedAt := now ev\<rparr>"

definition award_points :: "env \<Rightarrow> string \<Rightarrow> store \<Rightarrow> store" where
  "award_points ev uid st =
     (case users_data st of
        None \<Rightarrow> st
      | Some users \<Rightarrow>
          (case js_findIndex (\<lambda>u. user_id u = uid) users of
             None \<Rightarrow> st
           | Some i \<Rightarrow> snd (set_users ev (users[i := award_eco_points ev (users ! i)]) st)))"

definition updateCurrentUser :: "env \<Rightarrow> string \<Rightarrow> store \<Rightarrow> user option \<times> store" where
  "updateCurrentUser ev uid st =
     (case users_data st of
        None \<Rightarrow> (None, st)
      | Some users \<Rightarrow>
          (case js_findIndex (\<lambda>u. user_id u = uid) users of
             None \<Rightarrow> (None, st)
           | Some i \<Rightarrow>
               let u' = sync_credits ev (users ! i);
                   st1 = snd (set_users ev (users[i := u']) st)
               in case current_user_data st1 of
                    None \<Rightarrow> (None, st1)
                  | Some cu \<Rightarrow>
                      if user_id cu = uid
                      then (Some (user.truncate u'), snd (set_current_user ev (user.truncate u') st1))
                      else (None, st1)))"

declare ADMIN_ACCOUNTS_def [eval_simps] new_member_def [eval_simps] registerUser_def [eval_simps]
  loginUser_def [eval_simps] loginAdmin_def [eval_simps] getAllUsers_def [eval_simps]
  credits_of_def [eval_simps] getCurrentUser_def [eval_simps] updateCurrentUser_def [eval_simps]
  sync_credits_def [eval_simps] award_eco_points_def [eval_simps] award_points_def [eval_simps]

subsection \<open>Invariant of the directory\<close>

text \<open>
  Emails are unique among the stored users (the \<open>USER_EXISTS\<close> check keeps them so), and
  every stored \<open>credits\<close> is \<open>floor(ecoPoints / 100)\<close>.
\<close>

abbreviation norm_email :: "string \<Rightarrow> string" where
  "norm_email em \<equiv> sanitizeString (js_toLowerCase em)"

definition users_wf :: "stored_user list \<Rightarrow> bool" where
  "users_wf us \<longleftrightarrow> distinct (map email us) \<and> list_all (\<lambda>u. credits u = credits_of (ecoPoints u)) us"

definition accounts_ok :: "store \<Rightarrow> bool" where
  "accounts_ok st = (case users_data st of None \<Rightarrow> True | Some us \<Rightarrow> users_wf us)"

text \<open>
  A concrete member with 95 eco-points, and a directory holding only that member, for
  evaluating the model.
\<close>

definition demo_member :: stored_user where
  "demo_member = (new_member (demo_env 10) ''jo@b.com'' ''secret1'' ''Jo'')
     \<lparr>user_id := ''user_1'', ecoPoints := 95\<rparr>"

definition demo_directory :: store where
  "demo_directory = empty_store\<lparr>users_data := Some [demo_member]\<rparr>"

subsection \<open>Properties\<close>

lemma registerUser_success:
  "registerUser ev em pw nm st = (Inr u, st') \<longleftrightarrow>
     isValidEmail em \<and> isValidPassword pw \<and> isValidName nm \<and> \<not> write_fails ev USERS \<and>
     (\<exists>users. users_data st = Some users \<and> \<not> list_ex (\<lambda>x. email x = norm_email em) users \<and>
        u = user.truncate (new_member ev (norm_email em) pw (sanitizeString nm)) \<and>
        st' = st\<lparr>users_data := Some (users @ [new_member ev (norm_email em) pw (sanitizeString nm)])\<rparr>)"
  by (auto simp: registerUser_def Let_def model_defs split: option.splits if_splits)

lemma registerUser_error_frame:
  "registerUser ev em pw nm st = (Inl e, st') \<Longrightarrow> st' = st"
  by (auto simp: registerUser_def Let_def model_defs split: option.splits if_splits)

lemma new_member_email [simp]: "email (new_member ev em pw nm) = em"
  and new_member_password [simp]: "password (new_member ev em pw nm) = pw"
  and new_member_points [simp]: "ecoPoints (new_member ev em pw nm) = 0" "credits (new_member ev em pw nm) = 0"
  by (simp_all add: new_member_def)

text \<open>C4: After a successful registration, registering again with an email that normalises to the same lower-cased sanitised address fails with USER_EXISTS and does not change the store.\<close>

lemma registerUser_duplicate:
  assumes "registerUser ev em pw nm st = (Inr u, st')"
    and "norm_email em2 = norm_email em"
    and "isValidEmail em2" and "isValidPassword pw2" and "isValidName nm2"
  shows "registerUser ev2 em2 pw2 nm2 st' =
           (Inl (createError USER_EXISTS ''An account with this email already exists''), st')"
proof -
  from assms(1) obtain users where st': "st' = st\<lparr>users_data := Some (users @ [new_member ev (norm_email em) pw (sanitizeString nm)])\<rparr>"
    unfolding registerUser_success by blast
  then show ?thesis using assms(2-5) by (simp add: registerUser_def)
qed

text \<open>C5: After a successful registration, loginUser with the same email and password returns exactly the user that registration returned, without its password.\<close>

lemma register_then_login:
  assumes "registerUser ev em pw nm st = (Inr u, st')"
  shows "loginUser em pw st' = Inr u"
proof -
  from assms obtain users where valid: "isValidEmail em"
    and fresh: "\<not> list_ex (\<lambda>x. email x = norm_email em) users"
    and u: "u = user.truncate (new_member ev (norm_email em) pw (sanitizeString nm))"
    and st': "st' = st\<lparr>users_data := Some (users @ [new_member ev (norm_email em) pw (sanitizeString nm)])\<rparr>"
    unfolding registerUser_success by blast
  from fresh have "\<not> list_ex (\<lambda>x. email x = norm_email em \<and> password x = pw) users"
    by (auto simp: list_ex_iff)
  then show ?thesis using valid u st' by (simp add: loginUser_def find_append_notin)
qed

lemma registerUser_accounts_ok:
  "accounts_ok st \<Longrightarrow> accounts_ok (snd (registerUser ev em pw nm st))"
proof (cases "registerUser ev em pw nm st")
  case (Pair r st')
  assume ok: "accounts_ok st"
  show ?thesis
  proof (cases r)
    case (Inl e)
    with Pair ok show ?thesis using registerUser_error_frame by fastforce
  next
    case (Inr u)
    with Pair have "registerUser ev em pw nm st = (Inr u, st')" by simp
    then obtain users where "users_data st = Some users"
      and "\<not> list_ex (\<lambda>x. email x = norm_email em) users"
      and "st' = st\<lparr>users_data := Some (users @ [new_member ev (norm_email em) pw (sanitizeString nm)])\<rparr>"
      unfolding registerUser_success by blast
    with Pair ok show ?thesis
      by (auto simp: accounts_ok_def users_wf_def list_ex_iff credits_of_def)
  qed
qed

text \<open>A successful loginAdmin returns an admin-role user with 0 eco-points and 0 credits whose email and password match an entry of the fixed ADMIN_ACCOUNTS list.\<close>

lemma loginAdmin_admin:
  "loginAdmin ev em pw = Inr u \<Longrightarrow>
     role u = RoleAdmin \<and> ecoPoints u = 0 \<and> credits u = 0 \<and>
     list_ex (\<lambda>a. admin_email a = email u \<and> admin_password a = pw) ADMIN_ACCOUNTS"
  by (auto simp: loginAdmin_def Let_def split: option.splits dest!: find_Some_in_set simp: list_ex_iff)

text \<open>getCurrentUser returns the requested user with credits recomputed as floor(ecoPoints/100), whatever credits are stored.\<close>

lemma getCurrentUser_credits:
  "getCurrentUser uid st = Some u \<Longrightarrow> credits u = credits_of (ecoPoints u) \<and> user_id u = uid"
  by (auto simp: getCurrentUser_def user.defs split: option.splits dest!: find_Some_in_set)

lemma users_wf_update:
  assumes "users_wf us" and "i < length us" and "email v = email (us ! i)"
    and "credits v = credits_of (ecoPoints v)"
  shows "users_wf (us[i := v])"
proof -
  have "map email (us[i := v]) = map email us"
    using assms(2,3) by (metis list_update_id map_update nth_map)
  then show ?thesis using assms(1,4) by (simp add: users_wf_def list_all_update_keep)
qed

lemma updateCurrentUser_users:
  "users_data (snd (updateCurrentUser ev uid st)) =
     (case users_data st of
        None \<Rightarrow> None
      | Some users \<Rightarrow>
          (case js_findIndex (\<lambda>u. user_id u = uid) users of
             None \<Rightarrow> Some users
           | Some i \<Rightarrow> Some (if write_fails ev USERS then users
                             else users[i := sync_credits ev (users ! i)])))"
  by (auto simp: updateCurrentUser_def Let_def model_defs split: option.splits)

lemma updateCurrentUser_accounts_ok:
  assumes "accounts_ok st"
  shows "accounts_ok (snd (updateCurrentUser ev uid st))"
proof (cases "users_data st")
  case None
  then show ?thesis by (simp add: accounts_ok_def updateCurrentUser_users)
next
  case (Some users)
  with assms have wf: "users_wf users" by (simp add: accounts_ok_def)
  show ?thesis
  proof (cases "js_findIndex (\<lambda>u. user_id u = uid) users")
    case None
    with Some wf show ?thesis by (simp add: accounts_ok_def updateCurrentUser_users)
  next
    case (Some i)
    then have "i < length users" by (auto dest: js_findIndex_SomeD)
    then have "users_wf (users[i := sync_credits ev (users ! i)])"
      using wf by (intro users_wf_update) (simp_all add: sync_credits_def)
    with \<open>users_data st = Some users\<close> Some wf show ?thesis
      by (simp add: accounts_ok_def updateCurrentUser_users)
  qed
qed


lemma award_points_users:
  "users_data (award_points ev uid st) =
     (case users_data st of
        None \<Rightarrow> None
      | Some users \<Rightarrow>
          (case js_findIndex (\<lambda>u. user_id u = uid) users of
             None \<Rightarrow> Some users
           | Some i \<Rightarrow> Some (if write_fails ev USERS then users
                             else users[i := award_eco_points ev (users ! i)])))"
  by (auto simp: award_points_def model_defs split: option.splits)

lemma award_points_frame:
  "reports_data (award_points ev uid st) = reports_data st"
  "notifications_data (award_points ev uid st) = notifications_data st"
  "current_user_data (award_points ev uid st) = current_user_data st"
  "version_data (award_points ev uid st) = version_data st"
  by (auto simp: award_points_def model_defs split: option.splits)

lemma award_points_accounts_ok:
  assumes "accounts_ok st"
  shows "accounts_ok (award_points ev uid st)"
proof (cases "users_data st")
  case None
  then show ?thesis by (simp add: accounts_ok_def award_points_users)
next
  case (Some users)
  with assms have wf: "users_wf users" by (simp add: accounts_ok_def)
  show ?thesis
  proof (cases "js_findIndex (\<lambda>u. user_id u = uid) users")
    case None
    with Some wf show ?thesis by (simp add: accounts_ok_def award_points_users)
  next
    case (Some i)
    then have "i < length users" by (auto dest: js_findIndex_SomeD)
    then have "users_wf (users[i := award_eco_points ev (users ! i)])"
      using wf by (intro users_wf_update) (simp_all add: award_eco_points_def)
    with \<open>users_data st = Some users\<close> Some wf show ?thesis
      by (simp add: accounts_ok_def award_points_users)
  qed
qed

lemma registerUser_only_users:
  "snd (registerUser ev em pw nm st) = st\<lparr>users_data := users_data (snd (registerUser ev em pw nm st))\<rparr>"
proof (cases "registerUser ev em pw nm st")
  case (Pair res st')
  have "st' = st\<lparr>users_data := users_data st'\<rparr>"
  proof (cases res)
    case (Inl e)
    with Pair show ?thesis using registerUser_error_frame by fastforce
  next
    case (Inr u)
    with Pair show ?thesis by (auto simp: registerUser_success)
  qed
  with Pair show ?thesis by simp
qed

lemma award_points_only_users:
  "award_points ev uid st = st\<lparr>users_data := users_data (award_points ev uid st)\<rparr>"
  by (simp add: award_points_def model_defs split: option.splits)

lemma updateCurrentUser_only_users:
  "snd (updateCurrentUser ev uid st) =
     st\<lparr>users_data := users_data (snd (updateCurrentUser ev uid st)),
        current_user_data := current_user_data (snd (updateCurrentUser ev uid st))\<rparr>"
  by (simp add: updateCurrentUser_def Let_def model_defs split: option.splits)

text \<open>Every failed registerUser leaves the store unchanged and reports one of INVALID_EMAIL, INVALID_PASSWORD, INVALID_NAME, STORAGE_ERROR, USER_EXISTS, SAVE_ERROR.\<close>

lemma registerUser_error_codes:
  assumes "registerUser ev em pw nm st = (Inl e, st')"
  shows "st' = st \<and>
         err_code e \<in> {INVALID_EMAIL, INVALID_PASSWORD, INVALID_NAME, STORAGE_ERROR, USER_EXISTS,
                        SAVE_ERROR}"
proof
  show "st' = st" using assms by (rule registerUser_error_frame)
  show "err_code e \<in> {INVALID_EMAIL, INVALID_PASSWORD, INVALID_NAME, STORAGE_ERROR, USER_EXISTS,
                        SAVE_ERROR}"
    using assms by (auto simp: registerUser_def Let_def model_defs split: option.splits if_splits)
qed

text \<open>The specification's example: register(a@b.com, secret1, Jo Lee) succeeds with 0 points and 0 credits, and then register(A@B.com, other1!, Someone) fails with USER_EXISTS.\<close>

theorem spec_example_register:
  "case registerUser (demo_env 1000) ''a@b.com'' ''secret1'' ''Jo Lee''
          (empty_store\<lparr>users_data := Some []\<rparr>) of
     (Inr u, st1) \<Rightarrow>
        email u = ''a@b.com'' \<and> ecoPoints u = 0 \<and> credits u = 0 \<and>
        registerUser (demo_env 2000) ''A@B.com'' ''other1!'' ''Someone'' st1 =
          (Inl (createError USER_EXISTS ''An account with this email already exists''), st1)
   | _ \<Rightarrow> False"
  by (simp add: eval_simps)

text \<open>registerUser validates the name before sanitising, so the name <b></b> passes isValidName and the stored name is empty, which itself fails isValidName.\<close>

theorem register_accepts_empty_name:
  "case registerUser (demo_env 1000) ''a@b.com'' ''secret1'' ''<b></b>''
          (empty_store\<lparr>users_data := Some []\<rparr>) of
     (Inr u, _) \<Rightarrow> isValidName ''<b></b>'' \<and> name u = [] \<and> \<not> isValidName (name u)
   | _ \<Rightarrow> False"
  by (simp add: eval_simps)

theorem registerUser_duplicate_witness:
  "registerUser (demo_env 2000) ''A@B.com'' ''other1!'' ''Someone''
      (snd (registerUser (demo_env 1000) ''a@b.com'' ''secret1'' ''Jo Lee'' demo_directory)) =
   (Inl (createError USER_EXISTS ''An account with this email already exists''),
    snd (registerUser (demo_env 1000) ''a@b.com'' ''secret1'' ''Jo Lee'' demo_directory))"
proof -
  let ?r = "registerUser (demo_env 1000) ''a@b.com'' ''secret1'' ''Jo Lee'' demo_directory"
  have h1: "?r = (Inr (projr (fst ?r)), snd ?r)"
    by (simp add: eval_simps demo_directory_def demo_member_def)
  have h2: "sanitizeString (js_toLowerCase ''A@B.com'') = sanitizeString (js_toLowerCase ''a@b.com'')"
    by (simp add: eval_simps)
  have h3: "isValidEmail ''A@B.com''" "isValidPassword ''other1!''" "isValidName ''Someone''"
    by (simp_all add: eval_simps)
  show ?thesis by (rule registerUser_duplicate [OF h1 h2 h3])
qed

theorem register_then_login_witness:
  "loginUser ''a@b.com'' ''secret1''
     (snd (registerUser (demo_env 1000) ''a@b.com'' ''secret1'' ''Jo Lee'' demo_directory)) =
   Inr (projr (fst (registerUser (demo_env 1000) ''a@b.com'' ''secret1'' ''Jo Lee'' demo_directory)))"
proof -
  let ?r = "registerUser (demo_env 1000) ''a@b.com'' ''secret1'' ''Jo Lee'' demo_directory"
  have h: "?r = (Inr (projr (fst ?r)), snd ?r)"
    by (simp add: eval_simps demo_directory_def demo_member_def)
  show ?thesis by (rule register_then_login [OF h])
qed

theorem registerUser_error_codes_witness:
  "snd (registerUser (demo_env 1000) ''jo.b.com'' ''secret1'' ''Jo'' demo_directory) = demo_directory \<and>
   err_code (projl (fst (registerUser (demo_env 1000) ''jo.b.com'' ''secret1'' ''Jo'' demo_directory)))
     \<in> {INVALID_EMAIL, INVALID_PASSWORD, INVALID_NAME, STORAGE_ERROR, USER_EXISTS, SAVE_ERROR}"
proof -
  let ?r = "registerUser (demo_env 1000) ''jo.b.com'' ''secret1'' ''Jo'' demo_directory"
  have h: "?r = (Inl (projl (fst ?r)), snd ?r)"
    by (simp add: eval_simps)
  show ?thesis by (rule registerUser_error_codes [OF h])
qed

theorem loginAdmin_admin_witness:
  "role (projr (loginAdmin (demo_env 5) ''Admin1@Sydney.gov.au'' ''admin1pass'')) = RoleAdmin \<and>
   ecoPoints (projr (loginAdmin (demo_env 5) ''Admin1@Sydney.gov.au'' ''admin1pass'')) = 0 \<and>
   credits (projr (loginAdmin (demo_env 5) ''Admin1@Sydney.gov.au'' ''admin1pass'')) = 0 \<and>
   list_ex (\<lambda>a. admin_email a = email (projr (loginAdmin (demo_env 5) ''Admin1@Sydney.gov.au'' ''admin1pass''))
                 \<and> admin_password a = ''admin1pass'') ADMIN_ACCOUNTS"
proof -
  let ?r = "loginAdmin (demo_env 5) ''Admin1@Sydney.gov.au'' ''admin1pass''"
  have h: "?r = Inr (projr ?r)" by (simp add: eval_simps)
  show ?thesis by (rule loginAdmin_admin [OF h])
qed

theorem getCurrentUser_credits_witness:
  "credits (the (getCurrentUser ''user_1'' demo_directory)) =
     credits_of (ecoPoints (the (getCurrentUser ''user_1'' demo_directory))) \<and>
   user_id (the (getCurrentUser ''user_1'' demo_directory)) = ''user_1''"
proof -
  have h: "getCurrentUser ''user_1'' demo_directory = Some (the (getCurrentUser ''user_1'' demo_directory))"
    by (simp add: eval_simps demo_directory_def demo_member_def)
  show ?thesis by (rule getCurrentUser_credits [OF h])
qed

end
