(* ===== verification/Reports.thy ===== *)
theory Reports
  imports Accounts
begin

text \<open>
  The report ledger of \<open>src/src/app/utils/storage.ts\<close>: \<open>saveReport\<close> (lines 297-390),
  \<open>getReports\<close> (392-398), \<open>updateReportStatus\<close> (400-414) and \<open>getUserStats\<close>
  (416-436). \<open>saveReport\<close> validates its input in the order of the source, sanitises the
  free-text fields, rejects a near duplicate, appends the report, and then applies the point
  award of the account directory (\<open>Accounts.award_points\<close>) to the owner.
  The duplicate test uses the planar distance of the source, on exact reals: the model does
  not reproduce the rounding of IEEE doubles. \<open>isValidCoordinates\<close> on reals has no
  \<open>NaN\<close> case.
\<close>

subsection \<open>Operations\<close>

text \<open>The argument \<open>Omit<Report, 'id' | 'timestamp' | 'status' | 'createdAt' | 'updatedAt'>\<close>.\<close>

record report_input =
  in_userId :: string
  in_type :: string
  in_description :: string
  in_photo :: "string option"
  in_location :: location

definition planar_distance :: "location \<Rightarrow> location \<Rightarrow> real" where
  "planar_distance p q =
     (let latDiff = \<bar>lat p - lat q\<bar>; lngDiff = \<bar>lng p - lng q\<bar>
      in sqrt (latDiff * latDiff + lngDiff * lngDiff) * 111000)"

text \<open>The predicate of \<open>reports.some(...)\<close> (lines 332-341).\<close>

definition is_duplicate :: "timestamp \<Rightarrow> report_input \<Rightarrow> report \<Rightarrow> bool" where
  "is_duplicate fiveMinutesAgo inp r =
     (if userId r \<noteq> in_userId inp then False
      else if timestamp r < fiveMinutesAgo then False
      else planar_distance (location r) (in_location inp) < 10)"

definition new_report :: "env \<Rightarrow> report_input \<Rightarrow> string \<Rightarrow> string \<Rightarrow> string \<Rightarrow> report" where
  "new_report ev inp sType sDescription sAddress =
     \<lparr>report_id = ''report_'' @ js_int_to_string (now ev) @ ''_'' @ rand ev,
      userId = in_userId inp, report_type = sType, description = sDescription,
      photo = in_photo inp,
      location = \<lparr>lat = lat (in_location inp), lng = lng (in_location inp), address = sAddress\<rparr>,
      timestamp = now ev, status = Pending, report_createdAt = now ev, report_updatedAt = now ev\<rparr>"

definition saveReport :: "env \<Rightarrow> report_input \<Rightarrow> store \<Rightarrow> (storage_error + report) \<times> store" where
  "saveReport ev inp st =
     (if in_userId inp = []
      then (Inl (createError INVALID_USER ''Invalid user ID''), st)
      else if in_type inp = [] \<or> length (js_trim (in_type inp)) = 0
      then (Inl (createError INVALID_TYPE ''Report type is required''), st)
      else if in_description inp = [] \<or> length (js_trim (in_description inp)) < 10
      then (Inl (createError INVALID_DESCRIPTION ''Description must be at least 10 characters''), st)
      else if \<not> isValidCoordinates (lat (in_location inp)) (lng (in_location inp))
      then (Inl (createError INVALID_LOCATION ''Invalid location coordinates''), st)
      else
        let sanitizedType = sanitizeString (in_type inp);
            sanitizedDescription = sanitizeString (in_description inp);
            sanitizedAddress = sanitizeString (address (in_location inp))
        in case reports_data st of
             None \<Rightarrow> (Inl (createError STORAGE_ERROR ''Unable to access storage''), st)
           | Some reports \<Rightarrow>
               if list_ex (is_duplicate (now ev - 5 * 60 * 1000) inp) reports
               then (Inl (createError DUPLICATE_REPORT
                       ''You recently submitted a report for this location''), st)
               else
                 let newReport = new_report ev inp sanitizedType sanitizedDescription sanitizedAddress;
                     (saved, st1) = set_reports ev (reports @ [newReport]) st
                 in if \<not> saved
                    then (Inl (createError SAVE_ERROR ''Failed to save report''), st1)
                    else (Inr newReport, award_points ev (in_userId inp) st1))"

definition getReports :: "store \<Rightarrow> report list" where
  "getReports st = (case reports_data st of None \<Rightarrow> [] | Some reports \<Rightarrow> reports)"

definition set_status :: "env \<Rightarrow> status \<Rightarrow> report \<Rightarrow> report" where
  "set_status ev s r = r\<lparr>status := s, report_updatedAt := now ev\<rparr>"

definition updateReportStatus :: "env \<Rightarrow> string \<Rightarrow> status \<Rightarrow> store \<Rightarrow> store" where
  "updateReportStatus ev rid s st =
     (case reports_data st of
        None \<Rightarrow> st
      | Some reports \<Rightarrow>
          (case js_findIndex (\<lambda>r. report_id r = rid) reports of
             None \<Rightarrow> st
           | Some i \<Rightarrow> snd (set_reports ev (reports[i := set_status ev s (reports ! i)]) st)))"

record user_stats =
  totalMembers :: nat
  totalReports :: nat
  satisfaction :: nat

definition getUserStats :: "store \<Rightarrow> user_stats" where
  "getUserStats st =
     (case (users_data st, reports_data st) of
        (Some users, Some reports) \<Rightarrow>
          \<lparr>totalMembers = length users + 5000, totalReports = length reports + 25000,
           satisfaction = 90\<rparr>
      | _ \<Rightarrow> \<lparr>totalMembers = 5000, totalReports = 25000, satisfaction = 90\<rparr>)"

subsection \<open>The abstract ledger\<close>

text \<open>
  What the ledger promises: a finite map from report identifiers to reports. Every lookup
  of the source (\<open>findIndex\<close>, \<open>find\<close>) takes the first report with an identifier,
  and so does \<open>map_of\<close>.
\<close>

definition ledger :: "report list \<Rightarrow> string \<rightharpoonup> report" where
  "ledger rs = map_of (map (\<lambda>r. (report_id r, r)) rs)"

definition report_ok :: "report \<Rightarrow> bool" where
  "report_ok r \<longleftrightarrow> userId r \<noteq> [] \<and> isValidCoordinates (lat (location r)) (lng (location r)) \<and>
     report_createdAt r = timestamp r"

definition ledger_ok :: "store \<Rightarrow> bool" where
  "ledger_ok st = (case reports_data st of None \<Rightarrow> True | Some rs \<Rightarrow> list_all report_ok rs)"

subsection \<open>Accepted input and concrete inputs\<close>

text \<open>
  \<open>input_ok\<close> is the conjunction of the four checks of lines 302-316, stated on the
  trimmed strings; \<open>saved_report\<close> is the report that \<open>saveReport\<close> stores for an
  input. \<open>demo_input\<close> is a concrete submission used to evaluate the model; \<open>status_rank\<close> orders the statuses along the
  life cycle pending, reviewed, resolved of the specification.
\<close>

definition input_ok :: "report_input \<Rightarrow> bool" where
  "input_ok inp \<longleftrightarrow> in_userId inp \<noteq> [] \<and> js_trim (in_type inp) \<noteq> [] \<and>
     10 \<le> length (js_trim (in_description inp)) \<and>
     isValidCoordinates (lat (in_location inp)) (lng (in_location inp))"

abbreviation saved_report :: "env \<Rightarrow> report_input \<Rightarrow> report" where
  "saved_report ev inp \<equiv> new_report ev inp (sanitizeString (in_type inp))
     (sanitizeString (in_description inp)) (sanitizeString (address (in_location inp)))"

definition demo_input :: report_input where
  "demo_input = \<lparr>in_userId = ''user_1'', in_type = ''Plastic Bottles'',
     in_description = ''Bottles left on the footpath'', in_photo = None,
     in_location = \<lparr>lat = -33.8688, lng = 151.2093, address = ''George St, Sydney CBD''\<rparr>\<rparr>"

definition demo_store :: store where
  "demo_store = demo_directory\<lparr>reports_data := Some []\<rparr>"

definition status_rank :: "status \<Rightarrow> nat" where
  "status_rank s = (case s of Pending \<Rightarrow> 0 | Reviewed \<Rightarrow> 1 | Resolved \<Rightarrow> 2)"

declare planar_distance_def [eval_simps] is_duplicate_def [eval_simps] new_report_def [eval_simps]
  saveReport_def [eval_simps] getReports_def [eval_simps] set_status_def [eval_simps]
  updateReportStatus_def [eval_simps] getUserStats_def [eval_simps]

subsection \<open>Properties\<close>

lemma sqrt_mult_lt_iff:
  fixes x c :: real
  assumes "0 < c"
  shows "sqrt x * 111000 < c \<longleftrightarrow> x * 12321000000 < c * c"
proof -
  have "sqrt x * 111000 = sqrt (x * 12321000000)"
    by (simp add: real_sqrt_mult)
  moreover have "c = sqrt (c * c)"
    using assms by simp
  ultimately have "sqrt x * 111000 < c \<longleftrightarrow> sqrt (x * 12321000000) < sqrt (c * c)"
    by simp
  then show ?thesis by (simp only: real_sqrt_less_iff)
qed

lemma planar_distance_lt_10 [eval_simps]:
  "planar_distance p q < 10 \<longleftrightarrow>
     ((lat p - lat q) * (lat p - lat q) + (lng p - lng q) * (lng p - lng q)) * 12321000000 < 100"
  unfolding planar_distance_def Let_def abs_mult_self_eq
  by (simp add: sqrt_mult_lt_iff)

lemma saveReport_success:
  "saveReport ev inp st = (Inr r, st') \<longleftrightarrow>
     input_ok inp \<and> \<not> write_fails ev REPORTS \<and>
     (\<exists>reports. reports_data st = Some reports \<and>
        \<not> list_ex (is_duplicate (now ev - 300000) inp) reports \<and> r = saved_report ev inp \<and>
        st' = award_points ev (in_userId inp) (st\<lparr>reports_data := Some (reports @ [r])\<rparr>))"
  by (auto simp: saveReport_def input_ok_def Let_def model_defs split: option.splits if_splits)

lemma saveReport_error_frame:
  "saveReport ev inp st = (Inl e, st') \<Longrightarrow> st' = st"
  by (auto simp: saveReport_def Let_def model_defs split: option.splits if_splits)

text \<open>C1: A valid submission by a user who has a stored report within the last five minutes (inclusive) and less than 10 m away is rejected with DUPLICATE_REPORT and the store is left unchanged.\<close>

lemma saveReport_duplicate:
  assumes "input_ok inp" and "reports_data st = Some reports" and "r \<in> set reports"
    and "userId r = in_userId inp" and "now ev - 300000 \<le> timestamp r"
    and "planar_distance (location r) (in_location inp) < 10"
  shows "saveReport ev inp st =
           (Inl (createError DUPLICATE_REPORT ''You recently submitted a report for this location''), st)"
proof -
  have "list_ex (is_duplicate (now ev - 300000) inp) reports"
    unfolding list_ex_iff using assms(3-6) by (intro bexI [of _ r]) (auto simp: is_duplicate_def)
  moreover from assms(1) have "in_type inp \<noteq> []" "in_description inp \<noteq> []"
    by (auto simp: input_ok_def)
  ultimately show ?thesis using assms(1,2) by (simp add: saveReport_def input_ok_def)
qed

lemma award_eco_points_points:
  "ecoPoints (award_eco_points ev u) = ecoPoints u + 10"
  "credits (award_eco_points ev u) = (ecoPoints u + 10) div 100"
  "user_id (award_eco_points ev u) = user_id u"
  by (simp_all add: award_eco_points_def credits_of_def)

text \<open>C2: When a report is accepted, its owner is stored and the user write succeeds, the owner's ecoPoints grow by exactly 10 and credits become floor((ecoPoints+10)/100).\<close>

lemma saveReport_awards_points:
  assumes "saveReport ev inp st = (Inr r, st')" and "users_data st = Some users"
    and "js_findIndex (\<lambda>u. user_id u = in_userId inp) users = Some i"
    and "\<not> write_fails ev USERS"
  shows "users_data st' = Some (users[i := award_eco_points ev (users ! i)]) \<and>
         ecoPoints (the (users_data st') ! i) = ecoPoints (users ! i) + 10 \<and>
         credits (the (users_data st') ! i) = (ecoPoints (users ! i) + 10) div 100"
proof -
  from assms(1) have st': "st' = award_points ev (in_userId inp) (st\<lparr>reports_data := Some (getReports st @ [r])\<rparr>)"
    unfolding saveReport_success getReports_def by auto
  have "i < length users" using assms(3) by (auto dest: js_findIndex_SomeD)
  then show ?thesis using assms(2-4) st' by (simp add: award_points_users award_eco_points_points)
qed

lemma saveReport_reports:
  "saveReport ev inp st = (Inr r, st') \<Longrightarrow> reports_data st' = Some (getReports st @ [r])"
  unfolding saveReport_success getReports_def by (auto simp: award_points_frame)

lemma ledger_find: "ledger rs k = find (\<lambda>r. report_id r = k) rs"
  by (induction rs) (auto simp: ledger_def)

lemma ledger_append_fresh:
  "ledger rs (report_id r) = None \<Longrightarrow> ledger (rs @ [r]) = (ledger rs)(report_id r \<mapsto> r)"
  by (auto simp: ledger_def fun_eq_iff map_add_def split: option.splits)

lemma ledger_update_found:
  "js_findIndex (\<lambda>r. report_id r = k) rs = Some i \<Longrightarrow> report_id v = k \<Longrightarrow>
     ledger (rs[i := v]) = (ledger rs)(k \<mapsto> v)"
proof (induction rs arbitrary: i)
  case Nil
  then show ?case by simp
next
  case (Cons x xs)
  then show ?case
    by (cases i) (auto simp: ledger_def fun_eq_iff split: if_splits)
qed

lemma updateReportStatus_reports:
  "reports_data (updateReportStatus ev rid s st) =
     (case reports_data st of
        None \<Rightarrow> None
      | Some rs \<Rightarrow> Some (case js_findIndex (\<lambda>r. report_id r = rid) rs of
                          None \<Rightarrow> rs
                        | Some i \<Rightarrow> if write_fails ev REPORTS then rs
                                    else rs[i := set_status ev s (rs ! i)]))"
  by (auto simp: updateReportStatus_def model_defs split: option.splits)

text \<open>C6: On the abstract ledger (report id to first report with that id), updateReportStatus with a successful write sets the status and updatedAt of the report with that id and changes nothing else, and is a no-op for an unknown id.\<close>

lemma updateReportStatus_refines:
  assumes "reports_data st = Some rs" and "\<not> write_fails ev REPORTS"
  shows "ledger (getReports (updateReportStatus ev rid s st)) =
           (case ledger rs rid of None \<Rightarrow> ledger rs | Some r \<Rightarrow> (ledger rs)(rid \<mapsto> set_status ev s r))"
proof (cases "js_findIndex (\<lambda>r. report_id r = rid) rs")
  case None
  then have "ledger rs rid = None"
    by (simp add: ledger_find find_conv_js_findIndex)
  with None assms show ?thesis by (simp add: getReports_def updateReportStatus_reports)
next
  case (Some i)
  then have "ledger rs rid = Some (rs ! i)"
    by (simp add: ledger_find js_findIndex_Some_find)
  moreover have "report_id (set_status ev s (rs ! i)) = rid"
    using Some by (auto simp: set_status_def dest: js_findIndex_SomeD)
  ultimately show ?thesis using Some assms
    by (simp add: getReports_def updateReportStatus_reports ledger_update_found)
qed

text \<open>C7: On the abstract ledger, a successful saveReport with a fresh id adds exactly the new report under its id.\<close>

lemma saveReport_refines:
  assumes "saveReport ev inp st = (Inr r, st')" and "ledger (getReports st) (report_id r) = None"
  shows "ledger (getReports st') = (ledger (getReports st))(report_id r \<mapsto> r)"
  using saveReport_reports [OF assms(1)] assms(2)
  by (simp add: getReports_def ledger_append_fresh)

lemma saveReport_ledger_ok:
  assumes "ledger_ok st"
  shows "ledger_ok (snd (saveReport ev inp st))"
proof (cases "saveReport ev inp st")
  case (Pair res st')
  show ?thesis
  proof (cases res)
    case (Inl e)
    with Pair assms show ?thesis using saveReport_error_frame by fastforce
  next
    case (Inr r)
    with Pair have ok: "saveReport ev inp st = (Inr r, st')" by simp
    then have "input_ok inp" and r: "r = saved_report ev inp"
      unfolding saveReport_success by blast+
    then have "report_ok r"
      by (simp add: report_ok_def input_ok_def new_report_def)
    moreover have "list_all report_ok (getReports st)"
      using assms by (simp add: ledger_ok_def getReports_def split: option.splits)
    ultimately show ?thesis using Pair Inr saveReport_reports [OF ok]
      by (simp add: ledger_ok_def)
  qed
qed

lemma updateReportStatus_ledger_ok:
  assumes "ledger_ok st"
  shows "ledger_ok (updateReportStatus ev rid s st)"
proof (cases "reports_data st")
  case None
  then show ?thesis by (simp add: ledger_ok_def updateReportStatus_reports)
next
  case (Some rs)
  note rs = this
  with assms have all: "list_all report_ok rs" by (simp add: ledger_ok_def)
  show ?thesis
  proof (cases "js_findIndex (\<lambda>r. report_id r = rid) rs")
    case None
    with Some all show ?thesis by (simp add: ledger_ok_def updateReportStatus_reports)
  next
    case (Some i)
    then have "i < length rs" by (auto dest: js_findIndex_SomeD)
    with all have "report_ok (set_status ev s (rs ! i))"
      by (simp add: list_all_length report_ok_def set_status_def)
    with all rs Some show ?thesis
      by (simp add: ledger_ok_def updateReportStatus_reports list_all_update_keep)
  qed
qed

text \<open>A second submission at the same place is rejected when the stored report is exactly five minutes old and accepted one millisecond later.\<close>

theorem duplicate_window_boundary:
  "fst (saveReport (demo_env 1000000) demo_input
          (empty_store\<lparr>reports_data := Some [(saved_report (demo_env 700000) demo_input)]\<rparr>))
     = Inl (createError DUPLICATE_REPORT ''You recently submitted a report for this location'') \<and>
   fst (saveReport (demo_env 1000001) demo_input
          (empty_store\<lparr>reports_data := Some [(saved_report (demo_env 700000) demo_input)]\<rparr>))
     = Inr (saved_report (demo_env 1000001) demo_input)"
  by (simp add: eval_simps demo_env_def demo_input_def planar_distance_lt_10)

text \<open>C21: saveReport checks the length of the raw trimmed description and stores the sanitised one: every input that passes the checks on its raw fields, from a user with no recent report nearby, is saved with the description sanitizeString makes of it, however short that is.\<close>

theorem saveReport_stores_sanitised_description:
  assumes "input_ok inp" and "reports_data st = Some reports"
    and "\<not> list_ex (is_duplicate (now ev - 300000) inp) reports" and "\<not> write_fails ev REPORTS"
  shows "\<exists>r st'. saveReport ev inp st = (Inr r, st') \<and> description r = sanitizeString (in_description inp)"
proof -
  let ?r = "saved_report ev inp"
  have "saveReport ev inp st = (Inr ?r, award_points ev (in_userId inp) (st\<lparr>reports_data := Some (reports @ [?r])\<rparr>))"
    using assms by (simp add: saveReport_success)
  moreover have "description ?r = sanitizeString (in_description inp)" by (simp add: new_report_def)
  ultimately show ?thesis by blast
qed

text \<open>updateReportStatus does not enforce the forward life cycle pending, reviewed, resolved: a resolved report can be set back to pending.\<close>

theorem status_can_move_backward:
  "let st = updateReportStatus (demo_env 2000) (report_id (saved_report (demo_env 1000) demo_input)) Resolved
              (empty_store\<lparr>reports_data := Some [saved_report (demo_env 1000) demo_input]\<rparr>);
       st' = updateReportStatus (demo_env 3000) (report_id (saved_report (demo_env 1000) demo_input)) Pending st
   in map status (getReports st) = [Resolved] \<and> map status (getReports st') = [Pending] \<and>
      status_rank Pending < status_rank Resolved"
  by (simp add: eval_simps demo_env_def demo_input_def status_rank_def)

lemma updateReportStatus_only_reports:
  "updateReportStatus ev rid s st = st\<lparr>reports_data := reports_data (updateReportStatus ev rid s st)\<rparr>"
  by (simp add: updateReportStatus_def model_defs split: option.splits)

lemma saveReport_only_users_reports:
  "snd (saveReport ev inp st) =
     st\<lparr>users_data := users_data (snd (saveReport ev inp st)),
        reports_data := reports_data (snd (saveReport ev inp st))\<rparr>"
proof (cases "saveReport ev inp st")
  case (Pair res st')
  then show ?thesis
  proof (cases res)
    case (Inl e)
    with Pair show ?thesis using saveReport_error_frame by fastforce
  next
    case (Inr r)
    with Pair have "saveReport ev inp st = (Inr r, st')" by simp
    then have "st' = award_points ev (in_userId inp) (st\<lparr>reports_data := Some (getReports st @ [r])\<rparr>)"
      unfolding saveReport_success getReports_def by auto
    with Pair show ?thesis using award_points_only_users award_points_frame(1) by (metis snd_conv store.update_convs(1,2) store.surjective)
  qed
qed

lemma saveReport_accounts_ok:
  "accounts_ok st \<Longrightarrow> accounts_ok (snd (saveReport ev inp st))"
proof (cases "saveReport ev inp st")
  case (Pair res st')
  assume ok: "accounts_ok st"
  show ?thesis
  proof (cases res)
    case (Inl e)
    with Pair ok show ?thesis using saveReport_error_frame by fastforce
  next
    case (Inr r)
    with Pair have "saveReport ev inp st = (Inr r, st')" by simp
    then have "st' = award_points ev (in_userId inp) (st\<lparr>reports_data := Some (getReports st @ [r])\<rparr>)"
      unfolding saveReport_success getReports_def by auto
    with Pair ok show ?thesis
      using award_points_accounts_ok [of "st\<lparr>reports_data := Some (getReports st @ [r])\<rparr>"]
      by (simp add: accounts_ok_def)
  qed
qed

text \<open>Every failed saveReport leaves the store unchanged and reports one of INVALID_USER, INVALID_TYPE, INVALID_DESCRIPTION, INVALID_LOCATION, STORAGE_ERROR, DUPLICATE_REPORT, SAVE_ERROR.\<close>

lemma saveReport_error_codes:
  assumes "saveReport ev inp st = (Inl e, st')"
  shows "st' = st \<and>
         err_code e \<in> {INVALID_USER, INVALID_TYPE, INVALID_DESCRIPTION, INVALID_LOCATION,
                        STORAGE_ERROR, DUPLICATE_REPORT, SAVE_ERROR}"
proof
  show "st' = st" using assms by (rule saveReport_error_frame)
  show "err_code e \<in> {INVALID_USER, INVALID_TYPE, INVALID_DESCRIPTION, INVALID_LOCATION,
                        STORAGE_ERROR, DUPLICATE_REPORT, SAVE_ERROR}"
    using assms unfolding saveReport_def Let_def
    by (auto simp: createError_def set_reports_def safeSetItem_def
        split: option.split_asm if_split_asm prod.split_asm)
qed

theorem saveReport_stores_sanitised_description_witness:
  "input_ok (demo_input\<lparr>in_description := ''<p></p>abc''\<rparr>)
   \<and> reports_data (empty_store\<lparr>reports_data := Some []\<rparr>) = Some []
   \<and> \<not> list_ex (is_duplicate (now (demo_env 1000000) - 300000) (demo_input\<lparr>in_description := ''<p></p>abc''\<rparr>)) []
   \<and> \<not> write_fails (demo_env 1000000) REPORTS
   \<and> (\<exists>r st'. saveReport (demo_env 1000000) (demo_input\<lparr>in_description := ''<p></p>abc''\<rparr>)
         (empty_store\<lparr>reports_data := Some []\<rparr>) = (Inr r, st')
       \<and> description r = sanitizeString ''<p></p>abc'')
   \<and> sanitizeString ''<p></p>abc'' = ''abc''"
proof -
  have h: "input_ok (demo_input\<lparr>in_description := ''<p></p>abc''\<rparr>)"
    "reports_data (empty_store\<lparr>reports_data := Some []\<rparr>) = Some []"
    "\<not> list_ex (is_duplicate (now (demo_env 1000000) - 300000) (demo_input\<lparr>in_description := ''<p></p>abc''\<rparr>)) []"
    "\<not> write_fails (demo_env 1000000) REPORTS"
    "sanitizeString ''<p></p>abc'' = ''abc''"
    by (simp_all add: eval_simps input_ok_def demo_input_def demo_env_def)
  show ?thesis using h saveReport_stores_sanitised_description [OF h(1-4)] by simp
qed

theorem saveReport_duplicate_witness:
  "saveReport (demo_env 1000000) demo_input
     (demo_store\<lparr>reports_data := Some [saved_report (demo_env 700000) demo_input]\<rparr>) =
   (Inl (createError DUPLICATE_REPORT ''You recently submitted a report for this location''),
    demo_store\<lparr>reports_data := Some [saved_report (demo_env 700000) demo_input]\<rparr>)"
proof -
  let ?r = "saved_report (demo_env 700000) demo_input"
  have h1: "input_ok demo_input" by (simp add: input_ok_def demo_input_def eval_simps)
  have h2: "reports_data (demo_store\<lparr>reports_data := Some [?r]\<rparr>) = Some [?r]" by simp
  have h3: "?r \<in> set [?r]" by simp
  have h4: "userId ?r = in_userId demo_input" by (simp add: new_report_def)
  have h5: "now (demo_env 1000000) - 300000 \<le> timestamp ?r" by (simp add: eval_simps)
  have h6: "planar_distance (location ?r) (in_location demo_input) < 10"
    by (simp add: new_report_def planar_distance_def)
  show ?thesis by (rule saveReport_duplicate [OF h1 h2 h3 h4 h5 h6])
qed

theorem saveReport_awards_points_witness:
  "users_data (snd (saveReport (demo_env 1000) demo_input demo_store)) =
     Some ([demo_member][0 := award_eco_points (demo_env 1000) ([demo_member] ! 0)]) \<and>
   ecoPoints (the (users_data (snd (saveReport (demo_env 1000) demo_input demo_store))) ! 0) =
     ecoPoints ([demo_member] ! 0) + 10 \<and>
   credits (the (users_data (snd (saveReport (demo_env 1000) demo_input demo_store))) ! 0) =
     (ecoPoints ([demo_member] ! 0) + 10) div 100"
proof -
  let ?s = "saveReport (demo_env 1000) demo_input demo_store"
  have h1: "?s = (Inr (projr (fst ?s)), snd ?s)"
    by (simp add: eval_simps demo_store_def demo_directory_def demo_member_def demo_input_def)
  have h2: "users_data demo_store = Some [demo_member]" by (simp add: demo_store_def demo_directory_def)
  have h3: "js_findIndex (\<lambda>u. user_id u = in_userId demo_input) [demo_member] = Some 0"
    by (simp add: demo_member_def demo_input_def)
  have h4: "\<not> write_fails (demo_env 1000) USERS" by (simp add: demo_env_def)
  show ?thesis by (rule saveReport_awards_points [OF h1 h2 h3 h4])
qed

theorem saveReport_refines_witness:
  "ledger (getReports (snd (saveReport (demo_env 1000) demo_input demo_store))) =
   (ledger (getReports demo_store))
     (report_id (projr (fst (saveReport (demo_env 1000) demo_input demo_store))) \<mapsto>
      projr (fst (saveReport (demo_env 1000) demo_input demo_store)))"
proof -
  let ?s = "saveReport (demo_env 1000) demo_input demo_store"
  have h1: "?s = (Inr (projr (fst ?s)), snd ?s)"
    by (simp add: eval_simps demo_store_def demo_directory_def demo_member_def demo_input_def)
  have h2: "ledger (getReports demo_store) (report_id (projr (fst ?s))) = None"
    by (simp add: ledger_def getReports_def demo_store_def demo_directory_def)
  show ?thesis by (rule saveReport_refines [OF h1 h2])
qed

theorem updateReportStatus_refines_witness:
  "ledger (getReports (updateReportStatus (demo_env 2000) ''r1'' Reviewed
      (demo_store\<lparr>reports_data := Some [(saved_report (demo_env 1000) demo_input)\<lparr>report_id := ''r1''\<rparr>]\<rparr>))) =
   (case ledger [(saved_report (demo_env 1000) demo_input)\<lparr>report_id := ''r1''\<rparr>] ''r1'' of
      None \<Rightarrow> ledger [(saved_report (demo_env 1000) demo_input)\<lparr>report_id := ''r1''\<rparr>]
    | Some r \<Rightarrow> (ledger [(saved_report (demo_env 1000) demo_input)\<lparr>report_id := ''r1''\<rparr>])
                  (''r1'' \<mapsto> set_status (demo_env 2000) Reviewed r))"
proof -
  let ?rs = "[(saved_report (demo_env 1000) demo_input)\<lparr>report_id := ''r1''\<rparr>]"
  have h1: "reports_data (demo_store\<lparr>reports_data := Some ?rs\<rparr>) = Some ?rs" by simp
  have h2: "\<not> write_fails (demo_env 2000) REPORTS" by (simp add: demo_env_def)
  show ?thesis by (rule updateReportStatus_refines [OF h1 h2])
qed

theorem saveReport_error_codes_witness:
  "snd (saveReport (demo_env 1000) (demo_input\<lparr>in_description := ''short''\<rparr>) demo_store) = demo_store \<and>
   err_code (projl (fst (saveReport (demo_env 1000) (demo_input\<lparr>in_description := ''short''\<rparr>) demo_store)))
     \<in> {INVALID_USER, INVALID_TYPE, INVALID_DESCRIPTION, INVALID_LOCATION,
         STORAGE_ERROR, DUPLICATE_REPORT, SAVE_ERROR}"
proof -
  let ?s = "saveReport (demo_env 1000) (demo_input\<lparr>in_description := ''short''\<rparr>) demo_store"
  have h: "?s = (Inl (projl (fst ?s)), snd ?s)"
    by (simp add: eval_simps demo_input_def)
  show ?thesis by (rule saveReport_error_codes [OF h])
qed

end
