(* ===== verification/DateFns.thy ===== *)
theory DateFns
  imports Prelude
begin

text \<open>
  The calendar functions \<open>reportGenerator.ts\<close> calls: \<open>Date.prototype.getDay\<close> and the
  \<open>date-fns\<close> functions \<open>startOfWeek\<close>, \<open>endOfWeek\<close>, \<open>isWithinInterval\<close> and
  \<open>format\<close> with the patterns \<open>MMMM d, yyyy\<close> and \<open>EEEE, MMMM d, yyyy\<close>. They are library
  code, modelled from the library's documented behaviour.
  \<^item> An instant is a \<open>timestamp\<close> (milliseconds since the epoch). Local time is the instant
    shifted by a fixed zone offset \<open>tz\<close> in milliseconds; daylight-saving changes are not
    modelled. \<open>local_day\<close> numbers the local calendar days, day 0 being 1970-01-01, a
    Thursday.
  \<^item> \<open>startOfWeek\<close> and \<open>endOfWeek\<close> are the library's: the distance \<open>diff\<close> to the
    first (last) day of the week, then the time set to 00:00:00.000 (23:59:59.999).
  \<^item> \<open>civil_from_days\<close> is the proleptic Gregorian calendar (year, month, day) of a day
    number, the computation of the engine's \<open>getFullYear\<close>, \<open>getMonth\<close>, \<open>getDate\<close>.
  Shown: a week is the set of instants whose day number has the same \<open>week_index\<close>; it
  starts on a Monday at local midnight and lasts seven days less one millisecond.
\<close>

definition ms_per_day :: int where
  "ms_per_day = 86400000"

definition local_day :: "int \<Rightarrow> timestamp \<Rightarrow> int" where
  "local_day tz t = (t + tz) div ms_per_day"

text \<open>\<open>getDay()\<close>: 0 for Sunday to 6 for Saturday.\<close>

definition getDay :: "int \<Rightarrow> timestamp \<Rightarrow> int" where
  "getDay tz t = (local_day tz t + 4) mod 7"

definition startOfWeek :: "int \<Rightarrow> int \<Rightarrow> timestamp \<Rightarrow> timestamp" where
  "startOfWeek tz weekStartsOn t =
     (let day = getDay tz t;
          diff = (if day < weekStartsOn then 7 else 0) + day - weekStartsOn
      in (local_day tz t - diff) * ms_per_day - tz)"

definition endOfWeek :: "int \<Rightarrow> int \<Rightarrow> timestamp \<Rightarrow> timestamp" where
  "endOfWeek tz weekStartsOn t =
     (let day = getDay tz t;
          diff = (if day < weekStartsOn then -7 else 0) + 6 - (day - weekStartsOn)
      in (local_day tz t + diff) * ms_per_day + (ms_per_day - 1) - tz)"

definition isWithinInterval :: "timestamp \<Rightarrow> timestamp \<Rightarrow> timestamp \<Rightarrow> bool" where
  "isWithinInterval t start end \<longleftrightarrow> start \<le> t \<and> t \<le> end"

text \<open>The week, counted from the Monday before the epoch, that a day number belongs to.\<close>

definition week_index :: "int \<Rightarrow> int" where
  "week_index d = (d + 3) div 7"

subsection \<open>Calendar dates and \<open>format\<close>\<close>

definition civil_from_days :: "int \<Rightarrow> int \<times> int \<times> int" where
  "civil_from_days days =
     (let z = days + 719468;
          era = z div 146097;
          doe = z mod 146097;
          yoe = (doe - doe div 1460 + doe div 36524 - doe div 146096) div 365;
          doy = doe - (365 * yoe + yoe div 4 - yoe div 100);
          mp = (5 * doy + 2) div 153;
          d = doy - (153 * mp + 2) div 5 + 1;
          m = (if mp < 10 then mp + 3 else mp - 9);
          y = yoe + era * 400 + (if m \<le> 2 then 1 else 0)
      in (y, m, d))"

definition month_names :: "string list" where
  "month_names = [''January'', ''February'', ''March'', ''April'', ''May'', ''June'', ''July'',
     ''August'', ''September'', ''October'', ''November'', ''December'']"

definition weekday_names :: "string list" where
  "weekday_names = [''Sunday'', ''Monday'', ''Tuesday'', ''Wednesday'', ''Thursday'', ''Friday'',
     ''Saturday'']"

text \<open>
  \<open>yyyy\<close> prints the era year (\<open>1 - y\<close> for a year \<open>y \<le> 0\<close>) padded with zeros to
  four digits; \<open>d\<close> prints the day without padding; \<open>MMMM\<close> and \<open>EEEE\<close> print the
  English month and weekday names.
\<close>

definition format_yyyy :: "int \<Rightarrow> string" where
  "format_yyyy y =
     (let s = js_nat_digits (nat (if 0 < y then y else 1 - y)) in replicate (4 - length s) CHR ''0'' @ s)"

definition format_MMMM_d_yyyy :: "int \<Rightarrow> timestamp \<Rightarrow> string" where
  "format_MMMM_d_yyyy tz t =
     (case civil_from_days (local_day tz t) of (y, m, d) \<Rightarrow>
        month_names ! nat (m - 1) @ '' '' @ js_int_to_string d @ '', '' @ format_yyyy y)"

definition format_EEEE_MMMM_d_yyyy :: "int \<Rightarrow> timestamp \<Rightarrow> string" where
  "format_EEEE_MMMM_d_yyyy tz t =
     weekday_names ! nat (getDay tz t) @ '', '' @ format_MMMM_d_yyyy tz t"

declare ms_per_day_def [eval_simps] local_day_def [eval_simps] getDay_def [eval_simps]
  startOfWeek_def [eval_simps] endOfWeek_def [eval_simps] isWithinInterval_def [eval_simps]
  civil_from_days_def [eval_simps] month_names_def [eval_simps] weekday_names_def [eval_simps]
  format_yyyy_def [eval_simps] format_MMMM_d_yyyy_def [eval_simps]
  format_EEEE_MMMM_d_yyyy_def [eval_simps] week_index_def [eval_simps]

subsection \<open>Weeks starting on Monday\<close>

lemma mod7_succ: "(x + 4) mod 7 = (if (x + 3) mod 7 = 6 then 0 else (x + 3) mod 7 + (1::int))"
proof -
  have "((x + 3) mod 7 + 1) mod 7 = (x + 3 + 1) mod 7" by (rule mod_add_left_eq)
  then have m: "(x + 4) mod 7 = ((x + 3) mod 7 + 1) mod 7" by (simp add: ac_simps)
  have "0 \<le> (x + 3) mod 7" "(x + 3) mod (7::int) < 7" by simp_all
  with m show ?thesis by (auto simp: mod_pos_pos_trivial)
qed
lemma getDay_monday_diff:
  "(if getDay tz t < 1 then 7 else 0) + getDay tz t - 1 = (local_day tz t + 3) mod 7"
  by (simp add: getDay_def mod7_succ)

lemma startOfWeek_monday:
  "startOfWeek tz 1 t = (7 * week_index (local_day tz t) - 3) * ms_per_day - tz"
proof -
  have e: "(local_day tz t + 3) div 7 * 7 + (local_day tz t + 3) mod 7 = local_day tz t + 3"
    by (rule div_mult_mod_eq)
  then have "local_day tz t - (local_day tz t + 3) mod 7 = 7 * week_index (local_day tz t) - 3"
    unfolding week_index_def by linarith
  then show ?thesis
    by (simp only: startOfWeek_def Let_def getDay_monday_diff)
qed

lemma endOfWeek_monday:
  "endOfWeek tz 1 t = (7 * week_index (local_day tz t) - 3 + 7) * ms_per_day - 1 - tz"
proof -
  let ?x = "local_day tz t"
  have e: "(?x + 3) div 7 * 7 + (?x + 3) mod 7 = ?x + 3" by (rule div_mult_mod_eq)
  have n: "0 \<le> (?x + 3) mod 7" by simp
  have eq: "?x + ((if getDay tz t < 1 then -7 else 0) + 6 - (getDay tz t - 1))
        = 7 * week_index ?x + 3"
  proof (cases "(?x + 3) mod 7 = 6")
    case True
    with e show ?thesis by (simp add: getDay_def mod7_succ week_index_def)
  next
    case False
    then have s: "getDay tz t = (?x + 3) mod 7 + 1" by (simp add: getDay_def mod7_succ)
    with n have "\<not> getDay tz t < 1" by linarith
    then have "?x + ((if getDay tz t < 1 then -7 else 0) + 6 - (getDay tz t - 1))
               = ?x + (6 - (getDay tz t - 1))" by simp
    with e s show ?thesis unfolding week_index_def by linarith
  qed
  have "endOfWeek tz 1 t = (7 * week_index ?x + 3) * ms_per_day + (ms_per_day - 1) - tz"
    by (simp only: endOfWeek_def Let_def eq)
  then show ?thesis by (simp add: algebra_simps)
qed

lemma ms_per_day_pos: "0 < ms_per_day"
  by (simp add: ms_per_day_def)

lemma week_index_eq_iff:
  "week_index x = w \<longleftrightarrow> 7 * w - 3 \<le> x \<and> x < 7 * w - 3 + 7"
  unfolding week_index_def
  using int_le_div_iff [of 7 w "x + 3"] int_div_less_iff [of 7 "x + 3" "w + 1"] by auto

text \<open>
  The interval from \<open>startOfWeek\<close> to \<open>endOfWeek\<close> of an instant holds exactly the
  instants of the same week: \<open>isWithinInterval\<close> on it is equality of week indices.
\<close>

lemma same_week_iff:
  "isWithinInterval s (startOfWeek tz 1 t) (endOfWeek tz 1 t) \<longleftrightarrow>
   week_index (local_day tz s) = week_index (local_day tz t)"
proof -
  let ?a = "7 * week_index (local_day tz t) - 3"
  have "isWithinInterval s (startOfWeek tz 1 t) (endOfWeek tz 1 t) \<longleftrightarrow>
        ?a * ms_per_day \<le> s + tz \<and> s + tz < (?a + 7) * ms_per_day"
    unfolding isWithinInterval_def startOfWeek_monday endOfWeek_monday by linarith
  also have "\<dots> \<longleftrightarrow> ?a \<le> local_day tz s \<and> local_day tz s < ?a + 7"
    unfolding local_day_def
    using int_le_div_iff [OF ms_per_day_pos] int_div_less_iff [OF ms_per_day_pos] by blast
  also have "\<dots> \<longleftrightarrow> week_index (local_day tz s) = week_index (local_day tz t)"
    by (simp only: week_index_eq_iff)
  finally show ?thesis .
qed

lemma startOfWeek_is_monday_midnight:
  "getDay tz (startOfWeek tz 1 t) = 1 \<and> (startOfWeek tz 1 t + tz) mod ms_per_day = 0"
proof -
  let ?m = "7 * week_index (local_day tz t) - 3"
  have d: "local_day tz (startOfWeek tz 1 t) = ?m"
    unfolding local_day_def startOfWeek_monday using ms_per_day_pos by simp
  have "(?m + 4) mod 7 = 1" by (simp add: algebra_simps)
  with d show ?thesis
    unfolding getDay_def startOfWeek_monday by simp
qed

lemma week_length:
  "endOfWeek tz 1 t - startOfWeek tz 1 t = 7 * ms_per_day - 1"
  unfolding startOfWeek_monday endOfWeek_monday by (simp add: algebra_simps)

end
