(* ===== verification/JsRecord.thy ===== *)
theory JsRecord
  imports Prelude
begin

text \<open>
  Plain JavaScript objects used as dictionaries, \<open>Record<string, V>\<close>, as
  \<open>reportGenerator.ts\<close> uses them: \<open>obj[k] = (obj[k] || d) + 1\<close> inside a
  \<open>forEach\<close>, then \<open>Object.entries(obj)\<close>.
  \<^item> An object is an association list in property-creation order; \<open>alist_bump\<close> is the
    update of one key (an existing property keeps its place, a new one goes last);
    \<open>count_by\<close> is the counting loop.
  \<^item> \<open>Object.entries\<close> lists the keys that are array indices (canonical decimal numerals
    below \<open>2^32 - 1\<close>) first, in increasing numeric order, and the other string keys after
    them in creation order (ECMAScript, OrdinaryOwnPropertyKeys). \<open>js_entries\<close> is that
    order.
  \<^item> The model is exact for keys that are not properties of \<open>Object.prototype\<close>
    (\<open>js_proto_keys\<close>). For such a key the code reads the inherited property: \<open>(obj[k] || 0) + 1\<close>
    is then a string (\<open>constructor\<close>, \<open>toString\<close>, \<open>valueOf\<close>, \<dots>) or the assignment is
    dropped (\<open>__proto__\<close>), and sorting by the difference of counts compares \<open>NaN\<close>, whose
    order ECMAScript leaves to the implementation; these keys are not modelled, and the
    theorems that read counts assume none occurs.
  Shown: the counting loop computes the occurrence count of every key and lists each key
  once, in order of first occurrence (\<open>rev (remdups (rev xs))\<close>: \<open>remdups\<close> keeps
  last occurrences); \<open>js_entries\<close> is a permutation of the object; taking
  the first \<open>n\<close> of a list sorted by decreasing count keeps the \<open>n\<close> largest counts.
\<close>

fun alist_bump :: "'k \<Rightarrow> 'v \<Rightarrow> ('v \<Rightarrow> 'v) \<Rightarrow> ('k \<times> 'v) list \<Rightarrow> ('k \<times> 'v) list" where
  "alist_bump k d f [] = [(k, f d)]"
| "alist_bump k d f ((k', v) # xs) = (if k = k' then (k', f v) # xs else (k', v) # alist_bump k d f xs)"

definition count_by :: "('a \<Rightarrow> 'k) \<Rightarrow> 'a list \<Rightarrow> ('k \<times> nat) list" where
  "count_by key xs = foldl (\<lambda>acc x. alist_bump (key x) 0 Suc acc) [] xs"

text \<open>The own properties of \<open>Object.prototype\<close> (ECMAScript 2023, Annex B included).\<close>

definition js_proto_keys :: "string list" where
  "js_proto_keys = [''constructor'', ''__defineGetter__'', ''__defineSetter__'', ''hasOwnProperty'',
     ''__lookupGetter__'', ''__lookupSetter__'', ''isPrototypeOf'', ''propertyIsEnumerable'',
     ''toString'', ''valueOf'', ''__proto__'', ''toLocaleString'']"

definition js_is_digit :: "char \<Rightarrow> bool" where
  "js_is_digit c \<longleftrightarrow> 48 \<le> (of_char c :: nat) \<and> (of_char c :: nat) \<le> 57"

definition js_digits_value :: "string \<Rightarrow> nat" where
  "js_digits_value s = foldl (\<lambda>n c. 10 * n + ((of_char c :: nat) - 48)) 0 s"

definition js_is_array_index :: "string \<Rightarrow> bool" where
  "js_is_array_index s \<longleftrightarrow>
     s \<noteq> [] \<and> list_all js_is_digit s \<and> (s = ''0'' \<or> 48 < (of_char (hd s) :: nat))
     \<and> js_digits_value s < 2 ^ 32 - 1"

definition js_entries :: "(string \<times> 'v) list \<Rightarrow> (string \<times> 'v) list" where
  "js_entries xs =
     sort_key (\<lambda>p. js_digits_value (fst p)) (filter (\<lambda>p. js_is_array_index (fst p)) xs)
     @ filter (\<lambda>p. \<not> js_is_array_index (fst p)) xs"

declare count_by_def [eval_simps] js_proto_keys_def [eval_simps] js_is_digit_def [eval_simps] js_digits_value_def [eval_simps]
  js_is_array_index_def [eval_simps] js_entries_def [eval_simps]

subsection \<open>The update of one key\<close>

lemma alist_bump_keys:
  "map fst (alist_bump k d f xs) = (if k \<in> fst ` set xs then map fst xs else map fst xs @ [k])"
  by (induction xs) force+

lemma map_of_alist_bump:
  "map_of (alist_bump k d f xs) = (map_of xs)(k \<mapsto> f (case map_of xs k of None \<Rightarrow> d | Some v \<Rightarrow> v))"
  by (induction xs) (auto simp: fun_eq_iff)

subsection \<open>The counting loop\<close>

lemma count_by_append:
  "count_by key (xs @ [x]) = alist_bump (key x) 0 Suc (count_by key xs)"
  by (simp add: count_by_def)

lemma count_by_keys: "map fst (count_by key xs) = rev (remdups (rev (map key xs)))"
proof (induction xs rule: rev_induct)
  case Nil
  show ?case by (simp add: count_by_def)
next
  case (snoc x xs)
  have keys: "fst ` set (count_by key xs) = key ` set xs"
    by (metis snoc.IH set_map set_remdups set_rev)
  with snoc.IH show ?case
    by (simp add: count_by_append alist_bump_keys)
qed

lemma map_of_count_by:
  "map_of (count_by key xs) k =
     (if k \<in> key ` set xs then Some (length (filter (\<lambda>x. key x = k) xs)) else None)"
proof (induction xs rule: rev_induct)
  case Nil
  show ?case by (simp add: count_by_def)
next
  case (snoc x xs)
  show ?case
  proof (cases "k = key x")
    case True
    have "k \<notin> key ` set xs \<Longrightarrow> filter (\<lambda>y. key y = k) xs = []"
      by (auto simp: filter_empty_conv)
    with True snoc.IH show ?thesis
      by (simp add: count_by_append map_of_alist_bump split: if_splits)
  next
    case False
    with snoc.IH show ?thesis
      by (simp add: count_by_append map_of_alist_bump)
  qed
qed

lemma distinct_count_by: "distinct (map fst (count_by key xs))"
  by (simp add: count_by_keys)

lemma count_by_member:
  "(k, c) \<in> set (count_by key xs) \<longleftrightarrow>
   k \<in> key ` set xs \<and> c = length (filter (\<lambda>x. key x = k) xs)"
proof
  assume "(k, c) \<in> set (count_by key xs)"
  with distinct_count_by have "map_of (count_by key xs) k = Some c" by (rule map_of_is_SomeI)
  then show "k \<in> key ` set xs \<and> c = length (filter (\<lambda>x. key x = k) xs)"
    by (simp add: map_of_count_by split: if_splits)
next
  assume "k \<in> key ` set xs \<and> c = length (filter (\<lambda>x. key x = k) xs)"
  then have "map_of (count_by key xs) k = Some c" by (simp add: map_of_count_by)
  then show "(k, c) \<in> set (count_by key xs)" by (rule map_of_SomeD)
qed

lemma sum_count_by: "sum_list (map snd (count_by key xs)) = length xs"
proof (induction xs rule: rev_induct)
  case Nil
  show ?case by (simp add: count_by_def)
next
  case (snoc x xs)
  have step: "sum_list (map snd (alist_bump k 0 Suc ys)) = Suc (sum_list (map snd ys))" for k ys
    by (induction ys) auto
  from snoc show ?case by (simp add: count_by_append step)
qed

subsection \<open>\<open>Object.entries\<close>\<close>

lemma mset_js_entries: "mset (js_entries xs) = mset xs"
  by (simp add: js_entries_def)

lemma set_js_entries: "set (js_entries xs) = set xs"
  by (metis mset_js_entries set_mset_mset)

lemma distinct_js_entries:
  "distinct (map fst xs) \<Longrightarrow> distinct (map fst (js_entries xs))"
  by (metis mset_js_entries mset_map mset_eq_imp_distinct_iff)

subsection \<open>The first \<open>n\<close> of a list sorted by decreasing key\<close>

lemma sort_key_take_drop:
  assumes "y \<in> set (take n (sort_key f xs))" and "x \<in> set (drop n (sort_key f xs))"
  shows "f y \<le> f x"
proof -
  have "sorted (map f (take n (sort_key f xs)) @ map f (drop n (sort_key f xs)))"
    unfolding map_append [symmetric] append_take_drop_id by simp
  then have "\<forall>a\<in>set (take n (sort_key f xs)). \<forall>b\<in>set (drop n (sort_key f xs)). f a \<le> f b"
    unfolding sorted_append by simp
  with assms show ?thesis by blast
qed

lemma set_take_drop_sort_key:
  assumes "x \<in> set xs"
  shows "x \<in> set (take n (sort_key f xs)) \<or> x \<in> set (drop n (sort_key f xs))"
proof -
  have "x \<in> set (take n (sort_key f xs) @ drop n (sort_key f xs))"
    unfolding append_take_drop_id using assms by simp
  then show ?thesis unfolding set_append by blast
qed

end
