(* ===== verification/Weekly.thy ===== *)
theory Weekly
  imports Reports DateFns JsRecord
begin

text \<open>
  The weekly report generator of \<open>src/src/app/utils/reportGenerator.ts\<close>: a read-only
  consumer of the report ledger and the account directory.
  \<^item> \<open>weekly_report\<close> and its parts are the interface \<open>WeeklyReport\<close> (lines 4-26);
    the field \<open>count\<close> of an area is \<open>area_reports\<close>, \<open>summary.totalReports\<close> and
    \<open>summary.totalMembers\<close> are \<open>summary_totalReports\<close> and \<open>summary_totalMembers\<close>.
  \<^item> \<open>generateWeeklyReport\<close> (lines 28-105) reads the clock of the environment and a
    fixed zone offset; its loops are \<open>count_by\<close> and \<open>contributor_counts\<close>, its two
    rankings \<open>rank_top10\<close> (sort by decreasing count, which is stable, then the first ten).
  \<^item> \<open>weekly_csv\<close> is the text \<open>downloadWeeklyReportAsCSV\<close> builds (lines 118-149)
    before the download; \<open>getNextSundayDate\<close> is lines 160-167.
\<close>

subsection \<open>The report record\<close>

record weekly_summary =
  summary_totalReports :: nat
  pendingReports :: nat
  reviewedReports :: nat
  resolvedReports :: nat
  newMembers :: nat
  summary_totalMembers :: nat

record area_count =
  area :: string
  area_reports :: nat

record contributor =
  contributor_userId :: string
  userName :: string
  reportCount :: nat

record weekly_report =
  reportDate :: string
  weekStart :: string
  weekEnd :: string
  summary :: weekly_summary
  reportsByType :: "(string \<times> nat) list"
  reportsByLocation :: "area_count list"
  topContributors :: "contributor list"

subsection \<open>Helpers of the aggregation\<close>

text \<open>\<open>String.prototype.split\<close> with a one-character separator.\<close>

fun js_split :: "char \<Rightarrow> string \<Rightarrow> string list" where
  "js_split c [] = [[]]"
| "js_split c (x # xs) =
     (let ps = js_split c xs in if x = c then [] # ps else (x # hd ps) # tl ps)"

text \<open>The inverse of \<open>js_split\<close>, \<open>Array.prototype.join\<close> with a one-character separator.\<close>

fun join_with :: "char \<Rightarrow> string list \<Rightarrow> string" where
  "join_with c [] = []"
| "join_with c [p] = p"
| "join_with c (p # q # ps) = p @ c # join_with c (q # ps)"

text \<open>The area of a report: the second comma-separated part of its address, else the first.\<close>

definition area_of :: "report \<Rightarrow> string" where
  "area_of r =
     (let parts = js_split (CHR '','') (address (location r))
      in if length parts > 1 then js_trim (parts ! 1) else js_trim (parts ! 0))"

definition weekly_reports :: "int \<Rightarrow> timestamp \<Rightarrow> report list \<Rightarrow> report list" where
  "weekly_reports tz t rs =
     filter (\<lambda>r. isWithinInterval (timestamp r) (startOfWeek tz 1 t) (endOfWeek tz 1 t)) rs"

definition count_status :: "status \<Rightarrow> report list \<Rightarrow> nat" where
  "count_status s rs = length (filter (\<lambda>r. status r = s) rs)"

text \<open>\<open>user?.name || 'Unknown User'\<close>: an absent user and an empty name both fall back.\<close>

definition display_name :: "user list \<Rightarrow> string \<Rightarrow> string" where
  "display_name users uid =
     (case find (\<lambda>u. user_id u = uid) users of
        Some u \<Rightarrow> if name u = [] then ''Unknown User'' else name u
      | None \<Rightarrow> ''Unknown User'')"

definition contributor_counts :: "user list \<Rightarrow> report list \<Rightarrow> (string \<times> nat \<times> string) list" where
  "contributor_counts users rs =
     foldl (\<lambda>acc r. alist_bump (userId r) (0, display_name users (userId r))
                      (\<lambda>(c, n). (Suc c, n)) acc) [] rs"

text \<open>\<open>.sort((a, b) => key b - key a).slice(0, 10)\<close>; the sort is stable.\<close>

definition rank_top10 :: "('a \<Rightarrow> nat) \<Rightarrow> 'a list \<Rightarrow> 'a list" where
  "rank_top10 g xs = take 10 (sort_key (\<lambda>x. - int (g x)) xs)"

definition location_ranking :: "report list \<Rightarrow> area_count list" where
  "location_ranking wr =
     rank_top10 area_reports
       (map (\<lambda>(a, c). \<lparr>area = a, area_reports = c\<rparr>) (js_entries (count_by area_of wr)))"

definition contributor_ranking :: "user list \<Rightarrow> report list \<Rightarrow> contributor list" where
  "contributor_ranking users wr =
     rank_top10 reportCount
       (map (\<lambda>(u, c, n). \<lparr>contributor_userId = u, userName = n, reportCount = c\<rparr>)
          (js_entries (contributor_counts users wr)))"

subsection \<open>\<open>generateWeeklyReport\<close>\<close>

definition generateWeeklyReport :: "env \<Rightarrow> int \<Rightarrow> store \<Rightarrow> weekly_report" where
  "generateWeeklyReport ev tz st =
     (let t = now ev;
          allReports = getReports st;
          stats = getUserStats st;
          allUsers = getAllUsers st;
          wr = weekly_reports tz t allReports
      in \<lparr>reportDate = format_MMMM_d_yyyy tz t,
          weekStart = format_MMMM_d_yyyy tz (startOfWeek tz 1 t),
          weekEnd = format_MMMM_d_yyyy tz (endOfWeek tz 1 t),
          summary = \<lparr>summary_totalReports = length wr,
                     pendingReports = count_status Pending wr,
                     reviewedReports = count_status Reviewed wr,
                     resolvedReports = count_status Resolved wr,
                     newMembers = 0,
                     summary_totalMembers = totalMembers stats\<rparr>,
          reportsByType = count_by report_type wr,
          reportsByLocation = location_ranking wr,
          topContributors = contributor_ranking allUsers wr\<rparr>)"

subsection \<open>The CSV export\<close>

text \<open>
  The source writes each line end as \<open>'\\n'\<close> inside a single-quoted or template
  literal, which is the two characters backslash and \<open>n\<close>, not a line feed:
  \<open>csv_nl\<close>.
\<close>

definition csv_nl :: string where
  "csv_nl = [CHR 0x5C, CHR ''n'']"

definition csv_num :: "nat \<Rightarrow> string" where
  "csv_num n = js_int_to_string (int n)"

definition weekly_csv :: "weekly_report \<Rightarrow> string" where
  "weekly_csv rep =
     ''Sydney City Council - Weekly Rubbish Report'' @ csv_nl @ csv_nl
     @ ''Report Date,'' @ reportDate rep @ csv_nl
     @ ''Week Period,'' @ weekStart rep @ '' to '' @ weekEnd rep @ csv_nl @ csv_nl
     @ ''SUMMARY STATISTICS'' @ csv_nl
     @ ''Metric,Count'' @ csv_nl
     @ ''Total Reports,'' @ csv_num (summary_totalReports (summary rep)) @ csv_nl
     @ ''Pending Reports,'' @ csv_num (pendingReports (summary rep)) @ csv_nl
     @ ''Reviewed Reports,'' @ csv_num (reviewedReports (summary rep)) @ csv_nl
     @ ''Resolved Reports,'' @ csv_num (resolvedReports (summary rep)) @ csv_nl
     @ ''Total Community Members,'' @ csv_num (summary_totalMembers (summary rep)) @ csv_nl @ csv_nl
     @ ''REPORTS BY TYPE'' @ csv_nl
     @ ''Type,Count'' @ csv_nl
     @ concat (map (\<lambda>(ty, c). ty @ '','' @ csv_num c @ csv_nl) (js_entries (reportsByType rep)))
     @ csv_nl
     @ ''TOP AFFECTED AREAS'' @ csv_nl
     @ ''Location,Reports'' @ csv_nl
     @ concat (map (\<lambda>a. area a @ '','' @ csv_num (area_reports a) @ csv_nl) (reportsByLocation rep))
     @ csv_nl
     @ ''TOP CONTRIBUTORS'' @ csv_nl
     @ ''User Name,Reports Submitted'' @ csv_nl
     @ concat (map (\<lambda>c. userName c @ '','' @ csv_num (reportCount c) @ csv_nl) (topContributors rep))"

subsection \<open>\<open>getNextSundayDate\<close>\<close>

definition daysUntilSunday :: "int \<Rightarrow> int" where
  "daysUntilSunday currentDay = (if currentDay = 0 then 7 else 7 - currentDay)"

definition next_sunday :: "env \<Rightarrow> int \<Rightarrow> timestamp" where
  "next_sunday ev tz = now ev + daysUntilSunday (getDay tz (now ev)) * ms_per_day"

definition getNextSundayDate :: "env \<Rightarrow> int \<Rightarrow> string" where
  "getNextSundayDate ev tz = format_EEEE_MMMM_d_yyyy tz (next_sunday ev tz)"

subsection \<open>Demo data\<close>

text \<open>
  Sydney time (UTC+10); the clock at Sunday 9 November 2025, 20:00 local. Three reports of
  that week (one exactly at its Monday midnight) and one a second before it.
\<close>

definition sydney_tz :: int where
  "sydney_tz = 36000000"

definition demo_report :: "string \<Rightarrow> string \<Rightarrow> string \<Rightarrow> string \<Rightarrow> timestamp \<Rightarrow> status \<Rightarrow> report" where
  "demo_report rid uid ty addr t s =
     \<lparr>report_id = rid, userId = uid, report_type = ty, description = ''Rubbish on the street'',
      photo = None, location = \<lparr>lat = -33.87, lng = 151.21, address = addr\<rparr>,
      timestamp = t, status = s, report_createdAt = t, report_updatedAt = t\<rparr>"

definition demo_week_store :: store where
  "demo_week_store = demo_directory\<lparr>reports_data := Some
     [demo_report ''r1'' ''user_1'' ''Plastic Bottles'' ''George St, Sydney CBD'' 1762092000000 Pending,
      demo_report ''r2'' ''user_1'' ''Cans'' ''Oxford St, Paddington'' 1762300000000 Resolved,
      demo_report ''r3'' ''user_9'' ''Plastic Bottles'' ''Market St, Sydney CBD'' 1762400000000 Reviewed,
      demo_report ''r4'' ''user_1'' ''Cans'' ''Pitt St, Sydney CBD'' 1762091999000 Pending]\<rparr>"

declare js_split.simps [eval_simps] area_of_def [eval_simps] weekly_reports_def [eval_simps]
  count_status_def [eval_simps] display_name_def [eval_simps] contributor_counts_def [eval_simps]
  rank_top10_def [eval_simps] location_ranking_def [eval_simps] contributor_ranking_def [eval_simps]
  generateWeeklyReport_def [eval_simps] csv_nl_def [eval_simps] csv_num_def [eval_simps]
  weekly_csv_def [eval_simps] daysUntilSunday_def [eval_simps] next_sunday_def [eval_simps]
  getNextSundayDate_def [eval_simps] sydney_tz_def [eval_simps] demo_report_def [eval_simps]
  demo_week_store_def [eval_simps]

subsection \<open>Rankings\<close>

lemma rank_top10_length: "length (rank_top10 g xs) \<le> 10"
  by (simp add: rank_top10_def)

lemma rank_top10_subset: "set (rank_top10 g xs) \<subseteq> set xs"
  unfolding rank_top10_def by (metis set_sort set_take_subset)

lemma rank_top10_sorted: "sorted_wrt (\<lambda>a b. g b \<le> g a) (rank_top10 g xs)"
proof -
  have s: "sorted_wrt (\<lambda>a b. - int (g a) \<le> - int (g b)) (sort_key (\<lambda>x. - int (g x)) xs)"
    using sorted_sort_key [of "\<lambda>x. - int (g x)" xs] by (simp only: sorted_map)
  have "sorted_wrt (\<lambda>a b. - int (g a) \<le> - int (g b)) (rank_top10 g xs)"
    unfolding rank_top10_def by (rule sorted_wrt_take [OF s])
  then show ?thesis by (rule sorted_wrt_mono_rel [rotated]) simp
qed

lemma rank_top10_top:
  assumes "x \<in> set xs" and "x \<notin> set (rank_top10 g xs)" and "y \<in> set (rank_top10 g xs)"
  shows "g x \<le> g y"
proof -
  let ?s = "sort_key (\<lambda>x. - int (g x)) xs"
  have "x \<in> set (take 10 ?s) \<or> x \<in> set (drop 10 ?s)"
    by (rule set_take_drop_sort_key [OF assms(1)])
  moreover have "x \<notin> set (take 10 ?s)" and y: "y \<in> set (take 10 ?s)"
    using assms(2,3) by (simp_all add: rank_top10_def)
  ultimately have "x \<in> set (drop 10 ?s)" by blast
  with y have "- int (g y) \<le> - int (g x)" by (rule sort_key_take_drop)
  then show ?thesis by simp
qed

subsection \<open>Counts\<close>

lemma alist_bump_annotate:
  "map (\<lambda>(k, c). (k, c, h k)) (alist_bump k 0 Suc xs) =
   alist_bump k (0, h k) (\<lambda>(c, n). (Suc c, n)) (map (\<lambda>(k, c). (k, c, h k)) xs)"
  by (induction xs) auto

lemma contributor_counts_eq:
  "contributor_counts users rs = map (\<lambda>(k, c). (k, c, display_name users k)) (count_by userId rs)"
proof (induction rs rule: rev_induct)
  case Nil
  show ?case by (simp add: contributor_counts_def count_by_def)
next
  case (snoc r rs)
  then show ?case
    by (simp add: contributor_counts_def count_by_append alist_bump_annotate)
qed

lemma location_ranking_member:
  assumes "a \<in> set (location_ranking wr)"
  shows "area a \<in> area_of ` set wr \<and> area_reports a = length (filter (\<lambda>r. area_of r = area a) wr)"
proof -
  let ?f = "\<lambda>(a, c). \<lparr>area = a, area_reports = c\<rparr>"
  have "a \<in> set (map ?f (js_entries (count_by area_of wr)))"
    using assms unfolding location_ranking_def by (rule subsetD [OF rank_top10_subset])
  then have "a \<in> ?f ` set (count_by area_of wr)"
    by (simp only: set_map set_js_entries)
  then obtain k c where "(k, c) \<in> set (count_by area_of wr)" and "a = \<lparr>area = k, area_reports = c\<rparr>"
    by auto
  then show ?thesis by (simp add: count_by_member)
qed

lemma location_ranking_top:
  assumes "k \<in> area_of ` set wr" and "k \<notin> area ` set (location_ranking wr)"
    and "a \<in> set (location_ranking wr)"
  shows "length (filter (\<lambda>r. area_of r = k) wr) \<le> area_reports a"
proof -
  let ?f = "\<lambda>(a, c). \<lparr>area = a, area_reports = c\<rparr>"
  let ?x = "\<lparr>area = k, area_reports = length (filter (\<lambda>r. area_of r = k) wr)\<rparr>"
  have "(k, length (filter (\<lambda>r. area_of r = k) wr)) \<in> set (count_by area_of wr)"
    using assms(1) by (simp add: count_by_member)
  then have "?f (k, length (filter (\<lambda>r. area_of r = k) wr)) \<in> ?f ` set (count_by area_of wr)"
    by (rule imageI)
  then have x: "?x \<in> set (map ?f (js_entries (count_by area_of wr)))"
    by (simp only: set_map set_js_entries prod.case)
  have n: "?x \<notin> set (location_ranking wr)"
  proof
    assume "?x \<in> set (location_ranking wr)"
    then have "area ?x \<in> area ` set (location_ranking wr)" by (rule imageI)
    with assms(2) show False by simp
  qed
  have "area_reports ?x \<le> area_reports a"
    by (rule rank_top10_top [OF x n [unfolded location_ranking_def] assms(3) [unfolded location_ranking_def]])
  then show ?thesis by simp
qed

lemma contributor_ranking_member:
  assumes "c \<in> set (contributor_ranking users wr)"
  shows "contributor_userId c \<in> userId ` set wr
         \<and> reportCount c = length (filter (\<lambda>r. userId r = contributor_userId c) wr)
         \<and> userName c = display_name users (contributor_userId c)"
proof -
  let ?f = "\<lambda>(u, c, n). \<lparr>contributor_userId = u, userName = n, reportCount = c\<rparr>"
  let ?h = "\<lambda>(k, c). (k, c, display_name users k)"
  have "c \<in> set (map ?f (js_entries (contributor_counts users wr)))"
    using assms unfolding contributor_ranking_def by (rule subsetD [OF rank_top10_subset])
  then have "c \<in> ?f ` ?h ` set (count_by userId wr)"
    by (simp only: set_map set_js_entries contributor_counts_eq)
  then obtain u n where "(u, n) \<in> set (count_by userId wr)"
      and "c = \<lparr>contributor_userId = u, userName = display_name users u, reportCount = n\<rparr>"
    by auto
  then show ?thesis by (simp add: count_by_member)
qed

lemma contributor_ranking_top:
  assumes "u \<in> userId ` set wr" and "u \<notin> contributor_userId ` set (contributor_ranking users wr)"
    and "c \<in> set (contributor_ranking users wr)"
  shows "length (filter (\<lambda>r. userId r = u) wr) \<le> reportCount c"
proof -
  let ?f = "\<lambda>(u, c, n). \<lparr>contributor_userId = u, userName = n, reportCount = c\<rparr>"
  let ?h = "\<lambda>(k, c). (k, c, display_name users k)"
  let ?n = "length (filter (\<lambda>r. userId r = u) wr)"
  let ?x = "\<lparr>contributor_userId = u, userName = display_name users u, reportCount = ?n\<rparr>"
  have "(u, ?n) \<in> set (count_by userId wr)"
    using assms(1) by (simp add: count_by_member)
  then have "?f (?h (u, ?n)) \<in> ?f ` ?h ` set (count_by userId wr)"
    by (intro imageI)
  then have x: "?x \<in> set (map ?f (js_entries (contributor_counts users wr)))"
    by (simp only: set_map set_js_entries contributor_counts_eq prod.case)
  have n: "?x \<notin> set (contributor_ranking users wr)"
  proof
    assume "?x \<in> set (contributor_ranking users wr)"
    then have "contributor_userId ?x \<in> contributor_userId ` set (contributor_ranking users wr)"
      by (rule imageI)
    with assms(2) show False by simp
  qed
  have "reportCount ?x \<le> reportCount c"
    by (rule rank_top10_top [OF x n [unfolded contributor_ranking_def] assms(3) [unfolded contributor_ranking_def]])
  then show ?thesis by simp
qed

subsection \<open>Properties of the weekly report\<close>

lemma js_split_not_Nil: "js_split c s \<noteq> []"
  by (induction s) (auto simp: Let_def)

lemma length_count_status:
  "length rs = count_status Pending rs + count_status Reviewed rs + count_status Resolved rs"
proof (induction rs)
  case Nil
  show ?case by (simp add: count_status_def)
next
  case (Cons r rs)
  then show ?case by (cases "status r") (simp_all add: count_status_def)
qed

lemma js_nat_digits_no_lf: "CHR 0x0A \<notin> set (js_nat_digits n)"
proof (induction n rule: js_nat_digits.induct)
  case (1 n)
  have d: "char_of (48 + m mod 10) \<noteq> CHR 0x0A" for m :: nat
  proof
    assume "char_of (48 + m mod 10) = CHR 0x0A"
    then have "(of_char (char_of (48 + m mod 10) :: char) :: nat) = of_char (CHR 0x0A)"
      by (rule arg_cong)
    moreover have "48 + m mod 10 < (256::nat)" by simp
    then have "(of_char (char_of (48 + m mod 10) :: char) :: nat) = 48 + m mod 10"
      by (simp add: of_char_of take_bit_nat_eq_self)
    moreover have "(of_char (CHR 0x0A) :: nat) = 10" by simp
    ultimately show False by simp
  qed
  from 1 d [of 0] d [of n] show ?case
    by (subst js_nat_digits.simps) auto
qed

lemma csv_num_no_lf: "CHR 0x0A \<notin> set (csv_num n)"
  by (simp add: csv_num_def js_int_to_string_def js_nat_digits_no_lf)

lemma getDay_add_days: "getDay tz (t + k * ms_per_day) = (getDay tz t + k) mod 7"
proof -
  have "local_day tz (t + k * ms_per_day) = ((t + tz) + k * ms_per_day) div ms_per_day"
    unfolding local_day_def by (simp add: ac_simps)
  also have "\<dots> = k + local_day tz t"
    unfolding local_day_def using ms_per_day_pos by (simp only: div_mult_self1 less_irrefl)
  finally show ?thesis by (simp add: getDay_def mod_simps algebra_simps)
qed

text \<open>C8: The weekly report counts exactly the stored reports whose timestamp falls in the same local Monday-to-Sunday week as now.\<close>

theorem weekly_reports_same_week:
  "r \<in> set (weekly_reports tz t rs) \<longleftrightarrow>
   r \<in> set rs \<and> week_index (local_day tz (timestamp r)) = week_index (local_day tz t)"
  by (simp add: weekly_reports_def same_week_iff)

text \<open>A report timestamped exactly at Monday 00:00 of the current week is in the weekly window and one at the previous Sunday 23:59:59 is not.\<close>

theorem weekly_boundary:
  assumes "r \<in> set rs"
  shows "(timestamp r = startOfWeek tz 1 t \<longrightarrow> r \<in> set (weekly_reports tz t rs))
       \<and> (timestamp r = startOfWeek tz 1 t - 1000 \<longrightarrow> r \<notin> set (weekly_reports tz t rs))"
  using assms week_length [of tz t] ms_per_day_pos
  by (simp add: weekly_reports_def isWithinInterval_def)

text \<open>The summary's total is the sum of its pending, reviewed and resolved counts.\<close>

theorem summary_partition:
  "summary_totalReports (summary (generateWeeklyReport ev tz st)) =
     pendingReports (summary (generateWeeklyReport ev tz st))
     + reviewedReports (summary (generateWeeklyReport ev tz st))
     + resolvedReports (summary (generateWeeklyReport ev tz st))"
  by (simp add: generateWeeklyReport_def Let_def length_count_status)

text \<open>C9: When no report type of the week names a property of Object.prototype, reportsByType of generateWeeklyReport is the count function of the week's report types: it maps each type present to its number of reports, lists each type once, and its counts add up to summary.totalReports.\<close>

theorem reportsByType_counts:
  assumes "\<forall>r\<in>set (weekly_reports tz (now ev) (getReports st)). report_type r \<notin> set js_proto_keys"
  shows "map_of (reportsByType (generateWeeklyReport ev tz st)) k =
     (if k \<in> report_type ` set (weekly_reports tz (now ev) (getReports st))
      then Some (length (filter (\<lambda>r. report_type r = k) (weekly_reports tz (now ev) (getReports st))))
      else None)
   \<and> distinct (map fst (reportsByType (generateWeeklyReport ev tz st)))
   \<and> sum_list (map snd (reportsByType (generateWeeklyReport ev tz st))) =
     summary_totalReports (summary (generateWeeklyReport ev tz st))"
  by (simp add: generateWeeklyReport_def Let_def map_of_count_by distinct_count_by sum_count_by)

text \<open>C10: When no area of the week's reports names a property of Object.prototype, reportsByLocation lists at most ten areas in decreasing order of count, each with its exact number of reports of the week, and no area left out has more reports than a listed one.\<close>

theorem reportsByLocation_top10:
  assumes "\<forall>r\<in>set (weekly_reports tz (now ev) (getReports st)). area_of r \<notin> set js_proto_keys"
  shows "length (reportsByLocation (generateWeeklyReport ev tz st)) \<le> 10
   \<and> sorted_wrt (\<lambda>a b. area_reports b \<le> area_reports a) (reportsByLocation (generateWeeklyReport ev tz st))
   \<and> (\<forall>a\<in>set (reportsByLocation (generateWeeklyReport ev tz st)).
        area_reports a = length (filter (\<lambda>r. area_of r = area a) (weekly_reports tz (now ev) (getReports st))))
   \<and> (\<forall>k\<in>area_of ` set (weekly_reports tz (now ev) (getReports st)).
        k \<notin> area ` set (reportsByLocation (generateWeeklyReport ev tz st)) \<longrightarrow>
        (\<forall>a\<in>set (reportsByLocation (generateWeeklyReport ev tz st)).
           length (filter (\<lambda>r. area_of r = k) (weekly_reports tz (now ev) (getReports st))) \<le> area_reports a))"
proof -
  let ?wr = "weekly_reports tz (now ev) (getReports st)"
  have eq: "reportsByLocation (generateWeeklyReport ev tz st) = location_ranking ?wr"
    by (simp add: generateWeeklyReport_def Let_def)
  have "length (location_ranking ?wr) \<le> 10"
      "sorted_wrt (\<lambda>a b. area_reports b \<le> area_reports a) (location_ranking ?wr)"
    unfolding location_ranking_def by (rule rank_top10_length, rule rank_top10_sorted)
  then show ?thesis
    unfolding eq using location_ranking_member location_ranking_top by blast
qed

text \<open>topContributors lists at most ten users in decreasing order of count, each with their exact number of reports of the week and their display name, and no user left out has more reports than a listed one.\<close>

theorem topContributors_top10:
  "length (topContributors (generateWeeklyReport ev tz st)) \<le> 10
   \<and> sorted_wrt (\<lambda>a b. reportCount b \<le> reportCount a) (topContributors (generateWeeklyReport ev tz st))
   \<and> (\<forall>c\<in>set (topContributors (generateWeeklyReport ev tz st)).
        reportCount c = length (filter (\<lambda>r. userId r = contributor_userId c) (weekly_reports tz (now ev) (getReports st)))
        \<and> userName c = display_name (getAllUsers st) (contributor_userId c))
   \<and> (\<forall>u\<in>userId ` set (weekly_reports tz (now ev) (getReports st)).
        u \<notin> contributor_userId ` set (topContributors (generateWeeklyReport ev tz st)) \<longrightarrow>
        (\<forall>c\<in>set (topContributors (generateWeeklyReport ev tz st)).
           length (filter (\<lambda>r. userId r = u) (weekly_reports tz (now ev) (getReports st))) \<le> reportCount c))"
proof -
  let ?wr = "weekly_reports tz (now ev) (getReports st)"
  have eq: "topContributors (generateWeeklyReport ev tz st) = contributor_ranking (getAllUsers st) ?wr"
    by (simp add: generateWeeklyReport_def Let_def)
  have "length (contributor_ranking (getAllUsers st) ?wr) \<le> 10"
      "sorted_wrt (\<lambda>a b. reportCount b \<le> reportCount a) (contributor_ranking (getAllUsers st) ?wr)"
    unfolding contributor_ranking_def by (rule rank_top10_length, rule rank_top10_sorted)
  then show ?thesis
    unfolding eq using contributor_ranking_member contributor_ranking_top by blast
qed

text \<open>C19: The CSV export ends its lines with the two characters backslash and n, so when no field holds a line feed the whole file has no line feed at all.\<close>

theorem weekly_csv_single_line:
  assumes "CHR 0x0A \<notin> set (reportDate rep)" and "CHR 0x0A \<notin> set (weekStart rep)"
    and "CHR 0x0A \<notin> set (weekEnd rep)"
    and "\<forall>p\<in>set (reportsByType rep). CHR 0x0A \<notin> set (fst p)"
    and "\<forall>a\<in>set (reportsByLocation rep). CHR 0x0A \<notin> set (area a)"
    and "\<forall>c\<in>set (topContributors rep). CHR 0x0A \<notin> set (userName c)"
  shows "CHR 0x0A \<notin> set (weekly_csv rep)"
  using assms by (auto simp: weekly_csv_def csv_nl_def csv_num_no_lf set_js_entries)

text \<open>getNextSundayDate formats a Sunday that lies one to seven days after now.\<close>

theorem next_sunday_is_sunday:
  "getDay tz (next_sunday ev tz) = 0
   \<and> now ev < next_sunday ev tz \<and> next_sunday ev tz \<le> now ev + 7 * ms_per_day"
proof -
  have g: "0 \<le> getDay tz (now ev)" "getDay tz (now ev) < 7" by (simp_all add: getDay_def)
  then have d: "1 \<le> daysUntilSunday (getDay tz (now ev))" "daysUntilSunday (getDay tz (now ev)) \<le> 7"
    by (auto simp: daysUntilSunday_def)
  have "getDay tz (next_sunday ev tz) = 0"
    using g by (auto simp: next_sunday_def getDay_add_days daysUntilSunday_def)
  moreover have "now ev < next_sunday ev tz" and "next_sunday ev tz \<le> now ev + 7 * ms_per_day"
    using d ms_per_day_pos by (simp_all add: next_sunday_def)
  ultimately show ?thesis by simp
qed

text \<open>Joining the parts of address.split(',') with ',' gives back the address, and no part contains a comma.\<close>

theorem js_split_roundtrip:
  "join_with c (js_split c s) = s \<and> c \<notin> set (concat (js_split c s))"
proof (induction s)
  case Nil
  show ?case by simp
next
  case (Cons x xs)
  obtain p ps where ps: "js_split c xs = p # ps"
    using js_split_not_Nil by (metis list.exhaust)
  have j: "join_with c ((y # q) # qs) = y # join_with c (q # qs)" for y q qs
    by (cases qs) simp_all
  show ?case
    using Cons ps by (cases ps) (auto simp: j Let_def)
qed

text \<open>C22: A member registered with a name made only of tags is stored with an empty name and the weekly report lists them as Unknown User, the fallback the spec reserves for an unresolvable id.\<close>

theorem empty_name_shown_unknown:
  assumes reg: "registerUser ev em pw ''<b></b>'' st = (Inr u, st')"
    and fresh: "\<forall>v\<in>set (getAllUsers st). user_id v \<noteq> user_id u"
  shows "display_name (getAllUsers st') (user_id u) = ''Unknown User''"
proof -
  let ?m = "new_member ev (norm_email em) pw (sanitizeString ''<b></b>'')"
  from reg obtain users where us: "users_data st = Some users" and u: "u = user.truncate ?m"
      and st': "st' = st\<lparr>users_data := Some (users @ [?m])\<rparr>"
    by (auto simp: registerUser_success)
  have "\<not> list_ex (\<lambda>v. user_id v = user_id u) (map user.truncate users)"
    using fresh us by (simp add: getAllUsers_def list_ex_iff)
  then have "find (\<lambda>v. user_id v = user_id u) (getAllUsers st') = Some (user.truncate ?m)"
    using u st' by (simp add: getAllUsers_def find_append_notin)
  moreover have "sanitizeString ''<b></b>'' = []" by (simp add: eval_simps)
  ultimately show ?thesis by (simp add: display_name_def new_member_def user.truncate_def)
qed

theorem weekly_boundary_witness:
  "demo_report ''r1'' ''user_1'' ''Cans'' ''George St, Sydney CBD'' 1762092000000 Pending
     \<in> set (weekly_reports sydney_tz 1762682400000
          [demo_report ''r1'' ''user_1'' ''Cans'' ''George St, Sydney CBD'' 1762092000000 Pending,
           demo_report ''r4'' ''user_1'' ''Cans'' ''Pitt St, Sydney CBD'' 1762091999000 Pending])
   \<and> demo_report ''r4'' ''user_1'' ''Cans'' ''Pitt St, Sydney CBD'' 1762091999000 Pending
     \<notin> set (weekly_reports sydney_tz 1762682400000
          [demo_report ''r1'' ''user_1'' ''Cans'' ''George St, Sydney CBD'' 1762092000000 Pending,
           demo_report ''r4'' ''user_1'' ''Cans'' ''Pitt St, Sydney CBD'' 1762091999000 Pending])"
proof -
  let ?r1 = "demo_report ''r1'' ''user_1'' ''Cans'' ''George St, Sydney CBD'' 1762092000000 Pending"
  let ?r4 = "demo_report ''r4'' ''user_1'' ''Cans'' ''Pitt St, Sydney CBD'' 1762091999000 Pending"
  have s: "startOfWeek sydney_tz 1 1762682400000 = 1762092000000"
    by (simp add: startOfWeek_def getDay_def local_day_def ms_per_day_def sydney_tz_def Let_def)
  have h1: "timestamp ?r1 = startOfWeek sydney_tz 1 1762682400000"
    using s by (simp add: demo_report_def)
  have h4: "timestamp ?r4 = startOfWeek sydney_tz 1 1762682400000 - 1000"
    using s by (simp add: demo_report_def)
  show ?thesis
    using weekly_boundary [of ?r1 "[?r1, ?r4]" sydney_tz 1762682400000] h1
      weekly_boundary [of ?r4 "[?r1, ?r4]" sydney_tz 1762682400000] h4
    by simp
qed

theorem reportsByType_counts_witness:
  "list_all (\<lambda>r. report_type r \<notin> set js_proto_keys)
     (weekly_reports sydney_tz (now (demo_env 1762682400000)) (getReports demo_week_store))
   \<and> distinct (map fst (reportsByType (generateWeeklyReport (demo_env 1762682400000) sydney_tz demo_week_store)))"
proof -
  have h: "\<forall>r\<in>set (weekly_reports sydney_tz (now (demo_env 1762682400000)) (getReports demo_week_store)).
             report_type r \<notin> set js_proto_keys"
    by code_simp
  show ?thesis using h reportsByType_counts [OF h] by (simp only: list_all_iff)
qed

theorem reportsByLocation_top10_witness:
  "list_all (\<lambda>r. area_of r \<notin> set js_proto_keys)
     (weekly_reports sydney_tz (now (demo_env 1762682400000)) (getReports demo_week_store))
   \<and> length (reportsByLocation (generateWeeklyReport (demo_env 1762682400000) sydney_tz demo_week_store)) \<le> 10
   \<and> sorted_wrt (\<lambda>a b. area_reports b \<le> area_reports a)
       (reportsByLocation (generateWeeklyReport (demo_env 1762682400000) sydney_tz demo_week_store))"
proof -
  have h: "\<forall>r\<in>set (weekly_reports sydney_tz (now (demo_env 1762682400000)) (getReports demo_week_store)).
             area_of r \<notin> set js_proto_keys"
    by code_simp
  show ?thesis using h reportsByLocation_top10 [OF h] unfolding list_all_iff by blast
qed

theorem topContributors_top10_witness:
  "length (topContributors (generateWeeklyReport (demo_env 1762682400000) sydney_tz demo_week_store)) \<le> 10
   \<and> sorted_wrt (\<lambda>a b. reportCount b \<le> reportCount a)
       (topContributors (generateWeeklyReport (demo_env 1762682400000) sydney_tz demo_week_store))"
  using topContributors_top10 [of "demo_env 1762682400000" sydney_tz demo_week_store] by blast

theorem weekly_csv_single_line_witness:
  "CHR 0x0A \<notin> set (weekly_csv
     \<lparr>reportDate = ''November 9, 2025'', weekStart = ''November 3, 2025'', weekEnd = ''November 9, 2025'',
      summary = \<lparr>summary_totalReports = 3, pendingReports = 1, reviewedReports = 1, resolvedReports = 1,
                 newMembers = 0, summary_totalMembers = 5001\<rparr>,
      reportsByType = [(''Cans'', 3)], reportsByLocation = [\<lparr>area = ''Sydney CBD'', area_reports = 3\<rparr>],
      topContributors = [\<lparr>contributor_userId = ''user_1'', userName = ''Jo'', reportCount = 3\<rparr>]\<rparr>)"
  by (rule weekly_csv_single_line) simp_all

theorem empty_name_shown_unknown_witness:
  "display_name (getAllUsers (snd (registerUser (demo_env 1000) ''a@b.com'' ''secret1'' ''<b></b>'' demo_directory)))
     (user_id (projr (fst (registerUser (demo_env 1000) ''a@b.com'' ''secret1'' ''<b></b>'' demo_directory))))
   = ''Unknown User''"
proof -
  let ?r = "registerUser (demo_env 1000) ''a@b.com'' ''secret1'' ''<b></b>'' demo_directory"
  have h: "?r = (Inr (projr (fst ?r)), snd ?r)"
    by (simp add: eval_simps demo_directory_def demo_member_def)
  have f: "\<forall>v\<in>set (getAllUsers demo_directory). user_id v \<noteq> user_id (projr (fst ?r))"
    by (simp add: eval_simps getAllUsers_def demo_directory_def demo_member_def)
  show ?thesis by (rule empty_name_shown_unknown [OF h f])
qed

end
