(* ===== verification/Notifications.thy ===== *)
theory Notifications
  imports Store
begin

text \<open>
  The notification outbox of \<open>src/src/app/utils/storage.ts\<close>:
  \<open>initializeNotifications\<close> (lines 514-518), \<open>createNotification\<close> (521-566),
  \<open>getUserNotifications\<close> (569-588), \<open>getUnreadNotificationCount\<close> (591-594),
  \<open>markNotificationAsRead\<close> (597-617) and \<open>markAllNotificationsAsRead\<close> (620-640).
  The emoji of the titles are written as their UTF-8 bytes. \<open>Array.prototype.sort\<close> is
  stable (ECMAScript 2019), so the newest-first order of \<open>getUserNotifications\<close> is the
  stable \<open>sort_key\<close> on the negated creation instant.
  \<open>sendEmailNotification\<close> (643-655) only writes to the console and is not modelled.
\<close>

subsection \<open>Operations\<close>

definition initializeNotifications :: "env \<Rightarrow> store \<Rightarrow> store" where
  "initializeNotifications ev st =
     (if notifications_data st = None then snd (set_notifications ev [] st) else st)"

definition quote_char :: char where
  "quote_char = CHR 0x22"

definition notification_title :: "notification_type \<Rightarrow> string" where
  "notification_title t =
     (case t of
        Report_reviewed \<Rightarrow> [CHR 0xE2, CHR 0x9C, CHR 0x85] @ '' Report Reviewed''
      | Report_resolved \<Rightarrow> [CHR 0xF0, CHR 0x9F, CHR 0x8E, CHR 0x89] @ '' Report Resolved'')"

definition notification_message :: "notification_type \<Rightarrow> string \<Rightarrow> string \<Rightarrow> string" where
  "notification_message t rtype addr =
     (case t of
        Report_reviewed \<Rightarrow>
          ''Your report about '' @ [quote_char] @ rtype @ [quote_char] @ '' at '' @ addr @
          '' has been reviewed by our team.''
      | Report_resolved \<Rightarrow>
          ''Great news! Your report about '' @ [quote_char] @ rtype @ [quote_char] @ '' at '' @ addr @
          '' has been resolved. Thank you for helping keep Sydney clean!'')"

definition new_notification ::
  "env \<Rightarrow> string \<Rightarrow> string \<Rightarrow> notification_type \<Rightarrow> string \<Rightarrow> string \<Rightarrow> notification" where
  "new_notification ev uid rid t rtype addr =
     \<lparr>notification_id = ''notification_'' @ js_int_to_string (now ev) @ ''_'' @ rand ev,
      notif_userId = uid, notif_type = t, title = notification_title t,
      message = notification_message t rtype addr, reportId = rid, read = False,
      notif_createdAt = now ev\<rparr>"

text \<open>\<open>reportDetails\<close> is the pair of the report's type and address.\<close>

definition createNotification ::
  "env \<Rightarrow> string \<Rightarrow> string \<Rightarrow> notification_type \<Rightarrow> string \<times> string \<Rightarrow> store \<Rightarrow>
     notification option \<times> store" where
  "createNotification ev uid rid t details st =
     (let st1 = initializeNotifications ev st
      in case notifications_data st1 of
           None \<Rightarrow> (None, st1)
         | Some notifications \<Rightarrow>
             let n = new_notification ev uid rid t (fst details) (snd details)
             in (Some n, snd (set_notifications ev (notifications @ [n]) st1)))"

definition newest_first :: "notification list \<Rightarrow> notification list" where
  "newest_first ns = sort_key (\<lambda>n. - notif_createdAt n) ns"

definition getUserNotifications :: "env \<Rightarrow> string \<Rightarrow> store \<Rightarrow> notification list \<times> store" where
  "getUserNotifications ev uid st =
     (let st1 = initializeNotifications ev st
      in case notifications_data st1 of
           None \<Rightarrow> ([], st1)
         | Some notifications \<Rightarrow>
             (newest_first (filter (\<lambda>n. notif_userId n = uid) notifications), st1))"

definition getUnreadNotificationCount :: "env \<Rightarrow> string \<Rightarrow> store \<Rightarrow> nat \<times> store" where
  "getUnreadNotificationCount ev uid st =
     (let (ns, st1) = getUserNotifications ev uid st
      in (length (filter (\<lambda>n. \<not> read n) ns), st1))"

definition markNotificationAsRead :: "env \<Rightarrow> string \<Rightarrow> store \<Rightarrow> bool \<times> store" where
  "markNotificationAsRead ev nid st =
     (case notifications_data st of
        None \<Rightarrow> (False, st)
      | Some notifications \<Rightarrow>
          (case js_findIndex (\<lambda>n. notification_id n = nid) notifications of
             None \<Rightarrow> (False, st)
           | Some i \<Rightarrow>
               set_notifications ev (notifications[i := (notifications ! i)\<lparr>read := True\<rparr>]) st))"

definition mark_read_for :: "string \<Rightarrow> notification \<Rightarrow> notification" where
  "mark_read_for uid n = (if notif_userId n = uid then n\<lparr>read := True\<rparr> else n)"

definition markAllNotificationsAsRead :: "env \<Rightarrow> string \<Rightarrow> store \<Rightarrow> bool \<times> store" where
  "markAllNotificationsAsRead ev uid st =
     (case notifications_data st of
        None \<Rightarrow> (False, st)
      | Some notifications \<Rightarrow> set_notifications ev (map (mark_read_for uid) notifications) st)"

subsection \<open>Reference functions\<close>

text \<open>
  \<open>unread_count uid ns\<close>: the unread notifications of one user in a stored array.
  \<open>outbox_le ns ns'\<close>: \<open>ns'\<close> extends \<open>ns\<close> by appending, and position by position it
  differs at most in \<open>read\<close>, which only goes from false to true.
\<close>

definition unread_count :: "string \<Rightarrow> notification list \<Rightarrow> nat" where
  "unread_count uid ns = length (filter (\<lambda>n. notif_userId n = uid \<and> \<not> read n) ns)"

definition read_le :: "notification \<Rightarrow> notification \<Rightarrow> bool" where
  "read_le n n' \<longleftrightarrow> n' = n\<lparr>read := read n'\<rparr> \<and> (if read n then read n' else True)"

definition outbox_le :: "notification list \<Rightarrow> notification list \<Rightarrow> bool" where
  "outbox_le ns ns' \<longleftrightarrow> length ns \<le> length ns' \<and> list_all2 read_le ns (take (length ns) ns')"

definition outbox_grows :: "store \<Rightarrow> store \<Rightarrow> bool" where
  "outbox_grows st st' =
     (case (notifications_data st, notifications_data st') of
        (None, _) \<Rightarrow> True
      | (Some ns, Some ns') \<Rightarrow> outbox_le ns ns'
      | (Some ns, None) \<Rightarrow> False)"

text \<open>
  A concrete outbox: two notifications for \<open>user_1\<close> created at the same instant and
  one for another user, and an environment whose notification writes fail.
\<close>

definition demo_outbox :: "notification list" where
  "demo_outbox =
     [new_notification (demo_env 100) ''user_1'' ''r1'' Report_reviewed ''Glass'' ''Pitt St'',
      new_notification (demo_env 100) ''user_2'' ''r2'' Report_reviewed ''Cans'' ''King St'',
      (new_notification (demo_env 100) ''user_1'' ''r3'' Report_resolved ''Paper'' ''Pitt St'')
        \<lparr>notification_id := ''n3''\<rparr>]"

definition demo_failing_env :: env where
  "demo_failing_env = (demo_env 200)\<lparr>write_fails := (\<lambda>k. k = NOTIFICATIONS)\<rparr>"

declare initializeNotifications_def [eval_simps] quote_char_def [eval_simps]
  notification_title_def [eval_simps] notification_message_def [eval_simps]
  new_notification_def [eval_simps] createNotification_def [eval_simps]
  newest_first_def [eval_simps] getUserNotifications_def [eval_simps]
  getUnreadNotificationCount_def [eval_simps] markNotificationAsRead_def [eval_simps]
  mark_read_for_def [eval_simps] markAllNotificationsAsRead_def [eval_simps]

subsection \<open>Properties\<close>

lemma initializeNotifications_Some:
  "notifications_data st = Some ns \<Longrightarrow> initializeNotifications ev st = st"
  by (simp add: initializeNotifications_def)

lemma createNotification_stored:
  assumes "notifications_data st = Some ns" and "\<not> write_fails ev NOTIFICATIONS"
  shows "createNotification ev uid rid t d st =
           (Some (new_notification ev uid rid t (fst d) (snd d)),
            st\<lparr>notifications_data := Some (ns @ [new_notification ev uid rid t (fst d) (snd d)])\<rparr>)"
  using assms by (simp add: createNotification_def initializeNotifications_Some model_defs Let_def)

text \<open>C23: When the outbox write fails, createNotification still returns the new notification while the store is unchanged, so the caller cannot see that nothing was persisted.\<close>

lemma createNotification_lost_write:
  assumes "notifications_data st = Some ns" and "write_fails ev NOTIFICATIONS"
  shows "createNotification ev uid rid t d st = (Some (new_notification ev uid rid t (fst d) (snd d)), st)"
  using assms by (simp add: createNotification_def initializeNotifications_Some model_defs Let_def)

lemma getUserNotifications_Some:
  "notifications_data st = Some ns \<Longrightarrow>
   getUserNotifications ev uid st = (newest_first (filter (\<lambda>n. notif_userId n = uid) ns), st)"
  by (simp add: getUserNotifications_def initializeNotifications_Some)

lemma getUnreadNotificationCount_Some:
  "notifications_data st = Some ns \<Longrightarrow> getUnreadNotificationCount ev uid st = (unread_count uid ns, st)"
  by (simp add: getUnreadNotificationCount_def getUserNotifications_def initializeNotifications_Some
      newest_first_def unread_count_def length_filter_sort_key filter_filter conj_commute)

text \<open>C11: When the outbox exists and its write succeeds, createNotification adds one unread notification for the user with the kind's title, so the user's unread count grows by exactly one.\<close>

lemma createNotification_unread:
  assumes "notifications_data st = Some ns" and "\<not> write_fails ev NOTIFICATIONS"
    and "createNotification ev uid rid t d st = (Some n, st')"
  shows "fst (getUnreadNotificationCount ev' uid st') = fst (getUnreadNotificationCount ev' uid st) + 1
         \<and> notif_userId n = uid \<and> \<not> read n \<and> title n = notification_title t"
proof -
  let ?n = "new_notification ev uid rid t (fst d) (snd d)"
  have n: "n = ?n" and st': "st' = st\<lparr>notifications_data := Some (ns @ [?n])\<rparr>"
    using createNotification_stored [OF assms(1,2), of uid rid t d] assms(3) by simp_all
  show ?thesis using assms(1)
    by (simp add: n st' getUnreadNotificationCount_Some unread_count_def new_notification_def)
qed

lemma markAllNotificationsAsRead_Some:
  "notifications_data st = Some ns \<Longrightarrow> \<not> write_fails ev NOTIFICATIONS \<Longrightarrow>
   markAllNotificationsAsRead ev uid st = (True, st\<lparr>notifications_data := Some (map (mark_read_for uid) ns)\<rparr>)"
  by (simp add: markAllNotificationsAsRead_def model_defs)

lemma unread_count_mark_read_for: "unread_count uid (map (mark_read_for uid) ns) = 0"
  by (simp add: unread_count_def filter_map comp_def mark_read_for_def filter_empty_conv)

text \<open>C12: When the outbox exists and its write succeeds, markAllNotificationsAsRead marks every notification of the user read and returns true, after which the user's unread count is 0.\<close>

lemma markAll_unread_zero:
  assumes "notifications_data st = Some ns" and "\<not> write_fails ev NOTIFICATIONS"
  shows "markAllNotificationsAsRead ev uid st = (True, st\<lparr>notifications_data := Some (map (mark_read_for uid) ns)\<rparr>) \<and>
         fst (getUnreadNotificationCount ev' uid (snd (markAllNotificationsAsRead ev uid st))) = 0"
  using assms
  by (simp add: markAllNotificationsAsRead_Some getUnreadNotificationCount_Some unread_count_mark_read_for)

text \<open>C31: getUserNotifications returns exactly the user's notifications (as a multiset), sorted newest first by createdAt.\<close>

lemma getUserNotifications_sorted:
  assumes "notifications_data st = Some ns"
  shows "fst (getUserNotifications ev uid st) = newest_first (filter (\<lambda>n. notif_userId n = uid) ns) \<and>
         sorted_wrt (\<lambda>a b. notif_createdAt b \<le> notif_createdAt a) (fst (getUserNotifications ev uid st)) \<and>
         mset (fst (getUserNotifications ev uid st)) = mset (filter (\<lambda>n. notif_userId n = uid) ns)"
proof -
  have "sorted (map (\<lambda>n. - notif_createdAt n) (newest_first xs))" for xs
    by (simp add: newest_first_def)
  then have "sorted_wrt (\<lambda>a b. notif_createdAt b \<le> notif_createdAt a) (newest_first xs)" for xs
    by (simp add: sorted_map)
  then show ?thesis using assms
    by (simp add: getUserNotifications_def initializeNotifications_Some newest_first_def mset_sort)
qed


text \<open>The newest-first sort is stable: notifications with the same createdAt keep their stored order.\<close>

lemma newest_first_stable:
  "filter (\<lambda>n. notif_createdAt n = k) (newest_first xs) = filter (\<lambda>n. notif_createdAt n = k) xs"
  using sort_key_stable [of "\<lambda>n. - notif_createdAt n" "- k" xs] by (simp add: newest_first_def)

lemma read_le_refl [simp]: "read_le n n"
  and read_le_set_read [simp]: "read_le n (n\<lparr>read := True\<rparr>)"
  by (simp_all add: read_le_def)

lemma outbox_le_refl [simp]: "outbox_le ns ns"
  by (simp add: outbox_le_def list_all2_refl)

lemma outbox_le_append [simp]: "outbox_le ns (ns @ xs)"
  by (simp add: outbox_le_def list_all2_refl)

lemma outbox_le_map:
  "(\<And>n. read_le n (f n)) \<Longrightarrow> outbox_le ns (map f ns)"
  by (simp add: outbox_le_def list_all2_conv_all_nth)

lemma outbox_le_update:
  "i < length ns \<Longrightarrow> read_le (ns ! i) v \<Longrightarrow> outbox_le ns (ns[i := v])"
  by (auto simp: outbox_le_def list_all2_conv_all_nth nth_list_update)

lemma outbox_grows_write:
  "notifications_data st = Some ns \<Longrightarrow> outbox_le ns ns' \<Longrightarrow>
     outbox_grows st (snd (set_notifications ev ns' st))"
  by (simp add: outbox_grows_def model_defs)

lemma outbox_grows_refl [simp]: "outbox_grows st st"
  by (simp add: outbox_grows_def split: option.splits)

lemma initializeNotifications_grows: "outbox_grows st (initializeNotifications ev st)"
  by (simp add: outbox_grows_def initializeNotifications_def model_defs split: option.splits)

lemma read_le_trans: "read_le a b \<Longrightarrow> read_le b c \<Longrightarrow> read_le a c"
  unfolding read_le_def by (metis notification.update_convs(7) notification.surjective)

lemma outbox_le_trans:
  assumes ab: "outbox_le a b" and bc: "outbox_le b c"
  shows "outbox_le a c"
proof -
  from ab bc have len: "length a \<le> length c" by (simp add: outbox_le_def)
  have "read_le (a ! i) (c ! i)" if i: "i < length a" for i
  proof -
    from ab i have "read_le (a ! i) (b ! i)" and ib: "i < length b"
      by (auto simp: outbox_le_def list_all2_conv_all_nth)
    moreover from bc ib have "read_le (b ! i) (c ! i)"
      by (auto simp: outbox_le_def list_all2_conv_all_nth)
    ultimately show ?thesis using read_le_trans by blast
  qed
  with len show ?thesis by (simp add: outbox_le_def list_all2_conv_all_nth)
qed


lemma outbox_grows_None: "notifications_data st = None \<Longrightarrow> outbox_grows st st'"
  by (simp add: outbox_grows_def)

lemma createNotification_grows: "outbox_grows st (snd (createNotification ev uid rid t d st))"
proof (cases "notifications_data st")
  case None
  then show ?thesis by (rule outbox_grows_None)
next
  case (Some ns)
  then show ?thesis
    by (simp add: createNotification_def initializeNotifications_Some Let_def outbox_grows_write)
qed

lemma markNotificationAsRead_grows: "outbox_grows st (snd (markNotificationAsRead ev nid st))"
proof (cases "notifications_data st")
  case None
  then show ?thesis by (rule outbox_grows_None)
next
  case (Some ns)
  show ?thesis
  proof (cases "js_findIndex (\<lambda>n. notification_id n = nid) ns")
    case None
    with Some show ?thesis by (simp add: markNotificationAsRead_def)
  next
    case (Some i)
    then have "i < length ns" by (auto dest: js_findIndex_SomeD)
    then have "outbox_le ns (ns[i := (ns ! i)\<lparr>read := True\<rparr>])" by (simp add: outbox_le_update)
    with Some \<open>notifications_data st = Some ns\<close> show ?thesis
      by (simp add: markNotificationAsRead_def outbox_grows_write)
  qed
qed

lemma markAllNotificationsAsRead_grows: "outbox_grows st (snd (markAllNotificationsAsRead ev uid st))"
proof (cases "notifications_data st")
  case None
  then show ?thesis by (rule outbox_grows_None)
next
  case (Some ns)
  have "outbox_le ns (map (mark_read_for uid) ns)"
    by (rule outbox_le_map) (simp add: mark_read_for_def)
  with Some show ?thesis by (simp add: markAllNotificationsAsRead_def outbox_grows_write)
qed

lemma getUserNotifications_grows: "outbox_grows st (snd (getUserNotifications ev uid st))"
  using initializeNotifications_grows [of st ev]
  by (simp add: getUserNotifications_def Let_def split: option.splits)

lemma getUnreadNotificationCount_grows: "outbox_grows st (snd (getUnreadNotificationCount ev uid st))"
  using getUserNotifications_grows [of st ev uid]
  by (cases "getUserNotifications ev uid st") (simp add: getUnreadNotificationCount_def)

lemma notification_ops_frame:
  "users_data (snd (createNotification ev uid rid t d st)) = users_data st \<and>
   reports_data (snd (createNotification ev uid rid t d st)) = reports_data st"
  "users_data (snd (getUserNotifications ev uid st)) = users_data st \<and>
   reports_data (snd (getUserNotifications ev uid st)) = reports_data st"
  "users_data (snd (markNotificationAsRead ev nid st)) = users_data st \<and>
   reports_data (snd (markNotificationAsRead ev nid st)) = reports_data st"
  "users_data (snd (markAllNotificationsAsRead ev uid st)) = users_data st \<and>
   reports_data (snd (markAllNotificationsAsRead ev uid st)) = reports_data st"
  by (simp_all add: createNotification_def getUserNotifications_def markNotificationAsRead_def
      markAllNotificationsAsRead_def initializeNotifications_def Let_def model_defs
      split: option.splits)

theorem createNotification_unread_witness:
  "fst (getUnreadNotificationCount (demo_env 300) ''user_1''
      (snd (createNotification (demo_env 200) ''user_1'' ''r4'' Report_resolved (''Glass'', ''Pitt St'')
              (empty_store\<lparr>notifications_data := Some demo_outbox\<rparr>)))) =
   fst (getUnreadNotificationCount (demo_env 300) ''user_1'' (empty_store\<lparr>notifications_data := Some demo_outbox\<rparr>)) + 1 \<and>
   notif_userId (the (fst (createNotification (demo_env 200) ''user_1'' ''r4'' Report_resolved (''Glass'', ''Pitt St'')
              (empty_store\<lparr>notifications_data := Some demo_outbox\<rparr>)))) = ''user_1'' \<and>
   \<not> read (the (fst (createNotification (demo_env 200) ''user_1'' ''r4'' Report_resolved (''Glass'', ''Pitt St'')
              (empty_store\<lparr>notifications_data := Some demo_outbox\<rparr>)))) \<and>
   title (the (fst (createNotification (demo_env 200) ''user_1'' ''r4'' Report_resolved (''Glass'', ''Pitt St'')
              (empty_store\<lparr>notifications_data := Some demo_outbox\<rparr>)))) = notification_title Report_resolved"
proof -
  let ?st = "empty_store\<lparr>notifications_data := Some demo_outbox\<rparr>"
  let ?c = "createNotification (demo_env 200) ''user_1'' ''r4'' Report_resolved (''Glass'', ''Pitt St'') ?st"
  have h1: "notifications_data ?st = Some demo_outbox" by simp
  have h2: "\<not> write_fails (demo_env 200) NOTIFICATIONS" by (simp add: demo_env_def)
  have h3: "?c = (Some (the (fst ?c)), snd ?c)"
    by (simp add: createNotification_stored [OF h1 h2])
  show ?thesis by (rule createNotification_unread [OF h1 h2 h3])
qed

theorem markAll_unread_zero_witness:
  "markAllNotificationsAsRead (demo_env 300) ''user_1'' (empty_store\<lparr>notifications_data := Some demo_outbox\<rparr>) =
     (True, (empty_store\<lparr>notifications_data := Some demo_outbox\<rparr>)
              \<lparr>notifications_data := Some (map (mark_read_for ''user_1'') demo_outbox)\<rparr>) \<and>
   fst (getUnreadNotificationCount (demo_env 400) ''user_1''
     (snd (markAllNotificationsAsRead (demo_env 300) ''user_1'' (empty_store\<lparr>notifications_data := Some demo_outbox\<rparr>)))) = 0"
proof -
  let ?st = "empty_store\<lparr>notifications_data := Some demo_outbox\<rparr>"
  have h1: "notifications_data ?st = Some demo_outbox" by simp
  have h2: "\<not> write_fails (demo_env 300) NOTIFICATIONS" by (simp add: demo_env_def)
  show ?thesis by (rule markAll_unread_zero [OF h1 h2])
qed

theorem getUserNotifications_sorted_witness:
  "fst (getUserNotifications (demo_env 300) ''user_1'' (empty_store\<lparr>notifications_data := Some demo_outbox\<rparr>)) =
     newest_first (filter (\<lambda>n. notif_userId n = ''user_1'') demo_outbox) \<and>
   sorted_wrt (\<lambda>a b. notif_createdAt b \<le> notif_createdAt a)
     (fst (getUserNotifications (demo_env 300) ''user_1'' (empty_store\<lparr>notifications_data := Some demo_outbox\<rparr>))) \<and>
   mset (fst (getUserNotifications (demo_env 300) ''user_1'' (empty_store\<lparr>notifications_data := Some demo_outbox\<rparr>))) =
     mset (filter (\<lambda>n. notif_userId n = ''user_1'') demo_outbox)"
proof -
  have h: "notifications_data (empty_store\<lparr>notifications_data := Some demo_outbox\<rparr>) = Some demo_outbox"
    by simp
  show ?thesis by (rule getUserNotifications_sorted [OF h])
qed

theorem createNotification_lost_write_witness:
  "createNotification demo_failing_env ''user_1'' ''r4'' Report_reviewed (''Glass'', ''Pitt St'')
     (empty_store\<lparr>notifications_data := Some demo_outbox\<rparr>) =
   (Some (new_notification demo_failing_env ''user_1'' ''r4'' Report_reviewed
            (fst (''Glass'', ''Pitt St'')) (snd (''Glass'', ''Pitt St''))),
    empty_store\<lparr>notifications_data := Some demo_outbox\<rparr>)"
proof -
  have h1: "notifications_data (empty_store\<lparr>notifications_data := Some demo_outbox\<rparr>) = Some demo_outbox"
    by simp
  have h2: "write_fails demo_failing_env NOTIFICATIONS" by (simp add: demo_failing_env_def)
  show ?thesis by (rule createNotification_lost_write [OF h1 h2])
qed

end
