(* ===== verification/Session.thy ===== *)
theory Session
  imports Accounts Notifications
begin

text \<open>
  The signed-in session and the views that depend on it.
  \<^item> \<open>auth_state\<close> is the state of \<open>AuthProvider\<close> in
    \<open>src/src/app/context/AuthContext.tsx\<close>: the \<open>user\<close> and \<open>isLoading\<close> hooks
    (lines 19-20). Each asynchronous callback that sets them is one \<open>auth_event\<close>, carrying
    what the remote backend answered: the end of \<open>initAuth\<close> (lines 24-36; a failed call
    answers no user), an auth state change (lines 41-50), \<open>login\<close>, \<open>logout\<close> and the
    end of \<open>refreshUser\<close> (lines 57-74), which carries whether its \<open>if (user)\<close> test, made
    when it was called and before its \<open>await\<close>, saw a user (theory \<open>AuthRace\<close> derives it
    from the state at the call). \<open>auth_step\<close> applies one event; a run is the events
    in the order the callbacks fire. The user type of the backend module is not in the
    repository; the session user is the \<open>User\<close> record of \<open>storage.ts\<close>.
  \<^item> \<open>ProtectedRoute\<close> (\<open>components/ProtectedRoute.tsx\<close> lines 9-46) is the view it
    renders, as a value of \<open>route_view\<close>.
  \<^item> The notification bell (\<open>components/NotificationBell.tsx\<close>): its state
    \<open>bell_state\<close> (lines 9-11), \<open>loadNotifications\<close> and the two mark-as-read handlers
    (lines 30-48) over the outbox of \<open>Notifications\<close>, the visibility test (line 50) and
    the badge text (lines 62-66).
\<close>

subsection \<open>The auth context\<close>

record auth_state =
  session_user :: "user option"
  isLoading :: bool

datatype auth_event =
    InitAuth "user option"
  | AuthStateChange string bool "user option"
  | Login user
  | Logout
  | RefreshUser bool "user option"

definition auth_initial :: auth_state where
  "auth_initial = \<lparr>session_user = None, isLoading = True\<rparr>"

fun auth_step :: "auth_event \<Rightarrow> auth_state \<Rightarrow> auth_state" where
  "auth_step (InitAuth cu) s =
     (case cu of Some u \<Rightarrow> s\<lparr>session_user := Some u\<rparr> | None \<Rightarrow> s)\<lparr>isLoading := False\<rparr>"
| "auth_step (AuthStateChange event has_session cu) s =
     (if event = ''SIGNED_IN'' \<and> has_session then s\<lparr>session_user := cu\<rparr>
      else if event = ''SIGNED_OUT'' then s\<lparr>session_user := None\<rparr>
      else s)"
| "auth_step (Login u) s = s\<lparr>session_user := Some u\<rparr>"
| "auth_step Logout s = s\<lparr>session_user := None\<rparr>"
| "auth_step (RefreshUser saw_user cu) s =
     (if saw_user then (case cu of Some u \<Rightarrow> s\<lparr>session_user := Some u\<rparr> | None \<Rightarrow> s) else s)"

definition auth_run :: "auth_event list \<Rightarrow> auth_state" where
  "auth_run es = fold auth_step es auth_initial"

definition isAuthenticated :: "auth_state \<Rightarrow> bool" where
  "isAuthenticated s \<longleftrightarrow> session_user s \<noteq> None"

definition isAdmin :: "auth_state \<Rightarrow> bool" where
  "isAdmin s \<longleftrightarrow> (case session_user s of Some u \<Rightarrow> role u = RoleAdmin | None \<Rightarrow> False)"

definition is_init :: "auth_event \<Rightarrow> bool" where
  "is_init e = (case e of InitAuth _ \<Rightarrow> True | _ \<Rightarrow> False)"

subsection \<open>The route guard\<close>

datatype route_view = LoadingSpinner | NavigateTo string | RenderChildren

definition ProtectedRoute :: "auth_state \<Rightarrow> bool \<Rightarrow> route_view" where
  "ProtectedRoute s adminOnly =
     (if isLoading s then LoadingSpinner
      else if \<not> isAuthenticated s then NavigateTo ''/auth''
      else if adminOnly \<and> \<not> isAdmin s then NavigateTo ''/dashboard''
      else RenderChildren)"

subsection \<open>The notification bell\<close>

record bell_state =
  isOpen :: bool
  bell_notifications :: "notification list"
  unreadCount :: nat

definition loadNotifications :: "env \<Rightarrow> user option \<Rightarrow> store \<Rightarrow> bell_state \<Rightarrow> bell_state \<times> store" where
  "loadNotifications ev u st b =
     (case u of
        None \<Rightarrow> (b, st)
      | Some usr \<Rightarrow>
          (let (ns, st1) = getUserNotifications ev (user_id usr) st;
               (c, st2) = getUnreadNotificationCount ev (user_id usr) st1
           in (b\<lparr>bell_notifications := ns, unreadCount := c\<rparr>, st2)))"

definition handleMarkAsRead :: "env \<Rightarrow> user option \<Rightarrow> string \<Rightarrow> store \<Rightarrow> bell_state \<Rightarrow> bell_state \<times> store" where
  "handleMarkAsRead ev u nid st b = loadNotifications ev u (snd (markNotificationAsRead ev nid st)) b"

definition handleMarkAllAsRead :: "env \<Rightarrow> user option \<Rightarrow> store \<Rightarrow> bell_state \<Rightarrow> bell_state \<times> store" where
  "handleMarkAllAsRead ev u st b =
     (case u of
        None \<Rightarrow> (b, st)
      | Some usr \<Rightarrow> loadNotifications ev u (snd (markAllNotificationsAsRead ev (user_id usr) st)) b)"

definition bell_visible :: "user option \<Rightarrow> bool" where
  "bell_visible u = (case u of None \<Rightarrow> False | Some usr \<Rightarrow> role usr \<noteq> RoleAdmin)"

datatype bell_badge = NoBadge | Badge string

definition badge :: "nat \<Rightarrow> bell_badge" where
  "badge c = (if c > 0 then Badge (if c > 9 then ''9+'' else js_int_to_string (int c)) else NoBadge)"

declare auth_initial_def [eval_simps] auth_run_def [eval_simps] isAuthenticated_def [eval_simps]
  isAdmin_def [eval_simps] is_init_def [eval_simps] ProtectedRoute_def [eval_simps]
  loadNotifications_def [eval_simps] handleMarkAsRead_def [eval_simps]
  handleMarkAllAsRead_def [eval_simps] bell_visible_def [eval_simps] badge_def [eval_simps]

subsection \<open>Lemmas\<close>

lemma auth_step_loading: "isLoading (auth_step e s) \<longleftrightarrow> isLoading s \<and> \<not> is_init e"
  by (cases e) (auto simp: is_init_def split: option.split)

lemma loadNotifications_Some:
  assumes "notifications_data st = Some ns"
  shows "loadNotifications ev (Some usr) st b =
           (b\<lparr>bell_notifications := newest_first (filter (\<lambda>n. notif_userId n = user_id usr) ns),
               unreadCount := unread_count (user_id usr) ns\<rparr>, st)"
  using assms
  by (simp add: loadNotifications_def getUserNotifications_Some getUnreadNotificationCount_Some)

subsection \<open>Properties\<close>

text \<open>C17: An admin-only ProtectedRoute renders its children exactly when loading is over and the session user has the admin role.\<close>

theorem admin_route_renders_iff:
  "ProtectedRoute s True = RenderChildren \<longleftrightarrow>
   \<not> isLoading s \<and> (\<exists>u. session_user s = Some u \<and> role u = RoleAdmin)"
  by (auto simp: ProtectedRoute_def isAuthenticated_def isAdmin_def split: option.splits)

text \<open>After any run of auth events the loading spinner shows exactly when initAuth has not completed; once it completes, loading never returns.\<close>

theorem auth_run_loading:
  "isLoading (auth_run es) \<longleftrightarrow> \<not> list_ex is_init es"
proof -
  have "isLoading (fold auth_step es s) \<longleftrightarrow> isLoading s \<and> \<not> list_ex is_init es" for s
    by (induction es arbitrary: s) (auto simp: auth_step_loading)
  then show ?thesis by (simp add: auth_run_def auth_initial_def)
qed

text \<open>After a successful loginAdmin is passed to login, once loading is over, admin-only routes render.\<close>

theorem loginAdmin_opens_admin_routes:
  assumes "loginAdmin ev em pw = Inr u" and "\<not> isLoading s"
  shows "ProtectedRoute (auth_step (Login u) s) True = RenderChildren"
proof -
  have "role u = RoleAdmin"
    using assms(1) by (auto simp: loginAdmin_def Let_def split: option.splits)
  with assms(2) show ?thesis
    by (simp add: ProtectedRoute_def isAuthenticated_def isAdmin_def)
qed

text \<open>When the outbox exists and its write succeeds, handleMarkAllAsRead leaves the bell with no badge.\<close>

theorem markAll_clears_badge:
  assumes "notifications_data st = Some ns" and "\<not> write_fails ev NOTIFICATIONS"
  shows "badge (unreadCount (fst (handleMarkAllAsRead ev (Some usr) st b))) = NoBadge"
  using assms
  by (simp add: handleMarkAllAsRead_def markAllNotificationsAsRead_Some loadNotifications_Some
      unread_count_mark_read_for badge_def)

text \<open>The bell's unread count equals the number of unread notifications in the list it shows.\<close>

theorem bell_count_matches_list:
  assumes "notifications_data st = Some ns"
  shows "unreadCount (fst (loadNotifications ev (Some usr) st b)) =
         length (filter (\<lambda>n. \<not> read n) (bell_notifications (fst (loadNotifications ev (Some usr) st b))))"
  using assms
  by (simp add: loadNotifications_Some newest_first_def unread_count_def length_filter_sort_key
      filter_filter conj_commute)

text \<open>C33: The badge is absent exactly for a zero count, is never longer than two characters, and reads 9+ for every count above nine.\<close>

theorem badge_bounds:
  "(badge c = NoBadge \<longleftrightarrow> c = 0)
   \<and> (\<forall>t. badge c = Badge t \<longrightarrow> length t \<le> 2)
   \<and> (9 < c \<longrightarrow> badge c = Badge ''9+'')"
proof -
  have "c \<le> 9 \<Longrightarrow> 0 < c \<Longrightarrow> length (js_nat_digits c) = 1"
    by (simp add: js_nat_digits.simps)
  then show ?thesis by (auto simp: badge_def js_int_to_string_def)
qed

theorem loginAdmin_opens_admin_routes_witness:
  "ProtectedRoute (auth_step (Login (projr (loginAdmin (demo_env 5) ''admin1@sydney.gov.au'' ''admin1pass'')))
     (auth_run [InitAuth None])) True = RenderChildren"
proof -
  let ?r = "loginAdmin (demo_env 5) ''admin1@sydney.gov.au'' ''admin1pass''"
  have h: "?r = Inr (projr ?r)" by (simp add: eval_simps)
  have l: "\<not> isLoading (auth_run [InitAuth None])" by (simp add: auth_run_def auth_initial_def)
  show ?thesis by (rule loginAdmin_opens_admin_routes [OF h l])
qed

theorem markAll_clears_badge_witness:
  "badge (unreadCount (fst (handleMarkAllAsRead (demo_env 50) (Some (user.truncate demo_member))
      (empty_store\<lparr>notifications_data := Some demo_outbox\<rparr>)
      \<lparr>isOpen = True, bell_notifications = [], unreadCount = 0\<rparr>))) = NoBadge"
  by (rule markAll_clears_badge) (simp_all add: demo_env_def)

theorem bell_count_matches_list_witness:
  "unreadCount (fst (loadNotifications (demo_env 50) (Some (user.truncate demo_member))
      (empty_store\<lparr>notifications_data := Some demo_outbox\<rparr>)
      \<lparr>isOpen = False, bell_notifications = [], unreadCount = 0\<rparr>)) =
   length (filter (\<lambda>n. \<not> read n) (bell_notifications (fst (loadNotifications (demo_env 50)
      (Some (user.truncate demo_member)) (empty_store\<lparr>notifications_data := Some demo_outbox\<rparr>)
      \<lparr>isOpen = False, bell_notifications = [], unreadCount = 0\<rparr>))))"
  by (rule bell_count_matches_list) simp

theorem badge_bounds_witness: "badge 12 = Badge ''9+'' \<and> badge 0 = NoBadge"
  using badge_bounds [of 12] badge_bounds [of 0] by simp

end
