(* ===== verification/MapView.thy ===== *)
theory MapView
  imports Reports
begin

text \<open>
  The map of reports: the demo data of \<open>src/src/app/utils/mockData.ts\<close> and the pure
  helpers of \<open>src/src/app/components/HeatMap.tsx\<close>.
  \<^item> \<open>location_point\<close> is the interface \<open>LocationPoint\<close> (lines 3-10), the list
    \<open>SYDNEY_LOCATIONS\<close> (lines 12-109) and \<open>RUBBISH_TYPES\<close> (lines 111-124) are copied
    value for value.
  \<^item> \<open>getColor\<close> and \<open>getRadius\<close> are the marker colour and radius (HeatMap.tsx
    lines 64-74); \<open>legend\<close> is the colour legend the map draws (lines 146-152).
  Shown: the demo points are valid coordinates with distinct ids and intensities in
  \<open>[0, 1]\<close>; every marker colour appears in the legend, in the order of the thresholds; the
  radius stays within \<open>[10, 30]\<close>; every rubbish type offered passes the report-type check
  of \<open>saveReport\<close> and is stored unchanged by the sanitiser.
\<close>

record location_point =
  point_id :: string
  point_lat :: real
  point_lng :: real
  point_address :: string
  reports :: int
  intensity :: real

definition mk_point :: "string \<Rightarrow> real \<Rightarrow> real \<Rightarrow> string \<Rightarrow> int \<Rightarrow> real \<Rightarrow> location_point" where
  "mk_point i lt lg a r it =
     \<lparr>point_id = i, point_lat = lt, point_lng = lg, point_address = a, reports = r, intensity = it\<rparr>"

definition SYDNEY_LOCATIONS :: "location_point list" where
  "SYDNEY_LOCATIONS =
     [mk_point ''1'' (-33.8599) 151.2111 ''The Rocks, Sydney NSW 2000'' 45 0.9,
      mk_point ''2'' (-33.8616) 151.2104 ''Circular Quay, Sydney NSW 2000'' 38 0.75,
      mk_point ''3'' (-33.8688) 151.2093 ''Sydney CBD, George St'' 52 1.0,
      mk_point ''4'' (-33.8738) 151.2062 ''Darling Harbour, Sydney NSW 2000'' 41 0.8,
      mk_point ''5'' (-33.8571) 151.2152 ''Sydney Opera House, Bennelong Point'' 28 0.55,
      mk_point ''6'' (-33.8523) 151.2108 ''Milsons Point, Sydney NSW 2061'' 22 0.45,
      mk_point ''7'' (-33.8816) 151.2008 ''Pyrmont, Sydney NSW 2009'' 35 0.7,
      mk_point ''8'' (-33.8830) 151.2167 ''Surry Hills, Sydney NSW 2010'' 31 0.62,
      mk_point ''9'' (-33.8650) 151.2094 ''Wynyard, Sydney NSW 2000'' 26 0.52,
      mk_point ''10'' (-33.8848) 151.2055 ''Haymarket, Sydney NSW 2000'' 33 0.65,
      mk_point ''11'' (-33.8704) 151.2244 ''Potts Point, Sydney NSW 2011'' 19 0.38,
      mk_point ''12'' (-33.8915) 151.2767 ''Bondi Junction, Sydney NSW 2022'' 24 0.48]"

definition RUBBISH_TYPES :: "string list" where
  "RUBBISH_TYPES = [''Plastic Bottles'', ''Food Waste'', ''Cigarette Butts'', ''Paper & Cardboard'',
     ''Glass Bottles'', ''Metal Cans'', ''E-Waste'', ''Furniture'', ''Construction Debris'',
     ''General Litter'', ''Organic Waste'', ''Other'']"

definition getColor :: "real \<Rightarrow> string" where
  "getColor it =
     (if it \<ge> 0.8 then ''#ef4444''
      else if it \<ge> 0.6 then ''#f97316''
      else if it \<ge> 0.4 then ''#f59e0b''
      else if it \<ge> 0.2 then ''#eab308''
      else ''#22c55e'')"

definition getRadius :: "real \<Rightarrow> real" where
  "getRadius r = min (max (r / 2) 10) 30"

definition legend :: "(string \<times> string) list" where
  "legend = [(''Very High'', ''#ef4444''), (''High'', ''#f97316''), (''Medium'', ''#f59e0b''),
     (''Low'', ''#eab308''), (''Very Low'', ''#22c55e'')]"

text \<open>The position in the legend of a colour, 0 for the highest density.\<close>

definition legend_rank :: "string \<Rightarrow> nat option" where
  "legend_rank c = js_findIndex (\<lambda>p. snd p = c) legend"

declare mk_point_def [eval_simps] SYDNEY_LOCATIONS_def [eval_simps] RUBBISH_TYPES_def [eval_simps]
  getColor_def [eval_simps] getRadius_def [eval_simps] legend_def [eval_simps] legend_rank_def [eval_simps]

subsection \<open>Properties\<close>

text \<open>Every demo location has valid coordinates, an intensity in [0, 1] and a positive report count, and the ids are distinct.\<close>

theorem SYDNEY_LOCATIONS_valid:
  "list_all (\<lambda>p. isValidCoordinates (point_lat p) (point_lng p) \<and> 0 \<le> intensity p \<and> intensity p \<le> 1
                  \<and> 0 < reports p) SYDNEY_LOCATIONS
   \<and> distinct (map point_id SYDNEY_LOCATIONS)"
  by (simp add: SYDNEY_LOCATIONS_def mk_point_def isValidCoordinates_def)

text \<open>Every marker colour is one of the legend's colours, and a higher intensity never gets a colour further down the legend.\<close>

theorem getColor_in_legend:
  "getColor it \<in> snd ` set legend
   \<and> (it \<le> it' \<longrightarrow> the (legend_rank (getColor it')) \<le> the (legend_rank (getColor it)))"
  by (auto simp: getColor_def legend_def legend_rank_def)

text \<open>The marker radius is always between 10 and 30.\<close>

theorem getRadius_bounds: "10 \<le> getRadius r \<and> getRadius r \<le> 30"
  by (simp add: getRadius_def)

text \<open>Every rubbish type the report form offers passes the type check of saveReport and is a fixed point of sanitizeString, so the stored type is the selected one.\<close>

theorem RUBBISH_TYPES_accepted:
  "list_all (\<lambda>t. t \<noteq> [] \<and> length (js_trim t) \<noteq> 0 \<and> sanitizeString t = t) RUBBISH_TYPES"
  by (simp add: RUBBISH_TYPES_def eval_simps)

theorem getColor_in_legend_witness:
  "the (legend_rank (getColor 0.9)) \<le> the (legend_rank (getColor 0.5))"
  using getColor_in_legend [of "0.5" "0.9"] by simp

end
