(* ===== verification/TagScan.thy ===== *)
theory TagScan
  imports Sanitize
begin

text \<open>
  The loop the JavaScript engine runs for \<open>input.replace(/<[^>]*>/g, '')\<close> in
  \<open>sanitizeString\<close> (\<open>src/src/app/utils/storage.ts\<close> line 62): from \<open>lastIndex\<close>,
  search the first position where the pattern matches (a \<open><\<close> with a \<open>>\<close> after it; the
  match runs to the first such \<open>>\<close>), copy the text before the match, continue after the
  match; when no match is left, copy the rest. \<open>find_tag\<close> is one search,
  \<open>replace_tags_loop\<close> the loop, written as \<open>partial_function (option)\<close> because its
  recursion is not structural. Shown: it returns on every input, and what it returns is
  \<open>strip_tags\<close>, the recursive definition \<open>Sanitize\<close> uses.
\<close>

definition find_tag :: "string \<Rightarrow> nat \<Rightarrow> (nat \<times> nat) option" where
  "find_tag s i =
     (case js_findIndex (\<lambda>p. s ! p = CHR ''<'' \<and> CHR ''>'' \<in> set (drop (Suc p) s)) [i..<length s] of
        None \<Rightarrow> None
      | Some k \<Rightarrow>
          (case js_findIndex (\<lambda>c. c = CHR ''>'') (drop (Suc (i + k)) s) of
             None \<Rightarrow> None
           | Some q \<Rightarrow> Some (i + k, Suc (i + k) + Suc q)))"

partial_function (option) replace_tags_loop :: "string \<Rightarrow> nat \<Rightarrow> string \<Rightarrow> string option" where
  "replace_tags_loop s lastIndex acc =
     (case find_tag s lastIndex of
        None \<Rightarrow> Some (acc @ drop lastIndex s)
      | Some (start, stop) \<Rightarrow>
          replace_tags_loop s stop (acc @ take (start - lastIndex) (drop lastIndex s)))"

definition js_replace_tags :: "string \<Rightarrow> string option" where
  "js_replace_tags s = replace_tags_loop s 0 []"

declare find_tag_def [eval_simps] replace_tags_loop.simps [eval_simps] js_replace_tags_def [eval_simps]

subsection \<open>Lemmas\<close>

lemma strip_tags_no_tag:
  "\<forall>k < length u. \<not> (u ! k = CHR ''<'' \<and> CHR ''>'' \<in> set (drop (Suc k) u @ v))
   \<Longrightarrow> strip_tags (u @ v) = u @ strip_tags v"
proof (induction u)
  case Nil
  then show ?case by simp
next
  case (Cons c u)
  from Cons.prems have c: "\<not> (c = CHR ''<'' \<and> CHR ''>'' \<in> set (u @ v))" by (metis length_Cons nth_Cons_0 zero_less_Suc drop_Suc_Cons drop_0 append_Cons)
  from Cons.prems have "\<forall>k < length u. \<not> (u ! k = CHR ''<'' \<and> CHR ''>'' \<in> set (drop (Suc k) u @ v))"
    by (metis Suc_mono drop_Suc_Cons length_Cons nth_Cons_Suc)
  with Cons.IH c show ?case by (cases "c = CHR ''<''") simp_all
qed

lemma strip_tags_tag:
  assumes "CHR ''>'' \<notin> set w"
  shows "strip_tags (CHR ''<'' # w @ CHR ''>'' # v) = strip_tags v"
proof -
  have "dropWhile (\<lambda>x. x \<noteq> CHR ''>'') (w @ CHR ''>'' # v) = CHR ''>'' # v"
    using assms by (induction w) auto
  then show ?thesis by simp
qed

lemma no_tag_from:
  assumes "\<forall>k < length u. \<not> (s ! (i + k) = CHR ''<'' \<and> CHR ''>'' \<in> set (drop (Suc (i + k)) s))"
    and "u @ v = drop i s"
  shows "strip_tags (u @ v) = u @ strip_tags v"
proof (rule strip_tags_no_tag, intro allI impI)
  fix k assume k: "k < length u"
  have len: "length u \<le> length s - i" using arg_cong [OF assms(2), of length] by simp
  have "u ! k = (u @ v) ! k" using k by (simp add: nth_append)
  also have "\<dots> = drop i s ! k" using assms(2) by simp
  also have "\<dots> = s ! (i + k)" using k len by simp
  finally have u: "u ! k = s ! (i + k)" .
  have "drop (Suc k) u @ v = drop (Suc k) (u @ v)" using k by simp
  also have "\<dots> = drop (Suc (i + k)) s" using assms(2) by (simp add: add.commute)
  finally show "\<not> (u ! k = CHR ''<'' \<and> CHR ''>'' \<in> set (drop (Suc k) u @ v))"
    using assms(1) k u by simp
qed

lemma find_tag_None:
  assumes "find_tag s i = None"
  shows "strip_tags (drop i s) = drop i s"
proof -
  let ?P = "\<lambda>p. s ! p = CHR ''<'' \<and> CHR ''>'' \<in> set (drop (Suc p) s)"
  have none: "\<not> ?P p" if "i \<le> p" "p < length s" for p
  proof
    assume Pp: "?P p"
    have "list_ex ?P [i..<length s]" using that Pp by (auto simp: list_ex_iff)
    then obtain k where k: "js_findIndex ?P [i..<length s] = Some k"
      by (metis js_findIndex_None_iff not_None_eq)
    from js_findIndex_SomeD [OF k] have kl: "k < length s - i" by simp
    then have "[i..<length s] ! k = i + k" by simp
    then have "?P (i + k)" using js_findIndex_SomeD [OF k] by simp
    then have "list_ex (\<lambda>c. c = CHR ''>'') (drop (Suc (i + k)) s)" by (simp add: list_ex_iff)
    then obtain q where "js_findIndex (\<lambda>c. c = CHR ''>'') (drop (Suc (i + k)) s) = Some q"
      by (metis js_findIndex_None_iff not_None_eq)
    with k assms show False by (simp add: find_tag_def)
  qed
  have "strip_tags (drop i s @ []) = drop i s @ strip_tags []"
    by (rule no_tag_from) (use none in auto)
  then show ?thesis by simp
qed

lemma find_tag_Some:
  assumes "find_tag s i = Some (p, e)"
  shows "i \<le> p \<and> p < e \<and> e \<le> length s
         \<and> (\<forall>k < p - i. \<not> (s ! (i + k) = CHR ''<'' \<and> CHR ''>'' \<in> set (drop (Suc (i + k)) s)))
         \<and> (\<exists>w. drop p s = CHR ''<'' # w @ CHR ''>'' # drop e s \<and> CHR ''>'' \<notin> set w)"
proof -
  let ?P = "\<lambda>p. s ! p = CHR ''<'' \<and> CHR ''>'' \<in> set (drop (Suc p) s)"
  obtain k q where k: "js_findIndex ?P [i..<length s] = Some k"
      and q: "js_findIndex (\<lambda>c. c = CHR ''>'') (drop (Suc (i + k)) s) = Some q"
      and pe: "p = i + k" "e = Suc (i + k) + Suc q"
    using assms by (auto simp: find_tag_def split: option.splits)
  from js_findIndex_SomeD [OF k] have kl: "k < length s - i" by simp
  have up: "[i..<length s] ! j = i + j" if "j \<le> k" for j using kl that by simp
  from js_findIndex_SomeD [OF k] up have Pk: "?P (i + k)" by simp
  from js_findIndex_SomeD [OF k] up have before: "\<forall>j < k. \<not> ?P (i + j)" by simp
  from js_findIndex_SomeD [OF q] have ql: "q < length s - Suc (i + k)"
      and gt: "drop (Suc (i + k)) s ! q = CHR ''>''"
      and nogt: "\<forall>j < q. drop (Suc (i + k)) s ! j \<noteq> CHR ''>''"
    by auto
  let ?w = "take q (drop (Suc p) s)"
  have "drop (Suc p) s = ?w @ drop q (drop (Suc p) s)" by (rule append_take_drop_id [symmetric])
  also have "drop q (drop (Suc p) s) = CHR ''>'' # drop e s"
    using ql gt pe by (simp add: Cons_nth_drop_Suc [symmetric] add.commute)
  finally have d1: "drop (Suc p) s = ?w @ CHR ''>'' # drop e s" .
  have "drop p s = s ! p # drop (Suc p) s" using kl pe by (simp add: Cons_nth_drop_Suc)
  with d1 Pk pe have "drop p s = CHR ''<'' # ?w @ CHR ''>'' # drop e s" by simp
  moreover have "CHR ''>'' \<notin> set ?w"
    using nogt pe by (auto simp: in_set_conv_nth)
  ultimately show ?thesis using kl ql pe before by auto
qed

lemma strip_tags_at_tag:
  assumes "find_tag s i = Some (p, e)"
  shows "strip_tags (drop i s) = take (p - i) (drop i s) @ strip_tags (drop e s)"
proof -
  from find_tag_Some [OF assms] have ip: "i \<le> p"
    and pre: "\<forall>k < p - i. \<not> (s ! (i + k) = CHR ''<'' \<and> CHR ''>'' \<in> set (drop (Suc (i + k)) s))"
    and "\<exists>w. drop p s = CHR ''<'' # w @ CHR ''>'' # drop e s \<and> CHR ''>'' \<notin> set w"
    by auto
  then obtain w where w: "drop p s = CHR ''<'' # w @ CHR ''>'' # drop e s" "CHR ''>'' \<notin> set w"
    by blast
  have split: "take (p - i) (drop i s) @ drop p s = drop i s"
    using ip by (metis append_take_drop_id drop_drop le_add_diff_inverse2)
  have "length (take (p - i) (drop i s)) \<le> p - i" by simp
  with pre have pre': "\<forall>k < length (take (p - i) (drop i s)).
      \<not> (s ! (i + k) = CHR ''<'' \<and> CHR ''>'' \<in> set (drop (Suc (i + k)) s))"
    by auto
  have "strip_tags (drop i s) = take (p - i) (drop i s) @ strip_tags (drop p s)"
    using no_tag_from [OF pre' split] split by simp
  also have "strip_tags (drop p s) = strip_tags (drop e s)"
    unfolding w(1) by (rule strip_tags_tag [OF w(2)])
  finally show ?thesis .
qed

lemma replace_tags_loop_strip:
  "replace_tags_loop s i acc = Some (acc @ strip_tags (drop i s))"
proof (induction "length s - i" arbitrary: i acc rule: less_induct)
  case less
  show ?case
  proof (cases "find_tag s i")
    case None
    then show ?thesis by (simp add: replace_tags_loop.simps find_tag_None)
  next
    case (Some pe)
    then obtain p e where pe: "find_tag s i = Some (p, e)" by (cases pe) auto
    from find_tag_Some [OF pe] have "length s - e < length s - i" by auto
    then have "replace_tags_loop s e (acc @ take (p - i) (drop i s)) =
               Some (acc @ take (p - i) (drop i s) @ strip_tags (drop e s))"
      using less by simp
    then show ?thesis by (simp add: replace_tags_loop.simps pe strip_tags_at_tag [OF pe])
  qed
qed

text \<open>The replace loop returns on every input, and it returns exactly strip_tags of the input.\<close>

theorem js_replace_tags_terminates:
  "js_replace_tags s = Some (strip_tags s)"
  by (simp add: js_replace_tags_def replace_tags_loop_strip)

lemma sanitizeString_js_replace:
  "map_option js_trim (js_replace_tags s) = Some (sanitizeString s)"
  by (simp add: sanitizeString_def replace_tags_loop_strip js_replace_tags_def)

lemma js_replace_tags_examples:
  "js_replace_tags ''a<b>c<d'' = Some ''ac<d''"
  "js_replace_tags ''<p></p>abc'' = Some ''abc''"
  by (simp_all add: eval_simps)

end
