(* ===== verification/Migration.thy ===== *)
theory Migration
  imports Store DateFns
begin

text \<open>
  The schema migration of \<open>src/src/app/utils/storage.ts\<close>: \<open>initializeStorage\<close>
  (lines 122-142) and \<open>migrateStorage\<close> (lines 145-175), on the data as it is stored,
  legacy records included. The typed model of \<open>Store\<close> cannot hold a record without a
  timestamp, so here the stored values are JSON values.
  \<^item> \<open>jval\<close> is a parsed JSON value; an object is its list of properties in own-key
    order. Numbers are integers: the migration only tests them for truthiness.
  \<^item> A key of local storage holds nothing (\<open>None\<close>), a JSON text (\<open>RJson\<close>), or a text
    \<open>JSON.parse\<close> rejects (\<open>RCorrupt\<close>). A stored empty string is \<open>None\<close>: it is
    falsy, so \<open>if (reportsData)\<close>, \<open>if (usersData)\<close> and \<open>!safeGetItem(...)\<close> (lines
    132-137, 149, 161) treat it exactly as \<open>null\<close> and it is never parsed. The version stays
    a string, where \<open>\<close> and \<open>null\<close> differ only in the log message.
  \<^item> Property reads, object spread, \<open>||\<close>, \<open>typeof\<close> and \<open>Array.prototype.map\<close> follow
    ECMAScript: reading a property of \<open>null\<close> throws, of any other primitive gives
    \<open>undefined\<close>; \<open>map\<close> on a value that is not an array throws. A thrown exception is
    \<open>None\<close>, caught by the \<open>try\<close> of \<open>migrateStorage\<close>.
  \<^item> Every \<open>new Date().toISOString()\<close> of one run reads the same clock \<open>now ev\<close>;
    \<open>js_toISOString\<close> is the engine's format \<open>YYYY-MM-DDTHH:mm:ss.sssZ\<close>.
\<close>

datatype jval = JStr string | JNum int | JBool bool | JNull | JArr "jval list"
  | JObj "(string \<times> jval) list"

datatype raw_text = RJson jval | RCorrupt

record raw_store =
  raw_users :: "raw_text option"
  raw_reports :: "raw_text option"
  raw_version :: "string option"

subsection \<open>JavaScript values\<close>

definition js_truthy :: "jval option \<Rightarrow> bool" where
  "js_truthy v =
     (case v of None \<Rightarrow> False | Some (JStr s) \<Rightarrow> s \<noteq> [] | Some (JNum n) \<Rightarrow> n \<noteq> 0
      | Some (JBool b) \<Rightarrow> b | Some JNull \<Rightarrow> False | Some (JArr _) \<Rightarrow> True | Some (JObj _) \<Rightarrow> True)"

definition js_typeof_string :: "jval option \<Rightarrow> bool" where
  "js_typeof_string v = (case v of Some (JStr _) \<Rightarrow> True | _ \<Rightarrow> False)"

text \<open>\<open>v.k\<close>: \<open>None\<close> when it throws, \<open>Some None\<close> for \<open>undefined\<close>.\<close>

definition js_get :: "jval \<Rightarrow> string \<Rightarrow> jval option option" where
  "js_get v k = (case v of JNull \<Rightarrow> None | JObj ps \<Rightarrow> Some (map_of ps k) | _ \<Rightarrow> Some None)"

text \<open>\<open>{...v}\<close>: the own enumerable properties of \<open>v\<close>; an array or a string gives its
  indices.\<close>

definition js_spread :: "jval \<Rightarrow> (string \<times> jval) list" where
  "js_spread v =
     (case v of JObj ps \<Rightarrow> ps
      | JArr xs \<Rightarrow> map (\<lambda>i. (js_nat_digits i, xs ! i)) [0..<length xs]
      | JStr s \<Rightarrow> map (\<lambda>i. (js_nat_digits i, JStr [s ! i])) [0..<length s]
      | _ \<Rightarrow> [])"

text \<open>A property \<open>k: v\<close> after the spread: an existing key keeps its place.\<close>

definition js_set :: "string \<Rightarrow> jval \<Rightarrow> (string \<times> jval) list \<Rightarrow> (string \<times> jval) list" where
  "js_set k v ps =
     (if k \<in> fst ` set ps then map (\<lambda>(k', v'). if k' = k then (k', v) else (k', v')) ps
      else ps @ [(k, v)])"

definition js_or :: "jval option \<Rightarrow> jval \<Rightarrow> jval" where
  "js_or a b = (if js_truthy a then the a else b)"

definition js_map_array :: "(jval \<Rightarrow> jval option) \<Rightarrow> jval \<Rightarrow> jval list option" where
  "js_map_array f v = (case v of JArr xs \<Rightarrow> those (map f xs) | _ \<Rightarrow> None)"

subsection \<open>\<open>Date.prototype.toISOString\<close>\<close>

definition js_pad :: "nat \<Rightarrow> int \<Rightarrow> string" where
  "js_pad n k = (let s = js_nat_digits (nat k) in replicate (n - length s) CHR ''0'' @ s)"

definition js_toISOString :: "timestamp \<Rightarrow> string" where
  "js_toISOString t =
     (case civil_from_days (t div ms_per_day) of (y, m, d) \<Rightarrow>
        let msd = t mod ms_per_day;
            yy = (if 0 \<le> y \<and> y \<le> 9999 then js_pad 4 y
                  else (if y < 0 then CHR ''-'' else CHR ''+'') # js_pad 6 \<bar>y\<bar>)
        in yy @ ''-'' @ js_pad 2 m @ ''-'' @ js_pad 2 d @ ''T'' @ js_pad 2 (msd div 3600000)
           @ '':'' @ js_pad 2 (msd div 60000 mod 60) @ '':'' @ js_pad 2 (msd div 1000 mod 60)
           @ ''.'' @ js_pad 3 (msd mod 1000) @ ''Z'')"

subsection \<open>The migration\<close>

text \<open>The callback of \<open>reports.map\<close> (lines 152-157) and of \<open>users.map\<close> (lines 164-168).\<close>

definition migrate_report :: "string \<Rightarrow> jval \<Rightarrow> jval option" where
  "migrate_report isoNow r =
     (case js_get r ''timestamp'' of None \<Rightarrow> None | Some ts \<Rightarrow>
      case js_get r ''createdAt'' of None \<Rightarrow> None | Some c \<Rightarrow>
      case js_get r ''updatedAt'' of None \<Rightarrow> None | Some u \<Rightarrow>
        Some (JObj (js_set ''updatedAt'' (js_or u (JStr isoNow))
                     (js_set ''createdAt'' (js_or c (JStr isoNow))
                       (js_set ''timestamp'' (if js_typeof_string ts then the ts else JStr isoNow)
                         (js_spread r))))))"

definition migrate_user :: "string \<Rightarrow> jval \<Rightarrow> jval option" where
  "migrate_user isoNow u =
     (case js_get u ''createdAt'' of None \<Rightarrow> None | Some c \<Rightarrow>
      case js_get u ''updatedAt'' of None \<Rightarrow> None | Some d \<Rightarrow>
        Some (JObj (js_set ''updatedAt'' (js_or d (JStr isoNow))
                     (js_set ''createdAt'' (js_or c (JStr isoNow)) (js_spread u)))))"

definition raw_setItem :: "env \<Rightarrow> skey \<Rightarrow> (raw_store \<Rightarrow> raw_store) \<Rightarrow> raw_store \<Rightarrow> bool \<times> raw_store" where
  "raw_setItem ev k write st = (if write_fails ev k then (False, st) else (True, write st))"

text \<open>Lines 160-170: the users half of the \<open>try\<close>; \<open>False\<close> when it throws.\<close>

definition migrate_users :: "env \<Rightarrow> string \<Rightarrow> raw_store \<Rightarrow> bool \<times> raw_store" where
  "migrate_users ev isoNow st =
     (case raw_users st of
        None \<Rightarrow> (True, st)
      | Some RCorrupt \<Rightarrow> (False, st)
      | Some (RJson v) \<Rightarrow>
          (case js_map_array (migrate_user isoNow) v of
             None \<Rightarrow> (False, st)
           | Some us \<Rightarrow> (True, snd (raw_setItem ev USERS (\<lambda>s. s\<lparr>raw_users := Some (RJson (JArr us))\<rparr>) st))))"

text \<open>\<open>migrateStorage\<close>: the result says whether the \<open>try\<close> ran to its end (\<open>False\<close>:
  \<open>MIGRATION_ERROR\<close> is logged).\<close>

definition migrateStorage :: "env \<Rightarrow> string option \<Rightarrow> raw_store \<Rightarrow> bool \<times> raw_store" where
  "migrateStorage ev fromVersion st =
     (if fromVersion = None \<or> fromVersion = Some [] \<or> fromVersion = Some STORAGE_VERSION then
        (let isoNow = js_toISOString (now ev) in
         case raw_reports st of
           None \<Rightarrow> migrate_users ev isoNow st
         | Some RCorrupt \<Rightarrow> (False, st)
         | Some (RJson v) \<Rightarrow>
             (case js_map_array (migrate_report isoNow) v of
                None \<Rightarrow> (False, st)
              | Some rs \<Rightarrow>
                  migrate_users ev isoNow
                    (snd (raw_setItem ev REPORTS (\<lambda>s. s\<lparr>raw_reports := Some (RJson (JArr rs))\<rparr>) st))))
      else (True, st))"

text \<open>Lines 134-139: create the user and report arrays where they are absent.\<close>

definition ensure_collections :: "env \<Rightarrow> raw_store \<Rightarrow> raw_store" where
  "ensure_collections ev st1 =
     (let st2 = (if raw_users st1 = None
                 then snd (raw_setItem ev USERS (\<lambda>s. s\<lparr>raw_users := Some (RJson (JArr []))\<rparr>) st1)
                 else st1)
      in if raw_reports st2 = None
         then snd (raw_setItem ev REPORTS (\<lambda>s. s\<lparr>raw_reports := Some (RJson (JArr []))\<rparr>) st2)
         else st2)"

definition initializeStorage_raw :: "env \<Rightarrow> raw_store \<Rightarrow> raw_store" where
  "initializeStorage_raw ev st =
     ensure_collections ev
       (if raw_version st \<noteq> Some STORAGE_VERSION
        then snd (raw_setItem ev VERSION (\<lambda>s. s\<lparr>raw_version := Some STORAGE_VERSION\<rparr>)
                    (snd (migrateStorage ev (raw_version st) st)))
        else st)"

subsection \<open>Complete records\<close>

text \<open>A report the typed model can hold: an object with a string \<open>timestamp\<close> and truthy
  \<open>createdAt\<close> and \<open>updatedAt\<close>; a user likewise without the timestamp.\<close>

definition complete_report :: "jval \<Rightarrow> bool" where
  "complete_report r =
     (case r of JObj ps \<Rightarrow> js_typeof_string (map_of ps ''timestamp'')
        \<and> js_truthy (map_of ps ''createdAt'') \<and> js_truthy (map_of ps ''updatedAt'')
      | _ \<Rightarrow> False)"

definition complete_user :: "jval \<Rightarrow> bool" where
  "complete_user u =
     (case u of JObj ps \<Rightarrow> js_truthy (map_of ps ''createdAt'') \<and> js_truthy (map_of ps ''updatedAt'')
      | _ \<Rightarrow> False)"

definition all_complete :: "(jval \<Rightarrow> bool) \<Rightarrow> raw_text option \<Rightarrow> bool" where
  "all_complete P t = (case t of Some (RJson (JArr xs)) \<Rightarrow> list_all P xs | _ \<Rightarrow> False)"

text \<open>Data the migration can read: absent, or an array without \<open>null\<close> elements.\<close>

definition migratable :: "raw_text option \<Rightarrow> bool" where
  "migratable t = (case t of None \<Rightarrow> True | Some (RJson (JArr xs)) \<Rightarrow> JNull \<notin> set xs | _ \<Rightarrow> False)"

text \<open>A store left by an older version of the application: a user and a report without
  timestamps, the report's timestamp a number.\<close>

definition legacy_store :: "string option \<Rightarrow> raw_store" where
  "legacy_store v =
     \<lparr>raw_users = Some (RJson (JArr [JObj [(''id'', JStr ''u1''), (''email'', JStr ''a@b.co'')]])),
      raw_reports = Some (RJson (JArr [JObj [(''id'', JStr ''r1''), (''timestamp'', JNum 1700000000000)]])),
      raw_version = v\<rparr>"

declare js_truthy_def [eval_simps] js_typeof_string_def [eval_simps] js_get_def [eval_simps]
  js_spread_def [eval_simps] js_set_def [eval_simps] js_or_def [eval_simps] js_map_array_def [eval_simps]
  js_pad_def [eval_simps] js_toISOString_def [eval_simps] migrate_report_def [eval_simps]
  migrate_user_def [eval_simps] raw_setItem_def [eval_simps] migrate_users_def [eval_simps]
  migrateStorage_def [eval_simps] ensure_collections_def [eval_simps] initializeStorage_raw_def [eval_simps]
  complete_report_def [eval_simps] complete_user_def [eval_simps] all_complete_def [eval_simps]
  migratable_def [eval_simps] legacy_store_def [eval_simps]

subsection \<open>Properties after a spread\<close>

lemma set_js_set_map:
  "(a, b) \<in> set (map (\<lambda>(k', v'). if k' = k then (k', v) else (k', v')) ps) \<longleftrightarrow>
   (if a = k then b = v \<and> k \<in> fst ` set ps else (a, b) \<in> set ps)"
  by (induction ps) (auto split: if_splits)

lemma map_of_set_map:
  "a \<noteq> k \<Longrightarrow> map_of (map (\<lambda>(k', v'). if k' = k then (k', v) else (k', v')) ps) a = map_of ps a"
  by (induction ps) auto

lemma js_set_same_key: "(k, w) \<in> set (js_set k v ps) \<longleftrightarrow> w = v"
  unfolding js_set_def by (auto simp del: set_map simp: set_js_set_map intro: rev_image_eqI)

lemma js_set_other_key: "k' \<noteq> k \<Longrightarrow> (k', w) \<in> set (js_set k v ps) \<longleftrightarrow> (k', w) \<in> set ps"
  unfolding js_set_def by (auto simp del: set_map simp: set_js_set_map intro: rev_image_eqI)

lemma js_set_keys: "fst ` set (js_set k v ps) = insert k (fst ` set ps)"
  by (force simp: js_set_def image_iff)

lemma map_of_unique:
  "k \<in> fst ` set ps \<Longrightarrow> \<forall>w. (k, w) \<in> set ps \<longrightarrow> w = v \<Longrightarrow> map_of ps k = Some v"
  by (metis (no_types, lifting) imageE map_of_SomeD option.exhaust prod.collapse weak_map_of_SomeI)

lemma js_set_unique:
  "k \<in> fst ` set ps \<Longrightarrow> \<forall>w. (k, w) \<in> set ps \<longrightarrow> w = v \<Longrightarrow> js_set k v ps = ps"
  by (auto simp: js_set_def intro!: map_idI)

lemma map_of_js_set: "map_of (js_set k v ps) = (map_of ps)(k \<mapsto> v)"
proof -
  have "map_of (js_set k v ps) k' = ((map_of ps)(k \<mapsto> v)) k'" for k'
  proof (cases "k' = k")
    case True
    then show ?thesis using js_set_same_key [of k _ v ps] js_set_keys [of k v ps]
      by (simp add: map_of_unique)
  next
    case False
    have "map_of (js_set k v ps) k' = map_of ps k'"
    proof (cases "k \<in> fst ` set ps")
      case True
      then show ?thesis using False by (simp add: js_set_def map_of_set_map)
    next
      case False
      then show ?thesis using \<open>k' \<noteq> k\<close> by (simp add: js_set_def map_of_append map_add_def split: option.split)
    qed
    with False show ?thesis by simp
  qed
  then show ?thesis by blast
qed

lemma js_toISOString_not_Nil [simp]: "js_toISOString t \<noteq> []"
  by (simp add: js_toISOString_def Let_def split: prod.split)

text \<open>A property all of whose occurrences carry one value: what \<open>js_set\<close> leaves.\<close>

lemma js_set_settles:
  "k \<in> fst ` set (js_set k v ps) \<and> (\<forall>w. (k, w) \<in> set (js_set k v ps) \<longrightarrow> w = v)"
  using js_set_same_key [of k _ v ps] js_set_keys [of k v ps] by simp

lemma js_set_settled:
  "map_of ps k = Some v \<Longrightarrow> \<forall>w. (k, w) \<in> set ps \<longrightarrow> w = v \<Longrightarrow> js_set k v ps = ps"
  by (rule js_set_unique) (auto dest: map_of_SomeD intro: rev_image_eqI)

lemma js_or_truthy: "i \<noteq> [] \<Longrightarrow> js_truthy (Some (js_or a (JStr i)))"
  by (cases a) (auto simp: js_or_def js_truthy_def)

lemma js_or_truthy_id: "js_truthy (Some c) \<Longrightarrow> js_or (Some c) d = c"
  by (simp add: js_or_def)

lemma typeof_choose: "js_typeof_string (Some (if js_typeof_string ts then the ts else JStr i))"
  by (auto simp: js_typeof_string_def split: option.splits jval.splits)

lemma migrate_report_fixed:
  assumes "map_of ps ''timestamp'' = Some T" "\<forall>w. (''timestamp'', w) \<in> set ps \<longrightarrow> w = T"
    and "map_of ps ''createdAt'' = Some C" "\<forall>w. (''createdAt'', w) \<in> set ps \<longrightarrow> w = C"
    and "map_of ps ''updatedAt'' = Some U" "\<forall>w. (''updatedAt'', w) \<in> set ps \<longrightarrow> w = U"
    and "js_typeof_string (Some T)" "js_truthy (Some C)" "js_truthy (Some U)"
  shows "migrate_report i (JObj ps) = Some (JObj ps)"
proof -
  have "the (Some T) = T" by simp
  note s = js_set_settled [OF assms(1,2)] js_set_settled [OF assms(3,4)] js_set_settled [OF assms(5,6)]
  show ?thesis
    using assms(1,3,5,7) s by (simp add: migrate_report_def js_get_def js_spread_def js_or_truthy_id assms(8,9))
qed

lemma migrate_user_fixed:
  assumes "map_of ps ''createdAt'' = Some C" "\<forall>w. (''createdAt'', w) \<in> set ps \<longrightarrow> w = C"
    and "map_of ps ''updatedAt'' = Some U" "\<forall>w. (''updatedAt'', w) \<in> set ps \<longrightarrow> w = U"
    and "js_truthy (Some C)" "js_truthy (Some U)"
  shows "migrate_user i (JObj ps) = Some (JObj ps)"
proof -
  note s = js_set_settled [OF assms(1,2)] js_set_settled [OF assms(3,4)]
  show ?thesis
    using assms(1,3) s by (simp add: migrate_user_def js_get_def js_spread_def js_or_truthy_id assms(5,6))
qed

lemma migrate_report_settled:
  assumes "migrate_report i r = Some r'" and "i \<noteq> []"
  shows "complete_report r' \<and> migrate_report i' r' = Some r'"
proof -
  obtain ts c u where g: "js_get r ''timestamp'' = Some ts" "js_get r ''createdAt'' = Some c"
      "js_get r ''updatedAt'' = Some u"
    using assms(1) by (auto simp: migrate_report_def split: option.splits)
  define T where "T = (if js_typeof_string ts then the ts else JStr i)"
  define C where "C = js_or c (JStr i)"
  define U where "U = js_or u (JStr i)"
  define ps where "ps = js_set ''updatedAt'' U (js_set ''createdAt'' C (js_set ''timestamp'' T (js_spread r)))"
  have r': "r' = JObj ps" using assms(1) g by (simp add: migrate_report_def ps_def T_def C_def U_def)
  have m: "map_of ps ''timestamp'' = Some T" "map_of ps ''createdAt'' = Some C"
      "map_of ps ''updatedAt'' = Some U"
    by (simp_all add: ps_def map_of_js_set)
  have o: "\<forall>w. (''timestamp'', w) \<in> set ps \<longrightarrow> w = T" "\<forall>w. (''createdAt'', w) \<in> set ps \<longrightarrow> w = C"
      "\<forall>w. (''updatedAt'', w) \<in> set ps \<longrightarrow> w = U"
    by (simp_all add: ps_def js_set_other_key js_set_same_key)
  have v: "js_typeof_string (Some T)" "js_truthy (Some C)" "js_truthy (Some U)"
    using assms(2) by (simp_all add: T_def C_def U_def js_or_truthy typeof_choose)
  have "complete_report r'" using r' m v by (simp add: complete_report_def)
  moreover have "migrate_report i' r' = Some r'"
    unfolding r' by (rule migrate_report_fixed [OF m(1) o(1) m(2) o(2) m(3) o(3) v])
  ultimately show ?thesis ..
qed

lemma migrate_user_settled:
  assumes "migrate_user i u = Some u'" and "i \<noteq> []"
  shows "complete_user u' \<and> migrate_user i' u' = Some u'"
proof -
  obtain c d where g: "js_get u ''createdAt'' = Some c" "js_get u ''updatedAt'' = Some d"
    using assms(1) by (auto simp: migrate_user_def split: option.splits)
  define C where "C = js_or c (JStr i)"
  define U where "U = js_or d (JStr i)"
  define ps where "ps = js_set ''updatedAt'' U (js_set ''createdAt'' C (js_spread u))"
  have u': "u' = JObj ps" using assms(1) g by (simp add: migrate_user_def ps_def C_def U_def)
  have m: "map_of ps ''createdAt'' = Some C" "map_of ps ''updatedAt'' = Some U"
    by (simp_all add: ps_def map_of_js_set)
  have o: "\<forall>w. (''createdAt'', w) \<in> set ps \<longrightarrow> w = C" "\<forall>w. (''updatedAt'', w) \<in> set ps \<longrightarrow> w = U"
    by (simp_all add: ps_def js_set_other_key js_set_same_key)
  have v: "js_truthy (Some C)" "js_truthy (Some U)"
    using assms(2) by (simp_all add: C_def U_def js_or_truthy)
  have "complete_user u'" using u' m v by (simp add: complete_user_def)
  moreover have "migrate_user i' u' = Some u'"
    unfolding u' by (rule migrate_user_fixed [OF m(1) o(1) m(2) o(2) v])
  ultimately show ?thesis ..
qed

lemma migrate_report_None: "migrate_report i r = None \<longleftrightarrow> r = JNull"
  by (cases r) (simp_all add: migrate_report_def js_get_def)

lemma migrate_user_None: "migrate_user i r = None \<longleftrightarrow> r = JNull"
  by (cases r) (simp_all add: migrate_user_def js_get_def)

lemma those_map_settled:
  "those (map f xs) = Some ys \<Longrightarrow> \<forall>x y. f x = Some y \<longrightarrow> P y \<and> g y = Some y
   \<Longrightarrow> list_all P ys \<and> those (map g ys) = Some ys"
  by (induction xs arbitrary: ys) (auto split: option.splits)

lemma those_map_None: "those (map f xs) = None \<longleftrightarrow> (\<exists>x\<in>set xs. f x = None)"
  by (induction xs) (auto split: option.splits)

lemma js_map_array_report:
  "js_map_array (migrate_report i) v = Some rs \<Longrightarrow> i \<noteq> []
   \<Longrightarrow> list_all complete_report rs \<and> js_map_array (migrate_report i') (JArr rs) = Some rs"
  using those_map_settled [of "migrate_report i" _ rs complete_report "migrate_report i'"]
    migrate_report_settled
  by (auto simp: js_map_array_def split: jval.splits)

lemma js_map_array_user:
  "js_map_array (migrate_user i) v = Some us \<Longrightarrow> i \<noteq> []
   \<Longrightarrow> list_all complete_user us \<and> js_map_array (migrate_user i') (JArr us) = Some us"
  using those_map_settled [of "migrate_user i" _ us complete_user "migrate_user i'"]
    migrate_user_settled
  by (auto simp: js_map_array_def split: jval.splits)

lemma js_map_array_defined:
  "JNull \<notin> set xs \<Longrightarrow> js_map_array (migrate_report i) (JArr xs) \<noteq> None"
  "JNull \<notin> set xs \<Longrightarrow> js_map_array (migrate_user i) (JArr xs) \<noteq> None"
  by (auto simp: js_map_array_def those_map_None migrate_report_None migrate_user_None)

subsection \<open>The store after the migration\<close>

lemma migrate_users_frame:
  "raw_reports (snd (migrate_users ev i s)) = raw_reports s"
  "raw_version (snd (migrate_users ev i s)) = raw_version s"
  by (simp_all add: migrate_users_def raw_setItem_def split: option.splits raw_text.splits)

lemma migrateStorage_version:
  "raw_version (snd (migrateStorage ev v s)) = raw_version s"
  by (simp add: migrateStorage_def raw_setItem_def Let_def migrate_users_frame
      split: option.splits raw_text.splits)

lemma migrate_users_complete:
  assumes "migratable (raw_users s)" "\<not> write_fails ev USERS" "i \<noteq> []"
  shows "raw_users (snd (migrate_users ev i s)) = None
         \<or> all_complete complete_user (raw_users (snd (migrate_users ev i s)))"
proof (cases "raw_users s")
  case None
  then show ?thesis by (simp add: migrate_users_def)
next
  case (Some t)
  with assms(1) obtain xs where t: "t = RJson (JArr xs)" "JNull \<notin> set xs"
    by (auto simp: migratable_def split: raw_text.splits jval.splits)
  then obtain us where us: "js_map_array (migrate_user i) (JArr xs) = Some us"
    using js_map_array_defined(2) by blast
  with js_map_array_user [OF us assms(3)] Some t assms(2) show ?thesis
    by (simp add: migrate_users_def raw_setItem_def all_complete_def)
qed

lemma migrateStorage_complete:
  assumes "v = None \<or> v = Some []" "migratable (raw_reports s)" "migratable (raw_users s)"
    and "\<not> write_fails ev USERS" "\<not> write_fails ev REPORTS"
  shows "(raw_reports (snd (migrateStorage ev v s)) = None
          \<or> all_complete complete_report (raw_reports (snd (migrateStorage ev v s))))
       \<and> (raw_users (snd (migrateStorage ev v s)) = None
          \<or> all_complete complete_user (raw_users (snd (migrateStorage ev v s))))"
proof (cases "raw_reports s")
  case None
  with assms migrate_users_complete [OF assms(3,4) js_toISOString_not_Nil] show ?thesis
    by (auto simp: migrateStorage_def migrate_users_frame)
next
  case (Some t)
  let ?i = "js_toISOString (now ev)"
  from Some assms(2) obtain xs where t: "t = RJson (JArr xs)" "JNull \<notin> set xs"
    by (auto simp: migratable_def split: raw_text.splits jval.splits)
  then obtain rs where rs: "js_map_array (migrate_report ?i) (JArr xs) = Some rs"
    using js_map_array_defined(1) by blast
  define s' where "s' = s\<lparr>raw_reports := Some (RJson (JArr rs))\<rparr>"
  have m: "migrateStorage ev v s = migrate_users ev ?i s'"
    using assms(1,5) Some t rs by (auto simp: migrateStorage_def raw_setItem_def s'_def)
  have "migratable (raw_users s')" using assms(3) by (simp add: s'_def)
  from migrate_users_complete [OF this assms(4) js_toISOString_not_Nil] show ?thesis
    unfolding m using js_map_array_report [OF rs js_toISOString_not_Nil]
    by (simp add: migrate_users_frame s'_def all_complete_def)
qed

lemma migrate_report_distinct_fixed:
  assumes "distinct (map fst ps)" "complete_report (JObj ps)"
  shows "migrate_report i (JObj ps) = Some (JObj ps)"
proof -
  have u: "\<forall>w. (k, w) \<in> set ps \<longrightarrow> w = v" if "map_of ps k = Some v" for k v
    using assms(1) that by (metis map_of_is_SomeI option.inject)
  from assms(2) obtain T C U where m: "map_of ps ''timestamp'' = Some T" "map_of ps ''createdAt'' = Some C"
      "map_of ps ''updatedAt'' = Some U"
      and v: "js_typeof_string (Some T)" "js_truthy (Some C)" "js_truthy (Some U)"
    by (auto simp: complete_report_def js_typeof_string_def js_truthy_def split: option.splits)
  show ?thesis by (rule migrate_report_fixed [OF m(1) u [OF m(1)] m(2) u [OF m(2)] m(3) u [OF m(3)] v])
qed

lemma raw_setItem_snd: "snd (raw_setItem ev k w s) = (if write_fails ev k then s else w s)"
  by (simp add: raw_setItem_def)

lemma raw_setItem_frame:
  "raw_reports (snd (raw_setItem ev k (\<lambda>s. s\<lparr>raw_version := x\<rparr>) s)) = raw_reports s"
  "raw_users (snd (raw_setItem ev k (\<lambda>s. s\<lparr>raw_version := x\<rparr>) s)) = raw_users s"
  "raw_reports (snd (raw_setItem ev k (\<lambda>s. s\<lparr>raw_users := y\<rparr>) s)) = raw_reports s"
  "raw_version (snd (raw_setItem ev k (\<lambda>s. s\<lparr>raw_users := y\<rparr>) s)) = raw_version s"
  "raw_users (snd (raw_setItem ev k (\<lambda>s. s\<lparr>raw_reports := z\<rparr>) s)) = raw_users s"
  "raw_version (snd (raw_setItem ev k (\<lambda>s. s\<lparr>raw_reports := z\<rparr>) s)) = raw_version s"
  by (simp_all add: raw_setItem_def)

lemma raw_create_complete:
  "\<not> write_fails ev USERS \<Longrightarrow> raw_users s = None \<or> all_complete P (raw_users s) \<Longrightarrow>
   all_complete P (raw_users (if raw_users s = None
     then snd (raw_setItem ev USERS (\<lambda>s. s\<lparr>raw_users := Some (RJson (JArr []))\<rparr>) s) else s))"
  "\<not> write_fails ev REPORTS \<Longrightarrow> raw_reports s = None \<or> all_complete Q (raw_reports s) \<Longrightarrow>
   all_complete Q (raw_reports (if raw_reports s = None
     then snd (raw_setItem ev REPORTS (\<lambda>s. s\<lparr>raw_reports := Some (RJson (JArr []))\<rparr>) s) else s))"
  by (auto simp: raw_setItem_def all_complete_def)

subsection \<open>Idempotence\<close>
lemma js_map_array_None_clock:
  "js_map_array (migrate_report i) v = None \<longleftrightarrow> js_map_array (migrate_report i') v = None"
  "js_map_array (migrate_user i) v = None \<longleftrightarrow> js_map_array (migrate_user i') v = None"
  by (simp_all add: js_map_array_def those_map_None migrate_report_None migrate_user_None split: jval.split)

lemma ensure_collections_cong:
  "write_fails ev' = write_fails ev \<Longrightarrow> ensure_collections ev' s = ensure_collections ev s"
  by (simp add: ensure_collections_def raw_setItem_def Let_def)

lemma ensure_collections_idem:
  "ensure_collections ev (ensure_collections ev s) = ensure_collections ev s"
  by (simp add: ensure_collections_def raw_setItem_def Let_def)

lemma migrate_users_idem:
  assumes "write_fails ev' = write_fails ev" "i \<noteq> []"
  shows "snd (migrate_users ev' i' (snd (migrate_users ev i s))) = snd (migrate_users ev i s)"
proof (cases "\<exists>v us. raw_users s = Some (RJson v) \<and> js_map_array (migrate_user i) v = Some us")
  case True
  then obtain v us where v: "raw_users s = Some (RJson v)" "js_map_array (migrate_user i) v = Some us"
    by blast
  obtain us' where "js_map_array (migrate_user i') v = Some us'"
    using v(2) js_map_array_None_clock(2) [of i v i'] by fastforce
  then show ?thesis using v assms js_map_array_user [OF v(2) assms(2), of i']
    by (simp add: migrate_users_def raw_setItem_def)
next
  case False
  then have "snd (migrate_users ev i s) = s"
    by (auto simp: migrate_users_def split: option.splits raw_text.splits)
  with False show ?thesis
    using js_map_array_None_clock(2) [of i _ i']
    by (auto simp: migrate_users_def split: option.splits raw_text.splits)
qed
lemma migrate_users_ensure:
  "snd (migrate_users ev i (ensure_collections ev s)) = ensure_collections ev (snd (migrate_users ev i s))"
  by (auto simp: migrate_users_def ensure_collections_def raw_setItem_def Let_def js_map_array_def
      split: option.splits raw_text.splits)

lemma ensure_collections_reports_set:
  "ensure_collections ev (s\<lparr>raw_reports := Some r\<rparr>) = (ensure_collections ev s)\<lparr>raw_reports := Some r\<rparr>"
  by (simp add: ensure_collections_def raw_setItem_def Let_def)

lemma migrateStorage_other:
  assumes "\<not> (v = None \<or> v = Some [] \<or> v = Some STORAGE_VERSION)"
  shows "migrateStorage ev v s = (True, s)"
  unfolding migrateStorage_def by (rule if_not_P [OF assms])

lemma migrateStorage_ensure:
  "snd (migrateStorage ev v (ensure_collections ev s)) = ensure_collections ev (snd (migrateStorage ev v s))"
proof (cases "v = None \<or> v = Some [] \<or> v = Some STORAGE_VERSION")
  case False
  then show ?thesis by (simp add: migrateStorage_other)
next
  case True
  let ?i = "js_toISOString (now ev)"
  have rep: "raw_reports (ensure_collections ev s) =
     (if raw_reports s = None \<and> \<not> write_fails ev REPORTS then Some (RJson (JArr [])) else raw_reports s)"
    by (simp add: ensure_collections_def raw_setItem_def Let_def)
  show ?thesis
  proof (cases "raw_reports s")
    case None
    then have "snd (migrateStorage ev v s) = snd (migrate_users ev ?i s)"
      using True by (simp add: migrateStorage_def Let_def)
    moreover have "snd (migrateStorage ev v (ensure_collections ev s)) = snd (migrate_users ev ?i (ensure_collections ev s))"
    proof (cases "write_fails ev REPORTS")
      case True
      with \<open>v = None \<or> v = Some [] \<or> v = Some STORAGE_VERSION\<close> None rep show ?thesis
        by (simp add: migrateStorage_def Let_def)
    next
      case False
      have e: "(ensure_collections ev s)\<lparr>raw_reports := Some (RJson (JArr []))\<rparr> = ensure_collections ev s"
        using False None rep by simp
      have "migrateStorage ev v (ensure_collections ev s) =
            migrate_users ev ?i ((ensure_collections ev s)\<lparr>raw_reports := Some (RJson (JArr []))\<rparr>)"
        using \<open>v = None \<or> v = Some [] \<or> v = Some STORAGE_VERSION\<close> False None rep
        by (simp add: migrateStorage_def Let_def js_map_array_def raw_setItem_def)
      then show ?thesis by (simp only: e)
    qed
    ultimately show ?thesis by (simp add: migrate_users_ensure)
  next
    case (Some t)
    then have rep': "raw_reports (ensure_collections ev s) = Some t" using rep by simp
    show ?thesis
    proof (cases "\<exists>w rs. t = RJson w \<and> js_map_array (migrate_report ?i) w = Some rs")
      case True
      then obtain w rs where w: "t = RJson w" "js_map_array (migrate_report ?i) w = Some rs" by blast
      with \<open>v = None \<or> v = Some [] \<or> v = Some STORAGE_VERSION\<close> Some rep' show ?thesis
        by (simp add: migrateStorage_def Let_def raw_setItem_def ensure_collections_reports_set
            migrate_users_ensure [symmetric])
    next
      case False
      then have "migrateStorage ev v s = (False, s)"
          "migrateStorage ev v (ensure_collections ev s) = (False, ensure_collections ev s)"
        using \<open>v = None \<or> v = Some [] \<or> v = Some STORAGE_VERSION\<close> Some rep'
        by (auto simp: migrateStorage_def Let_def split: raw_text.splits option.splits)
      then show ?thesis by simp
    qed
  qed
qed

lemma migrateStorage_idem:
  assumes "write_fails ev' = write_fails ev"
  shows "snd (migrateStorage ev' v (snd (migrateStorage ev v s))) = snd (migrateStorage ev v s)"
proof (cases "v = None \<or> v = Some [] \<or> v = Some STORAGE_VERSION")
  case False
  then show ?thesis by (simp add: migrateStorage_other)
next
  case True
  let ?i = "js_toISOString (now ev)" and ?i' = "js_toISOString (now ev')"
  show ?thesis
  proof (cases "\<exists>w rs. raw_reports s = Some (RJson w) \<and> js_map_array (migrate_report ?i) w = Some rs")
    case True
    then obtain w rs where w: "raw_reports s = Some (RJson w)" "js_map_array (migrate_report ?i) w = Some rs"
      by blast
    obtain rs' where rs': "js_map_array (migrate_report ?i') w = Some rs'"
      using w(2) js_map_array_None_clock(1) [of ?i w ?i'] by fastforce
    have fx: "js_map_array (migrate_report ?i') (JArr rs) = Some rs"
      using js_map_array_report [OF w(2) js_toISOString_not_Nil] by blast
    define s1 where "s1 = snd (raw_setItem ev REPORTS (\<lambda>x. x\<lparr>raw_reports := Some (RJson (JArr rs))\<rparr>) s)"
    have m1: "migrateStorage ev v s = migrate_users ev ?i s1"
      using \<open>v = None \<or> v = Some [] \<or> v = Some STORAGE_VERSION\<close> w by (simp add: migrateStorage_def Let_def s1_def)
    let ?X = "snd (migrate_users ev ?i s1)"
    have "snd (migrateStorage ev' v ?X) = snd (migrate_users ev' ?i' ?X)"
    proof (cases "write_fails ev REPORTS")
      case True
      then have "raw_reports ?X = Some (RJson w)" using w by (simp add: migrate_users_frame s1_def raw_setItem_def)
      with True rs' assms \<open>v = None \<or> v = Some [] \<or> v = Some STORAGE_VERSION\<close> show ?thesis
        by (simp add: migrateStorage_def Let_def raw_setItem_def)
    next
      case False
      then have x: "raw_reports ?X = Some (RJson (JArr rs))"
        by (simp add: migrate_users_frame s1_def raw_setItem_def)
      have e: "?X\<lparr>raw_reports := Some (RJson (JArr rs))\<rparr> = ?X"
        using x by (metis raw_store.update_convs(2) raw_store.surjective ext)
      have "migrateStorage ev' v ?X = migrate_users ev' ?i' (?X\<lparr>raw_reports := Some (RJson (JArr rs))\<rparr>)"
        using x False fx assms \<open>v = None \<or> v = Some [] \<or> v = Some STORAGE_VERSION\<close>
        by (simp add: migrateStorage_def Let_def raw_setItem_def)
      then show ?thesis by (simp only: e)
    qed
    then show ?thesis unfolding m1 using migrate_users_idem [OF assms js_toISOString_not_Nil] by simp
  next
    case False
    show ?thesis
    proof (cases "raw_reports s")
      case None
      then have m: "migrateStorage ev v s = migrate_users ev ?i s"
        using \<open>v = None \<or> v = Some [] \<or> v = Some STORAGE_VERSION\<close> by (simp add: migrateStorage_def Let_def)
      have "raw_reports (snd (migrate_users ev ?i s)) = None" using None by (simp add: migrate_users_frame)
      then show ?thesis unfolding m using \<open>v = None \<or> v = Some [] \<or> v = Some STORAGE_VERSION\<close>
          migrate_users_idem [OF assms js_toISOString_not_Nil]
        by (simp add: migrateStorage_def Let_def)
    next
      case (Some t)
      have n: "\<forall>w. t = RJson w \<longrightarrow> js_map_array (migrate_report ?i') w = None"
        using False Some js_map_array_None_clock(1) [of ?i _ ?i'] by auto
      with False Some have "migrateStorage ev v s = (False, s)" "migrateStorage ev' v s = (False, s)"
        using \<open>v = None \<or> v = Some [] \<or> v = Some STORAGE_VERSION\<close>
        by (auto simp: migrateStorage_def Let_def split: raw_text.splits option.splits)
      then show ?thesis by simp
    qed
  qed
qed

lemma ensure_collections_version: "raw_version (ensure_collections ev s) = raw_version s"
  by (simp add: ensure_collections_def raw_setItem_def Let_def)

lemma initializeStorage_raw_current:
  "raw_version s = Some STORAGE_VERSION \<Longrightarrow> initializeStorage_raw ev s = ensure_collections ev s"
  by (simp add: initializeStorage_raw_def)

subsection \<open>Properties\<close>

text \<open>C14: Initialising a store that has no version marker, whose arrays parse and hold no null, and where the user and report writes succeed, leaves every stored report with a string timestamp and set createdAt and updatedAt, and every stored user with set createdAt and updatedAt.\<close>

theorem initializeStorage_raw_completes:
  assumes v: "raw_version st = None \<or> raw_version st = Some []"
    and w: "\<not> write_fails ev USERS" "\<not> write_fails ev REPORTS"
    and m: "migratable (raw_reports st)" "migratable (raw_users st)"
  shows "all_complete complete_report (raw_reports (initializeStorage_raw ev st))
         \<and> all_complete complete_user (raw_users (initializeStorage_raw ev st))"
proof -
  let ?s1 = "snd (migrateStorage ev (raw_version st) st)"
  let ?s2 = "snd (raw_setItem ev VERSION (\<lambda>s. s\<lparr>raw_version := Some STORAGE_VERSION\<rparr>) ?s1)"
  let ?s3 = "if raw_users ?s2 = None
     then snd (raw_setItem ev USERS (\<lambda>s. s\<lparr>raw_users := Some (RJson (JArr []))\<rparr>) ?s2) else ?s2"
  have c: "raw_reports ?s2 = None \<or> all_complete complete_report (raw_reports ?s2)"
      "raw_users ?s2 = None \<or> all_complete complete_user (raw_users ?s2)"
    using migrateStorage_complete [OF v m w] by (simp_all only: raw_setItem_frame)
  have c3: "raw_reports ?s3 = None \<or> all_complete complete_report (raw_reports ?s3)"
    using c(1) by (simp add: raw_setItem_frame)
  have "raw_version st \<noteq> Some STORAGE_VERSION" using v by (auto simp: STORAGE_VERSION_def)
  then have i: "initializeStorage_raw ev st = (if raw_reports ?s3 = None
     then snd (raw_setItem ev REPORTS (\<lambda>s. s\<lparr>raw_reports := Some (RJson (JArr []))\<rparr>) ?s3) else ?s3)"
    by (simp add: initializeStorage_raw_def ensure_collections_def Let_def)
  have u3: "all_complete complete_user (raw_users ?s3)" by (rule raw_create_complete(1) [OF w(1) c(2)])
  show ?thesis unfolding i
    using raw_create_complete(2) [OF w(2) c3] u3 by (simp add: raw_setItem_snd)
qed

text \<open>The migration leaves a report that is already complete exactly as it is, so on the typed records of the data model it is the identity.\<close>

theorem migrate_report_complete_id:
  assumes "distinct (map fst ps)" "complete_report (JObj ps)"
  shows "migrate_report i (JObj ps) = Some (JObj ps)"
  by (rule migrate_report_distinct_fixed [OF assms])

text \<open>C20: A store marked with any version other than 1.0.0 or the empty string is only stamped 1.0.0: its users and reports are left as they are, legacy records without timestamps included.\<close>

theorem initializeStorage_raw_other_version:
  assumes "raw_version st = Some v" "v \<noteq> []" "v \<noteq> STORAGE_VERSION"
    and "raw_users st \<noteq> None" "raw_reports st \<noteq> None" "\<not> write_fails ev VERSION"
  shows "initializeStorage_raw ev st = st\<lparr>raw_version := Some STORAGE_VERSION\<rparr>"
  using assms by (simp add: initializeStorage_raw_def ensure_collections_def migrateStorage_def
      raw_setItem_def Let_def)

text \<open>C15: Initialising storage twice, under any later clock with the same write failures, gives the store the first initialisation gave.\<close>

theorem initializeStorage_raw_idempotent:
  assumes w: "write_fails ev' = write_fails ev"
  shows "initializeStorage_raw ev' (initializeStorage_raw ev st) = initializeStorage_raw ev st"
proof -
  let ?M = "snd (migrateStorage ev (raw_version st) st)"
  have stamped: "initializeStorage_raw ev' (ensure_collections ev s) = ensure_collections ev s"
    if "raw_version s = Some STORAGE_VERSION" for s
    using that by (simp add: initializeStorage_raw_current ensure_collections_version
        ensure_collections_cong [OF w] ensure_collections_idem)
  consider (cur) "raw_version st = Some STORAGE_VERSION"
    | (set) "raw_version st \<noteq> Some STORAGE_VERSION" "\<not> write_fails ev VERSION"
    | (failed) "raw_version st \<noteq> Some STORAGE_VERSION" "write_fails ev VERSION"
    by blast
  then show ?thesis
  proof cases
    case cur
    then show ?thesis using stamped by (simp add: initializeStorage_raw_current)
  next
    case set
    then have "initializeStorage_raw ev st = ensure_collections ev (?M\<lparr>raw_version := Some STORAGE_VERSION\<rparr>)"
      by (simp add: initializeStorage_raw_def raw_setItem_def)
    then show ?thesis using stamped by simp
  next
    case failed
    then have i: "initializeStorage_raw ev st = ensure_collections ev ?M"
      by (simp add: initializeStorage_raw_def raw_setItem_def)
    have v: "raw_version (ensure_collections ev ?M) = raw_version st"
      by (simp add: ensure_collections_version migrateStorage_version)
    have "initializeStorage_raw ev' (ensure_collections ev ?M)
          = ensure_collections ev' (snd (migrateStorage ev' (raw_version st) (ensure_collections ev' ?M)))"
      using failed v w by (simp add: initializeStorage_raw_def raw_setItem_def ensure_collections_cong [OF w])
    also have "\<dots> = ensure_collections ev' (ensure_collections ev' (snd (migrateStorage ev' (raw_version st) ?M)))"
      by (simp only: migrateStorage_ensure)
    also have "\<dots> = ensure_collections ev ?M"
      by (simp add: migrateStorage_idem [OF w] ensure_collections_idem ensure_collections_cong [OF w])
    finally show ?thesis unfolding i .
  qed
qed

theorem initializeStorage_raw_completes_witness:
  "all_complete complete_report (raw_reports (initializeStorage_raw (demo_env 0) (legacy_store None)))
   \<and> all_complete complete_user (raw_users (initializeStorage_raw (demo_env 0) (legacy_store None)))"
  using initializeStorage_raw_completes [of "legacy_store None" "demo_env 0"]
  by (simp add: legacy_store_def demo_env_def migratable_def)

theorem migrate_report_complete_id_witness:
  "migrate_report ''2025-11-09T10:00:00.000Z''
     (JObj [(''timestamp'', JStr ''t''), (''createdAt'', JStr ''c''), (''updatedAt'', JStr ''u'')])
   = Some (JObj [(''timestamp'', JStr ''t''), (''createdAt'', JStr ''c''), (''updatedAt'', JStr ''u'')])"
  by (rule migrate_report_complete_id) (simp_all add: complete_report_def js_typeof_string_def js_truthy_def)

theorem initializeStorage_raw_other_version_witness:
  "initializeStorage_raw (demo_env 0) (legacy_store (Some ''0.9''))
     = legacy_store (Some STORAGE_VERSION)
   \<and> \<not> all_complete complete_report (raw_reports (initializeStorage_raw (demo_env 0) (legacy_store (Some ''0.9''))))"
proof -
  have i: "initializeStorage_raw (demo_env 0) (legacy_store (Some ''0.9'')) = legacy_store (Some STORAGE_VERSION)"
    using initializeStorage_raw_other_version [of "legacy_store (Some ''0.9'')" "''0.9''" "demo_env 0"]
    by (simp add: legacy_store_def demo_env_def STORAGE_VERSION_def)
  have "\<not> all_complete complete_report (raw_reports (legacy_store (Some STORAGE_VERSION)))"
    by (simp add: legacy_store_def all_complete_def complete_report_def js_typeof_string_def)
  with i show ?thesis by simp
qed

theorem initializeStorage_raw_idempotent_witness:
  "initializeStorage_raw (demo_env 1762682400000) (initializeStorage_raw (demo_env 0) (legacy_store None))
   = initializeStorage_raw (demo_env 0) (legacy_store None)"
  using initializeStorage_raw_idempotent [of "demo_env 1762682400000" "demo_env 0" "legacy_store None"]
  by (simp add: demo_env_def)

end
