(* ===== verification/Tabs.thy ===== *)
theory Tabs
  imports Reports
begin

text \<open>
  Two browser tabs of the application share one local storage. Each storage call is atomic,
  but \<open>saveReport\<close> (\<open>src/src/app/utils/storage.ts\<close> lines 297-390) is a
  read-modify-write: it reads the report array (line 323), checks and extends it in memory,
  and writes it back (line 366). Another tab may run between the read and the write.
  \<^item> \<open>save_read\<close> is the first phase, from the validation to \<open>reports.push\<close>
    (lines 300-365): an error, or the array to write and the new report.
  \<^item> \<open>save_commit\<close> is the second phase, from \<open>safeSetItem\<close> to the point award
    (lines 366-386), run on the store as it is at that moment.
  \<^item> A tab is idle, between its phases, or done with its result; \<open>run_tabs\<close> runs two
    tabs along a schedule (\<open>True\<close>: tab A takes its next phase, \<open>False\<close>: tab B).
  Shown: \<open>saveReport\<close> is its two phases run back to back, so a schedule that runs one
  tab after the other is the sequential composition of the two calls; when the reads of both
  tabs come before both writes, both tabs are told their report was saved but the ledger
  keeps only the report of the tab that wrote last, as section 5 of the specification warns
  ("last writer wins").
\<close>

definition save_read :: "env \<Rightarrow> report_input \<Rightarrow> store \<Rightarrow> storage_error + (report list \<times> report)" where
  "save_read ev inp st =
     (if in_userId inp = []
      then Inl (createError INVALID_USER ''Invalid user ID'')
      else if in_type inp = [] \<or> length (js_trim (in_type inp)) = 0
      then Inl (createError INVALID_TYPE ''Report type is required'')
      else if in_description inp = [] \<or> length (js_trim (in_description inp)) < 10
      then Inl (createError INVALID_DESCRIPTION ''Description must be at least 10 characters'')
      else if \<not> isValidCoordinates (lat (in_location inp)) (lng (in_location inp))
      then Inl (createError INVALID_LOCATION ''Invalid location coordinates'')
      else
        let sanitizedType = sanitizeString (in_type inp);
            sanitizedDescription = sanitizeString (in_description inp);
            sanitizedAddress = sanitizeString (address (in_location inp))
        in case reports_data st of
             None \<Rightarrow> Inl (createError STORAGE_ERROR ''Unable to access storage'')
           | Some reports \<Rightarrow>
               if list_ex (is_duplicate (now ev - 5 * 60 * 1000) inp) reports
               then Inl (createError DUPLICATE_REPORT ''You recently submitted a report for this location'')
               else
                 let newReport = new_report ev inp sanitizedType sanitizedDescription sanitizedAddress
                 in Inr (reports @ [newReport], newReport))"

definition save_commit :: "env \<Rightarrow> report_input \<Rightarrow> report list \<Rightarrow> report \<Rightarrow> store \<Rightarrow> (storage_error + report) \<times> store" where
  "save_commit ev inp reports newReport st =
     (let (saved, st1) = set_reports ev reports st
      in if \<not> saved
         then (Inl (createError SAVE_ERROR ''Failed to save report''), st1)
         else (Inr newReport, award_points ev (in_userId inp) st1))"

datatype tab = TabIdle | TabRead "report list" report | TabDone "storage_error + report"

definition tab_step :: "env \<Rightarrow> report_input \<Rightarrow> tab \<Rightarrow> store \<Rightarrow> tab \<times> store" where
  "tab_step ev inp t st =
     (case t of
        TabIdle \<Rightarrow>
          (case save_read ev inp st of
             Inl e \<Rightarrow> (TabDone (Inl e), st)
           | Inr (reports, r) \<Rightarrow> (TabRead reports r, st))
      | TabRead reports r \<Rightarrow>
          (let (res, st') = save_commit ev inp reports r st in (TabDone res, st'))
      | TabDone res \<Rightarrow> (TabDone res, st))"

fun run_tabs :: "env \<Rightarrow> report_input \<Rightarrow> env \<Rightarrow> report_input \<Rightarrow> bool list \<Rightarrow> tab \<times> tab \<times> store
                 \<Rightarrow> tab \<times> tab \<times> store" where
  "run_tabs evA a evB b [] s = s"
| "run_tabs evA a evB b (x # xs) (ta, tb, st) =
     run_tabs evA a evB b xs
       (if x then (case tab_step evA a ta st of (ta', st') \<Rightarrow> (ta', tb, st'))
        else (case tab_step evB b tb st of (tb', st') \<Rightarrow> (ta, tb', st')))"

text \<open>A second submission by the same member, two kilometres south of \<open>demo_input\<close>.\<close>

definition demo_input_south :: report_input where
  "demo_input_south = demo_input\<lparr>in_location := \<lparr>lat = -33.8888, lng = 151.2093,
     address = ''Central Station, Sydney''\<rparr>\<rparr>"

declare save_read_def [eval_simps] save_commit_def [eval_simps] tab_step_def [eval_simps]

subsection \<open>A call is its two phases\<close>

lemma saveReport_phases:
  "saveReport ev inp st =
     (case save_read ev inp st of
        Inl e \<Rightarrow> (Inl e, st)
      | Inr (reports, r) \<Rightarrow> save_commit ev inp reports r st)"
  by (simp add: saveReport_def save_read_def save_commit_def Let_def split: option.split prod.split)

lemma tab_step_twice:
  "(case tab_step ev inp TabIdle st of (t, st') \<Rightarrow> tab_step ev inp t st')
   = (TabDone (fst (saveReport ev inp st)), snd (saveReport ev inp st))"
  by (simp add: tab_step_def saveReport_phases split: sum.split prod.split)

lemma save_read_Inr:
  "save_read ev inp st = Inr (reports', r) \<Longrightarrow>
   \<exists>reports. reports_data st = Some reports \<and> reports' = reports @ [r]"
  by (auto simp: save_read_def Let_def split: if_splits option.splits)

lemma saveReport_Inr_phases:
  assumes "fst (saveReport ev inp st) = Inr r"
  shows "\<exists>reports. reports_data st = Some reports \<and> save_read ev inp st = Inr (reports @ [r], r)
           \<and> \<not> write_fails ev REPORTS"
proof (cases "save_read ev inp st")
  case (Inl e)
  with assms show ?thesis by (simp add: saveReport_phases)
next
  case (Inr p)
  then obtain reports' r' where p: "save_read ev inp st = Inr (reports', r')" by (cases p) auto
  with assms have "fst (save_commit ev inp reports' r' st) = Inr r"
    by (simp add: saveReport_phases)
  then have "r' = r" "\<not> write_fails ev REPORTS"
    by (auto simp: save_commit_def set_reports_def safeSetItem_def split: if_splits)
  with p save_read_Inr [OF p] show ?thesis by auto
qed

lemma save_commit_ok:
  "\<not> write_fails ev REPORTS \<Longrightarrow>
   save_commit ev inp reports r st =
     (Inr r, award_points ev (in_userId inp) (st\<lparr>reports_data := Some reports\<rparr>))"
  by (simp add: save_commit_def set_reports_def safeSetItem_def)

subsection \<open>Properties\<close>

text \<open>C16: When two tabs each read the report array before either writes it back, and each submission would succeed on its own, both tabs are told their report was saved, yet the ledger ends with only the report of the tab that wrote last.\<close>

theorem interleaved_saves_lose_report:
  assumes "fst (saveReport evA a st) = Inr rA" and "fst (saveReport evB b st) = Inr rB"
  shows "\<exists>st'. run_tabs evA a evB b [True, False, True, False] (TabIdle, TabIdle, st)
                = (TabDone (Inr rA), TabDone (Inr rB), st')
              \<and> getReports st' = getReports st @ [rB]"
proof -
  obtain rs where rs: "reports_data st = Some rs" "save_read evA a st = Inr (rs @ [rA], rA)"
      "\<not> write_fails evA REPORTS"
    using saveReport_Inr_phases [OF assms(1)] by blast
  obtain rs' where rs': "reports_data st = Some rs'" "save_read evB b st = Inr (rs' @ [rB], rB)"
      "\<not> write_fails evB REPORTS"
    using saveReport_Inr_phases [OF assms(2)] by blast
  let ?s1 = "award_points evA (in_userId a) (st\<lparr>reports_data := Some (rs @ [rA])\<rparr>)"
  let ?s2 = "award_points evB (in_userId b) (?s1\<lparr>reports_data := Some (rs' @ [rB])\<rparr>)"
  have "run_tabs evA a evB b [True, False, True, False] (TabIdle, TabIdle, st)
        = (TabDone (Inr rA), TabDone (Inr rB), ?s2)"
    using rs(2,3) rs'(2,3) by (simp add: tab_step_def save_commit_ok)
  moreover have "getReports ?s2 = getReports st @ [rB]"
    using rs(1) rs'(1) by (simp add: getReports_def award_points_frame)
  ultimately show ?thesis by blast
qed

theorem interleaved_saves_lose_report_witness:
  "\<exists>st'. run_tabs (demo_env 1000) demo_input (demo_env 2000) demo_input_south [True, False, True, False]
           (TabIdle, TabIdle, demo_store)
         = (TabDone (Inr (saved_report (demo_env 1000) demo_input)),
            TabDone (Inr (saved_report (demo_env 2000) demo_input_south)), st')
       \<and> getReports st' = getReports demo_store @ [saved_report (demo_env 2000) demo_input_south]"
proof -
  have a: "fst (saveReport (demo_env 1000) demo_input demo_store) = Inr (saved_report (demo_env 1000) demo_input)"
    by (simp add: eval_simps demo_store_def demo_directory_def demo_member_def demo_input_def)
  have b: "fst (saveReport (demo_env 2000) demo_input_south demo_store)
           = Inr (saved_report (demo_env 2000) demo_input_south)"
    by (simp add: eval_simps demo_store_def demo_directory_def demo_member_def demo_input_def
        demo_input_south_def)
  show ?thesis by (rule interleaved_saves_lose_report [OF a b])
qed

text \<open>In that run the member is awarded 20 points while the ledger holds one report.\<close>

lemma interleaved_saves_demo_points:
  "(case run_tabs (demo_env 1000) demo_input (demo_env 2000) demo_input_south [True, False, True, False]
           (TabIdle, TabIdle, demo_store) of (_, _, st') \<Rightarrow>
      (length (getReports st'), map ecoPoints (the (users_data st'))))
   = (1, [ecoPoints demo_member + 20])"
  by (simp add: eval_simps demo_store_def demo_directory_def demo_member_def demo_input_def
      demo_input_south_def)

end
