(* ===== verification/Geocoding.thy ===== *)
theory Geocoding
  imports Weekly Migration
begin

text \<open>
  The address helpers of \<open>src/src/app/utils/geocoding.ts\<close>. The network and the browser are
  inputs: \<open>reverseGeocode\<close> (lines 3-33) takes the outcome of its \<open>fetch\<close> and
  \<open>getCurrentLocation\<close> (lines 35-70) the outcome of \<open>getCurrentPosition\<close>.
  \<^item> A \<open>fetch\<close> that rejects, a response that is not \<open>ok\<close> and a body that is not JSON
    all end in the \<open>catch\<close>, which returns the coordinates printed with
    \<open>toFixed(4)\<close>; so does a body without an \<open>address\<close> object, whose property reads
    throw. Otherwise the present parts of the address are joined with \<open>', '\<close>, and
    without any the result is \<open>data.display_name\<close>, which may be \<open>undefined\<close>
    (\<open>None\<close>).
  \<^item> \<open>js_toFixed4\<close> is \<open>Number.prototype.toFixed(4)\<close> on an exact real: the integer
    \<open>n\<close> nearest to \<open>|x| * 10^4\<close> (the larger on a tie), printed with four decimals and
    a \<open>-\<close> for a negative \<open>x\<close>. Values of \<open>10^21\<close> or more, which the engine prints in
    exponent form, are not coordinates and are not modelled.
  Shown: the printed value is within half a unit of the last place of \<open>x\<close>; an address
  produced by the fallback is grouped by the weekly report under the printed longitude.
\<close>

datatype geo_response = NetworkError | HttpError nat | InvalidJson | GeoJson jval

fun js_to_string :: "jval \<Rightarrow> string" where
  "js_to_string (JStr s) = s"
| "js_to_string (JNum n) = js_int_to_string n"
| "js_to_string (JBool b) = (if b then ''true'' else ''false'')"
| "js_to_string JNull = ''null''"
| "js_to_string (JArr xs) = join_with (CHR '','') (map (\<lambda>x. if x = JNull then [] else js_to_string x) xs)"
| "js_to_string (JObj _) = ''[object Object]''"

fun js_join :: "string \<Rightarrow> string list \<Rightarrow> string" where
  "js_join sep [] = []"
| "js_join sep [x] = x"
| "js_join sep (x # y # zs) = x @ sep @ js_join sep (y # zs)"

definition js_toFixed4 :: "real \<Rightarrow> string" where
  "js_toFixed4 x =
     (let n = nat \<lfloor>\<bar>x\<bar> * 10000 + 1 / 2\<rfloor>;
          m = js_nat_digits n;
          m' = (if length m \<le> 4 then replicate (5 - length m) CHR ''0'' @ m else m);
          k = length m'
      in (if x < 0 then ''-'' else []) @ take (k - 4) m' @ ''.'' @ drop (k - 4) m')"

text \<open>The body of the response, \<open>None\<close> where the code reaches its \<open>catch\<close> before reading it.\<close>

definition geo_body :: "geo_response \<Rightarrow> jval option" where
  "geo_body r = (case r of GeoJson v \<Rightarrow> Some v | _ \<Rightarrow> None)"

text \<open>\<open>a.k\<close> where \<open>a\<close> may itself be \<open>undefined\<close>: \<open>None\<close> when the read throws.\<close>

definition js_get_opt :: "jval option \<Rightarrow> string \<Rightarrow> jval option option" where
  "js_get_opt a k = (case a of None \<Rightarrow> None | Some v \<Rightarrow> js_get v k)"

definition geo_fallback :: "real \<Rightarrow> real \<Rightarrow> string" where
  "geo_fallback la lo = js_toFixed4 la @ '', '' @ js_toFixed4 lo"

definition address_parts ::
  "jval option \<Rightarrow> jval option \<Rightarrow> jval option \<Rightarrow> jval option \<Rightarrow> jval option \<Rightarrow> jval option \<Rightarrow> jval list" where
  "address_parts road suburb city town state postcode =
     (if js_truthy road then [the road] else [])
     @ (if js_truthy suburb then [the suburb] else [])
     @ (if js_truthy city \<or> js_truthy town then [js_or city (the town)] else [])
     @ (if js_truthy state then [the state] else [])
     @ (if js_truthy postcode then [the postcode] else [])"

definition reverseGeocode :: "real \<Rightarrow> real \<Rightarrow> geo_response \<Rightarrow> jval option" where
  "reverseGeocode la lo resp =
     (case geo_body resp of
        None \<Rightarrow> Some (JStr (geo_fallback la lo))
      | Some data \<Rightarrow>
          (case js_get data ''address'' of
             None \<Rightarrow> Some (JStr (geo_fallback la lo))
           | Some addr \<Rightarrow>
               (case (js_get_opt addr ''road'', js_get_opt addr ''suburb'',
                      js_get_opt addr ''city'', js_get_opt addr ''town'',
                      js_get_opt addr ''state'', js_get_opt addr ''postcode'') of
                  (Some road, Some suburb, Some city, Some town, Some state, Some postcode) \<Rightarrow>
                    (let parts = address_parts road suburb city town state postcode
                     in if parts \<noteq> [] then Some (JStr (js_join '', '' (map js_to_string parts)))
                        else (case js_get data ''display_name'' of None \<Rightarrow> None | Some d \<Rightarrow> d))
                | _ \<Rightarrow> Some (JStr (geo_fallback la lo)))))"

datatype geo_outcome = NoGeolocation | GotPosition real real | PositionError nat

text \<open>The error codes of \<open>GeolocationPositionError\<close>: 1 permission denied, 2 position
  unavailable, 3 timeout.\<close>

definition getCurrentLocation :: "geo_outcome \<Rightarrow> string + (real \<times> real)" where
  "getCurrentLocation g =
     (case g of
        NoGeolocation \<Rightarrow> Inl ''Geolocation is not supported by your browser''
      | GotPosition la lo \<Rightarrow> Inr (la, lo)
      | PositionError c \<Rightarrow>
          Inl (if c = 1 then ''Location permission denied. Please enable location access in your browser settings.''
               else if c = 2 then ''Location information is unavailable.''
               else if c = 3 then ''Location request timed out.''
               else ''An unknown error occurred.''))"

text \<open>The number a string of the form \<open>-ddd.dddd\<close> denotes, read back.\<close>

definition fixed4_value :: "string \<Rightarrow> real" where
  "fixed4_value s =
     (if s \<noteq> [] \<and> hd s = CHR ''-''
      then - real (js_digits_value (filter (\<lambda>c. c \<noteq> CHR ''.'') (tl s))) / 10000
      else real (js_digits_value (filter (\<lambda>c. c \<noteq> CHR ''.'') s)) / 10000)"

declare js_toFixed4_def [eval_simps] geo_body_def [eval_simps] js_get_opt_def [eval_simps]
  geo_fallback_def [eval_simps] address_parts_def [eval_simps] reverseGeocode_def [eval_simps]
  getCurrentLocation_def [eval_simps] fixed4_value_def [eval_simps]

subsection \<open>Decimal digits\<close>

lemma js_digits_value_snoc:
  "js_digits_value (xs @ [c]) = 10 * js_digits_value xs + (of_char c - 48)"
  by (simp add: js_digits_value_def)

lemma of_char_digit: "n < 10 \<Longrightarrow> (of_char (char_of (48 + n)) :: nat) = 48 + n"
  by (simp add: of_char_of take_bit_nat_eq_self)

lemma js_digits_value_nat_digits: "js_digits_value (js_nat_digits n) = n"
proof (induction n rule: js_nat_digits.induct)
  case (1 n)
  show ?case
  proof (cases "n < 10")
    case True
    then show ?thesis by (simp add: js_nat_digits.simps js_digits_value_def of_char_digit)
  next
    case False
    then have "js_nat_digits n = js_nat_digits (n div 10) @ [char_of (48 + n mod 10)]"
      by (simp add: js_nat_digits.simps)
    with 1 False show ?thesis by (simp add: js_digits_value_snoc of_char_digit)
  qed
qed

lemma js_nat_digits_digits: "c \<in> set (js_nat_digits n) \<Longrightarrow> 48 \<le> (of_char c :: nat) \<and> (of_char c :: nat) \<le> 57"
proof (induction n rule: js_nat_digits.induct)
  case (1 n)
  show ?case
  proof (cases "n < 10")
    case True
    then have "c = char_of (48 + n)" using "1.prems" by (subst (asm) js_nat_digits.simps) auto
    with True show ?thesis by (simp add: of_char_digit)
  next
    case False
    then have "c \<in> set (js_nat_digits (n div 10)) \<or> c = char_of (48 + n mod 10)"
      using "1.prems" by (subst (asm) js_nat_digits.simps) auto
    with 1 False show ?thesis by (auto simp: of_char_digit)
  qed
qed

lemma js_nat_digits_not_Nil: "js_nat_digits n \<noteq> []"
  by (subst js_nat_digits.simps) simp

lemma js_digits_value_zeros: "js_digits_value (replicate k CHR ''0'' @ m) = js_digits_value m"
proof -
  have "foldl (\<lambda>n c. 10 * n + ((of_char c :: nat) - 48)) 0 (replicate k CHR ''0'') = 0"
    by (induction k) simp_all
  then show ?thesis by (simp add: js_digits_value_def)
qed

subsection \<open>\<open>toFixed(4)\<close>\<close>

lemma fixed4_digits:
  fixes x :: real
  defines "m \<equiv> js_nat_digits (nat \<lfloor>\<bar>x\<bar> * 10000 + 1 / 2\<rfloor>)"
  defines "m' \<equiv> (if length m \<le> 4 then replicate (5 - length m) CHR ''0'' @ m else m)"
  shows "js_digits_value m' = nat \<lfloor>\<bar>x\<bar> * 10000 + 1 / 2\<rfloor>" and "5 \<le> length m'"
    and "\<forall>c\<in>set m'. 48 \<le> (of_char c :: nat)"
proof -
  show "js_digits_value m' = nat \<lfloor>\<bar>x\<bar> * 10000 + 1 / 2\<rfloor>"
    by (simp add: m'_def m_def js_digits_value_zeros js_digits_value_nat_digits)
  show "5 \<le> length m'" by (simp add: m'_def)
  show "\<forall>c\<in>set m'. 48 \<le> (of_char c :: nat)"
    using js_nat_digits_digits by (auto simp: m'_def m_def)
qed

lemma js_toFixed4_value:
  "fixed4_value (js_toFixed4 x) =
     (if x < 0 then - real (nat \<lfloor>\<bar>x\<bar> * 10000 + 1 / 2\<rfloor>) / 10000
      else real (nat \<lfloor>\<bar>x\<bar> * 10000 + 1 / 2\<rfloor>) / 10000)"
proof -
  define m where "m = js_nat_digits (nat \<lfloor>\<bar>x\<bar> * 10000 + 1 / 2\<rfloor>)"
  define m' where "m' = (if length m \<le> 4 then replicate (5 - length m) CHR ''0'' @ m else m)"
  define body where "body = take (length m' - 4) m' @ ''.'' @ drop (length m' - 4) m'"
  note d = fixed4_digits [of x, folded m_def, folded m'_def]
  have nodot: "CHR ''.'' \<notin> set m'" using d(3) by fastforce
  have "filter (\<lambda>c. c \<noteq> CHR ''.'') body
        = filter (\<lambda>c. c \<noteq> CHR ''.'') (take (length m' - 4) m')
          @ filter (\<lambda>c. c \<noteq> CHR ''.'') (drop (length m' - 4) m')"
    by (simp add: body_def)
  also have "\<dots> = filter (\<lambda>c. c \<noteq> CHR ''.'') m'" by (metis append_take_drop_id filter_append)
  also have "\<dots> = m'" using nodot by (simp add: filter_id_conv) blast
  finally have val: "js_digits_value (filter (\<lambda>c. c \<noteq> CHR ''.'') body) = nat \<lfloor>\<bar>x\<bar> * 10000 + 1 / 2\<rfloor>"
    using d(1) by simp
  have s: "js_toFixed4 x = (if x < 0 then ''-'' else []) @ body"
    by (simp add: js_toFixed4_def Let_def m_def m'_def body_def)
  have hb: "body \<noteq> [] \<and> hd body \<noteq> CHR ''-''"
  proof -
    have "take (length m' - 4) m' \<noteq> []" using d(2) by (cases m') auto
    then have h: "hd body = hd (take (length m' - 4) m')" "body \<noteq> []"
      by (simp_all add: body_def)
    have "hd (take (length m' - 4) m') \<in> set m'"
      using \<open>take (length m' - 4) m' \<noteq> []\<close> by (metis hd_in_set in_set_takeD)
    then have "48 \<le> (of_char (hd body) :: nat)" using d(3) h(1) by simp
    then show ?thesis using h(2) by auto
  qed
  show ?thesis using val hb by (simp add: s fixed4_value_def)
qed

lemma set_js_toFixed4:
  assumes "c \<in> set (js_toFixed4 x)"
  shows "c = CHR ''-'' \<or> c = CHR ''.'' \<or> 48 \<le> (of_char c :: nat) \<and> (of_char c :: nat) \<le> 57"
proof -
  define m where "m = js_nat_digits (nat \<lfloor>\<bar>x\<bar> * 10000 + 1 / 2\<rfloor>)"
  define m' where "m' = (if length m \<le> 4 then replicate (5 - length m) CHR ''0'' @ m else m)"
  have dm: "48 \<le> (of_char d :: nat) \<and> (of_char d :: nat) \<le> 57" if "d \<in> set m'" for d
    using that js_nat_digits_digits [of d] by (auto simp: m'_def m_def split: if_splits)
  have "c = CHR ''-'' \<or> c = CHR ''.'' \<or> c \<in> set m'"
    using assms by (auto simp: js_toFixed4_def Let_def m_def m'_def split: if_splits
        dest: in_set_takeD in_set_dropD)
  with dm show ?thesis by blast
qed

lemma js_toFixed4_plain:
  "CHR '','' \<notin> set (js_toFixed4 x)" "c \<in> set (js_toFixed4 x) \<Longrightarrow> \<not> is_js_space c"
  using set_js_toFixed4 [of "CHR '',''" x] set_js_toFixed4 [of c x] by (auto simp: is_js_space_def)

lemma js_split_no_sep: "c \<notin> set u \<Longrightarrow> js_split c u = [u]"
  by (induction u) (auto simp: Let_def)

lemma js_split_sep: "c \<notin> set u \<Longrightarrow> js_split c (u @ c # v) = u # js_split c v"
  by (induction u) (auto simp: Let_def)

lemma js_trim_no_space: "\<forall>c\<in>set s. \<not> is_js_space c \<Longrightarrow> js_trim s = s"
proof -
  have dw: "\<forall>c\<in>set t. \<not> is_js_space c \<Longrightarrow> dropWhile is_js_space t = t" for t by (cases t) auto
  assume "\<forall>c\<in>set s. \<not> is_js_space c"
  then show ?thesis by (simp add: js_trim_def dw)
qed

lemma js_toFixed4_example: "js_toFixed4 151.2093 = ''151.2093''"
proof -
  have n: "nat \<lfloor>\<bar>151.2093::real\<bar> * 10000 + 1/2\<rfloor> = 1512093" by (simp add: floor_eq_iff)
  have d: "js_nat_digits 1512093 = ''1512093''" by (simp add: eval_simps)
  show ?thesis unfolding js_toFixed4_def Let_def n d by simp
qed

subsection \<open>Properties\<close>

lemma js_toFixed4_rounds: "\<bar>fixed4_value (js_toFixed4 x) - x\<bar> \<le> 1 / 20000"
proof -
  define n where "n = \<lfloor>\<bar>x\<bar> * 10000 + 1 / 2\<rfloor>"
  have lo: "of_int n \<le> \<bar>x\<bar> * 10000 + 1 / 2" and hi: "\<bar>x\<bar> * 10000 + 1 / 2 < of_int n + 1"
    unfolding n_def by (rule of_int_floor_le, rule real_of_int_floor_add_one_gt)
  have "0 \<le> n" unfolding n_def by simp
  then have r: "real (nat n) = of_int n" by simp
  have b1: "of_int n / 10000 - \<bar>x\<bar> \<le> 1 / 20000" using lo by (simp add: field_simps)
  have b2: "\<bar>x\<bar> - of_int n / 10000 \<le> 1 / 20000" using hi by (simp add: field_simps)
  have b: "\<bar>real (nat n) / 10000 - \<bar>x\<bar>\<bar> \<le> 1 / 20000"
    unfolding r abs_le_iff using b1 b2 by linarith
  have v: "fixed4_value (js_toFixed4 x) = (if x < 0 then - real (nat n) / 10000 else real (nat n) / 10000)"
    unfolding n_def by (rule js_toFixed4_value)
  show ?thesis
  proof (cases "x < 0")
    case True
    then have "fixed4_value (js_toFixed4 x) - x = - (real (nat n) / 10000 - \<bar>x\<bar>)" by (simp add: v)
    then show ?thesis using b by (simp only: abs_minus_cancel)
  next
    case False
    then show ?thesis using b by (simp add: v)
  qed
qed


text \<open>C24: When the geocoder cannot be reached or answers with an error, the report's address is the coordinates printed with toFixed(4), and the weekly report files the report under its printed longitude.\<close>

theorem fallback_area_is_longitude:
  assumes "geo_body resp = None"
    and "reverseGeocode la lo resp = Some (JStr (address (location r)))"
  shows "area_of r = js_toFixed4 lo"
proof -
  have a: "address (location r) = js_toFixed4 la @ CHR '','' # CHR '' '' # js_toFixed4 lo"
    using assms by (simp add: reverseGeocode_def geo_fallback_def)
  have "js_split CHR '','' (address (location r)) = [js_toFixed4 la, CHR '' '' # js_toFixed4 lo]"
    unfolding a using js_toFixed4_plain(1) [of la] js_toFixed4_plain(1) [of lo]
    by (simp add: js_split_sep js_split_no_sep)
  moreover have "js_trim (CHR '' '' # js_toFixed4 lo) = js_toFixed4 lo"
  proof -
    have "js_trim (CHR '' '' # js_toFixed4 lo) = js_trim (js_toFixed4 lo)"
      by (simp add: js_trim_def is_js_space_def)
    also have "\<dots> = js_toFixed4 lo" using js_toFixed4_plain(2) by (blast intro: js_trim_no_space)
    finally show ?thesis .
  qed
  ultimately show ?thesis by (simp add: area_of_def)
qed

theorem fallback_area_is_longitude_witness:
  "area_of ((saved_report (demo_env 1000) demo_input)\<lparr>location :=
      \<lparr>lat = -33.8688, lng = 151.2093, address = geo_fallback (-33.8688) 151.2093\<rparr>\<rparr>)
   = js_toFixed4 151.2093"
  by (rule fallback_area_is_longitude [of NetworkError])
    (simp_all add: geo_body_def reverseGeocode_def)

end
