(* ===== verification/Header.thy ===== *)
theory Header
  imports Session
begin

text \<open>
  The page header of \<open>src/src/app/components/Header.tsx\<close> over the auth context of
  \<open>Session\<close>.
  \<^item> \<open>header_items\<close> is what the header renders, in document order, for a variant, the
    auth state and the mobile-menu flag: the landing bar (lines 22-58), or the logo
    (line 65), the desktop bar (lines 75-131), the mobile bar (lines 133-158) and the
    mobile drop-down (lines 163-229).
    Markup without content is left out; \<open>{user?.ecoPoints || 0}\<close> shows 0 without a
    user, \<open>{user?.name}\<close> shows nothing.
  \<^item> \<open>header_state\<close> is the auth state, the \<open>isMobileMenuOpen\<close> hook (line 14), the
    current path and the pending calls of the context's \<open>logout\<close>. \<open>handleLogout\<close> (lines
    16-20) starts \<open>logout()\<close> without awaiting it, navigates to \<open>/\<close> and closes the menu;
    the call's \<open>setUser(null)\<close> (the auth event \<open>Logout\<close> of \<open>Session\<close>) runs only when its
    \<open>await cloudLogout()\<close> resolves (\<open>SignOutResolved\<close>), never when it rejects
    (\<open>SignOutRejected\<close>).
  Shown: an administrator's header has no member navigation and no points; the mobile menu
  offers the same routes as the desktop bar; once the sign-out resolves, the header shows only
  the logo and every protected route redirects to \<open>/auth\<close>; until then, and forever when
  it rejects, the session is still signed in although the header has left for \<open>/\<close>.
\<close>

datatype header_variant = HeaderLanding | HeaderAuthenticated

datatype header_item =
    HLogo string
  | HLink string string
  | HEcoPoints int
  | HCredits string
  | HBell
  | HUserName string
  | HUserEmail string
  | HMenuToggle bool
  | HLogout

definition shown_ecoPoints :: "auth_state \<Rightarrow> int" where
  "shown_ecoPoints s = (case session_user s of None \<Rightarrow> 0 | Some u \<Rightarrow> ecoPoints u)"

definition shown_credits :: "auth_state \<Rightarrow> int" where
  "shown_credits s = (case session_user s of None \<Rightarrow> 0 | Some u \<Rightarrow> credits u)"

definition shown_name :: "auth_state \<Rightarrow> string" where
  "shown_name s = (case session_user s of None \<Rightarrow> [] | Some u \<Rightarrow> name u)"

definition shown_email :: "auth_state \<Rightarrow> string" where
  "shown_email s = (case session_user s of None \<Rightarrow> [] | Some u \<Rightarrow> email u)"

definition desktop_bar :: "auth_state \<Rightarrow> header_item list" where
  "desktop_bar s =
     (if \<not> isAdmin s then [HEcoPoints (shown_ecoPoints s), HCredits (js_int_to_string (shown_credits s))]
      else [])
     @ [HBell, HUserName (shown_name s)]
     @ (if \<not> isAdmin s
        then [HLink ''Dashboard'' ''/dashboard'', HLink ''Report'' ''/report'', HLink ''Awareness'' ''/awareness'']
        else [])
     @ [HLogout]"

definition mobile_bar :: "auth_state \<Rightarrow> bool \<Rightarrow> header_item list" where
  "mobile_bar s menuOpen =
     (if \<not> isAdmin s then [HEcoPoints (shown_ecoPoints s)] else []) @ [HBell, HMenuToggle menuOpen]"

definition mobile_dropdown :: "auth_state \<Rightarrow> header_item list" where
  "mobile_dropdown s =
     [HUserName (shown_name s), HUserEmail (shown_email s)]
     @ (if \<not> isAdmin s
        then [HLink ''Dashboard'' ''/dashboard'', HLink ''Report Rubbish'' ''/report'',
              HLink ''Awareness'' ''/awareness'', HEcoPoints (shown_ecoPoints s),
              HCredits (js_int_to_string (shown_credits s) @ '' AUD'')]
        else [])
     @ [HLogout]"

definition header_items :: "header_variant \<Rightarrow> auth_state \<Rightarrow> bool \<Rightarrow> header_item list" where
  "header_items variant s menuOpen =
     (case variant of
        HeaderLanding \<Rightarrow>
          [HLogo ''/'', HLink ''About'' ''/about-us'', HLink ''Login'' ''/auth'',
           HLink ''Register'' ''/auth?tab=register'']
      | HeaderAuthenticated \<Rightarrow>
          [HLogo (if isAdmin s then ''/admin'' else ''/dashboard'')]
          @ (if isAuthenticated s then desktop_bar s @ mobile_bar s menuOpen else [])
          @ (if isAuthenticated s \<and> menuOpen then mobile_dropdown s else []))"

text \<open>\<open>signout_pending\<close> counts the calls of the context's \<open>logout\<close> (AuthContext.tsx lines
  62-65) that are still awaiting \<open>cloudLogout()\<close>; when one resolves, its \<open>setUser(null)\<close>
  runs, which is the auth event \<open>Logout\<close>; when one rejects, nothing after the
  \<open>await\<close> runs.\<close>

record header_state =
  hdr_auth :: auth_state
  isMobileMenuOpen :: bool
  current_path :: string
  signout_pending :: nat

datatype header_event =
    ToggleMenu | MobileLinkClick string | HandleLogout
  | SignOutResolved | SignOutRejected | AuthCallback auth_event

fun header_step :: "header_event \<Rightarrow> header_state \<Rightarrow> header_state" where
  "header_step ToggleMenu h = h\<lparr>isMobileMenuOpen := \<not> isMobileMenuOpen h\<rparr>"
| "header_step (MobileLinkClick target) h = h\<lparr>isMobileMenuOpen := False, current_path := target\<rparr>"
| "header_step HandleLogout h =
     h\<lparr>signout_pending := Suc (signout_pending h), current_path := ''/'', isMobileMenuOpen := False\<rparr>"
| "header_step SignOutResolved h =
     (if 0 < signout_pending h
      then h\<lparr>signout_pending := signout_pending h - 1, hdr_auth := auth_step Logout (hdr_auth h)\<rparr>
      else h)"
| "header_step SignOutRejected h =
     (if 0 < signout_pending h then h\<lparr>signout_pending := signout_pending h - 1\<rparr> else h)"
| "header_step (AuthCallback e) h = h\<lparr>hdr_auth := auth_step e (hdr_auth h)\<rparr>"

definition link_targets :: "header_item list \<Rightarrow> string list" where
  "link_targets xs = [t. HLink _ t \<leftarrow> xs]"

declare shown_ecoPoints_def [eval_simps] shown_credits_def [eval_simps] shown_name_def [eval_simps]
  shown_email_def [eval_simps] desktop_bar_def [eval_simps] mobile_bar_def [eval_simps]
  mobile_dropdown_def [eval_simps] header_items_def [eval_simps] link_targets_def [eval_simps]

subsection \<open>The views\<close>

lemma link_targets_append [simp]: "link_targets (xs @ ys) = link_targets xs @ link_targets ys"
  by (simp add: link_targets_def)

lemma admin_header_no_member_items:
  assumes "isAdmin s"
  shows "link_targets (header_items HeaderAuthenticated s m) = []
         \<and> list_all (\<lambda>i. case i of HEcoPoints _ \<Rightarrow> False | HCredits _ \<Rightarrow> False | _ \<Rightarrow> True)
             (header_items HeaderAuthenticated s m)"
  using assms by (simp add: header_items_def desktop_bar_def mobile_bar_def mobile_dropdown_def
      link_targets_def)

lemma member_menu_same_routes:
  assumes "isAuthenticated s" "\<not> isAdmin s"
  shows "link_targets (mobile_dropdown s) = link_targets (desktop_bar s)
         \<and> link_targets (desktop_bar s) = [''/dashboard'', ''/report'', ''/awareness'']"
  using assms by (simp add: desktop_bar_def mobile_dropdown_def link_targets_def)

lemma signed_out_header: "\<not> isAuthenticated s \<Longrightarrow> header_items HeaderAuthenticated s m = [HLogo ''/dashboard'']"
  by (simp add: header_items_def isAuthenticated_def isAdmin_def)

subsection \<open>Properties\<close>

text \<open>C25: The logout button starts the sign-out: when the call it makes resolves, the header is at / with only the logo, every protected route, admin-only or not, redirects to /auth, and no sign-out is left pending.\<close>

theorem logout_resolved_signs_out:
  assumes "\<not> isLoading (hdr_auth h)"
  shows "let h' = header_step SignOutResolved (header_step HandleLogout h) in
           current_path h' = ''/''
           \<and> header_items HeaderAuthenticated (hdr_auth h') (isMobileMenuOpen h') = [HLogo ''/dashboard'']
           \<and> ProtectedRoute (hdr_auth h') adminOnly = NavigateTo ''/auth''
           \<and> signout_pending h' = signout_pending h"
  using assms by (simp add: signed_out_header isAuthenticated_def ProtectedRoute_def)

text \<open>C26: The logout button navigates to / and closes the menu while its sign-out is still pending, with the session unchanged; if that sign-out rejects, the user stays signed in for good and protected routes still render, although the app has left them.\<close>

theorem logout_click_keeps_session:
  assumes "session_user (hdr_auth h) = Some u" and "\<not> isLoading (hdr_auth h)"
  shows "current_path (header_step HandleLogout h) = ''/''
         \<and> \<not> isMobileMenuOpen (header_step HandleLogout h)
         \<and> signout_pending (header_step HandleLogout h) = Suc (signout_pending h)
         \<and> ProtectedRoute (hdr_auth (header_step HandleLogout h)) False = RenderChildren
         \<and> session_user (hdr_auth (header_step SignOutRejected (header_step HandleLogout h))) = Some u
         \<and> signout_pending (header_step SignOutRejected (header_step HandleLogout h)) = signout_pending h
         \<and> current_path (header_step SignOutRejected (header_step HandleLogout h)) = ''/''"
  using assms by (simp add: isAuthenticated_def ProtectedRoute_def)

theorem logout_resolved_signs_out_witness:
  "let h' = header_step SignOutResolved (header_step HandleLogout \<lparr>hdr_auth = \<lparr>session_user = Some (user.truncate demo_member), isLoading = False\<rparr>,
                 isMobileMenuOpen = True, current_path = ''/report'', signout_pending = 0\<rparr>) in
     current_path h' = ''/''
     \<and> header_items HeaderAuthenticated (hdr_auth h') (isMobileMenuOpen h') = [HLogo ''/dashboard'']
     \<and> ProtectedRoute (hdr_auth h') True = NavigateTo ''/auth''
     \<and> signout_pending h' = 0"
  using logout_resolved_signs_out [of "\<lparr>hdr_auth = \<lparr>session_user = Some (user.truncate demo_member), isLoading = False\<rparr>,
                 isMobileMenuOpen = True, current_path = ''/report'', signout_pending = 0\<rparr>" True] by simp

theorem logout_click_keeps_session_witness:
  "current_path (header_step HandleLogout \<lparr>hdr_auth = \<lparr>session_user = Some (user.truncate demo_member), isLoading = False\<rparr>,
                 isMobileMenuOpen = True, current_path = ''/report'', signout_pending = 0\<rparr>) = ''/''
   \<and> ProtectedRoute (hdr_auth (header_step HandleLogout \<lparr>hdr_auth = \<lparr>session_user = Some (user.truncate demo_member), isLoading = False\<rparr>,
                 isMobileMenuOpen = True, current_path = ''/report'', signout_pending = 0\<rparr>)) False = RenderChildren
   \<and> session_user (hdr_auth (header_step SignOutRejected (header_step HandleLogout \<lparr>hdr_auth = \<lparr>session_user = Some (user.truncate demo_member), isLoading = False\<rparr>,
                 isMobileMenuOpen = True, current_path = ''/report'', signout_pending = 0\<rparr>)))
       = Some (user.truncate demo_member)"
  using logout_click_keeps_session [of "\<lparr>hdr_auth = \<lparr>session_user = Some (user.truncate demo_member), isLoading = False\<rparr>,
                 isMobileMenuOpen = True, current_path = ''/report'', signout_pending = 0\<rparr>" "user.truncate demo_member"] by simp

end
