(* ===== verification/Json.thy ===== *)
theory Json
  imports Geocoding
begin

text \<open>
  \<open>JSON.stringify\<close> and \<open>JSON.parse\<close> on the JSON values \<open>jval\<close> of \<open>Migration\<close>, and the
  JSON download of the weekly report. Every key of local storage is written with
  \<open>JSON.stringify\<close> and read with \<open>JSON.parse\<close> (\<open>src/src/app/utils/storage.ts\<close>), and
  the weekly report is exported with \<open>JSON.stringify(report, null, 2)\<close>
  (\<open>reportGenerator.ts\<close> line 108). The two are engine built-ins, modelled from ECMAScript:
  \<^item> \<open>json_str gap ind v\<close> is \<open>SerializeJSONProperty\<close> with the gap string \<open>gap\<close> (empty,
    or two spaces for the export) at indentation \<open>ind\<close>; strings are quoted by
    \<open>json_quote\<close> (\<open>QuoteJSONString\<close>: the two-character escapes, \<open>\u00xx\<close> for the other
    control characters).
  \<^item> \<open>parse_value\<close>, \<open>parse_elems\<close>, \<open>parse_members\<close> are a recursive-descent reading of
    the JSON grammar with fuel: each call spends one unit, and \<open>JSON_parse\<close> gives the
    length of the text, which \<open>json_fuel_le_length\<close> shows is enough. An object keeps one
    property per key, the first position with the last value (\<open>js_set\<close>), in the own-key
    order of \<open>js_entries\<close>. Numbers with a fraction or an exponent and \<open>\uXXXX\<close> escapes
    above \<open>00FF\<close> have no \<open>jval\<close> and give \<open>None\<close>.
  \<^item> \<open>weekly_json\<close> is the object \<open>generateWeeklyReport\<close> returns (lines 89-104) and
    \<open>downloadWeeklyReportAsJSON\<close>, \<open>downloadWeeklyReportAsCSV\<close> the name and text of the two
    downloaded files.
  The round trip is proved by induction on the value: \<open>parse_chars_quote\<close> for strings,
  \<open>parse_number_int\<close> for numbers, \<open>parse_elems_join\<close> and \<open>parse_members_join\<close> for the
  separators and the whitespace the gap adds, over any printer of the elements.
\<close>

definition json_ws :: "char \<Rightarrow> bool" where
  "json_ws c \<longleftrightarrow> c \<in> {CHR '' '', CHR 0x09, CHR 0x0A, CHR 0x0D}"

definition hex_digit :: "nat \<Rightarrow> char" where
  "hex_digit d = (if d < 10 then char_of (48 + d) else char_of (87 + d))"

definition hex_value :: "char \<Rightarrow> nat option" where
  "hex_value c =
     (let n = (of_char c :: nat)
      in if 48 \<le> n \<and> n \<le> 57 then Some (n - 48)
         else if 97 \<le> n \<and> n \<le> 102 then Some (n - 87)
         else if 65 \<le> n \<and> n \<le> 70 then Some (n - 55) else None)"

definition json_escape :: "char \<Rightarrow> string" where
  "json_escape c =
     (if c = CHR 0x22 then [CHR 0x5C, CHR 0x22]
      else if c = CHR 0x5C then [CHR 0x5C, CHR 0x5C]
      else if c = CHR 0x08 then [CHR 0x5C, CHR ''b'']
      else if c = CHR 0x09 then [CHR 0x5C, CHR ''t'']
      else if c = CHR 0x0A then [CHR 0x5C, CHR ''n'']
      else if c = CHR 0x0C then [CHR 0x5C, CHR ''f'']
      else if c = CHR 0x0D then [CHR 0x5C, CHR ''r'']
      else if (of_char c :: nat) < 32
      then [CHR 0x5C, CHR ''u'', CHR ''0'', CHR ''0'', hex_digit ((of_char c :: nat) div 16),
            hex_digit ((of_char c :: nat) mod 16)]
      else [c])"

definition json_quote :: "string \<Rightarrow> string" where
  "json_quote s = CHR 0x22 # concat (map json_escape s) @ [CHR 0x22]"

fun json_str :: "string \<Rightarrow> string \<Rightarrow> jval \<Rightarrow> string" where
  "json_str gap ind (JStr s) = json_quote s"
| "json_str gap ind (JNum n) = js_int_to_string n"
| "json_str gap ind (JBool b) = (if b then ''true'' else ''false'')"
| "json_str gap ind JNull = ''null''"
| "json_str gap ind (JArr xs) =
     (if xs = [] then ''[]''
      else if gap = [] then ''['' @ js_join '','' (map (json_str gap ind) xs) @ '']''
      else ''['' @ CHR 0x0A # ind @ gap
             @ js_join ('','' @ CHR 0x0A # ind @ gap) (map (json_str gap (ind @ gap)) xs)
             @ CHR 0x0A # ind @ '']'')"
| "json_str gap ind (JObj ps) =
     (if ps = [] then ''{}''
      else if gap = [] then
        ''{'' @ js_join '','' (map (\<lambda>(k, v). json_quote k @ '':'' @ json_str gap ind v) ps) @ ''}''
      else ''{'' @ CHR 0x0A # ind @ gap
             @ js_join ('','' @ CHR 0x0A # ind @ gap)
                 (map (\<lambda>(k, v). json_quote k @ '': '' @ json_str gap (ind @ gap) v) ps)
             @ CHR 0x0A # ind @ ''}'')"

definition JSON_stringify :: "jval \<Rightarrow> string" where
  "JSON_stringify v = json_str [] [] v"

subsection \<open>Parsing\<close>

text \<open>The characters of a string literal after its opening quote, up to and without the
  closing quote.\<close>

fun parse_chars :: "string \<Rightarrow> (string \<times> string) option" where
  "parse_chars [] = None"
| "parse_chars (c # cs) =
     (if c = CHR 0x22 then Some ([], cs)
      else if c = CHR 0x5C then
        (case cs of
           [] \<Rightarrow> None
         | e # cs' \<Rightarrow>
             if e = CHR ''u'' then
               (case cs' of
                  h1 # h2 # h3 # h4 # r \<Rightarrow>
                    (case (hex_value h1, hex_value h2, hex_value h3, hex_value h4) of
                       (Some a, Some b, Some d, Some f) \<Rightarrow>
                         (let code = 4096 * a + 256 * b + 16 * d + f
                          in if code < 256 then map_option (apfst ((#) (char_of code))) (parse_chars r)
                             else None)
                     | _ \<Rightarrow> None)
                | _ \<Rightarrow> None)
             else
               (let d = (if e = CHR ''b'' then Some (CHR 0x08) else if e = CHR ''t'' then Some (CHR 0x09)
                         else if e = CHR ''n'' then Some (CHR 0x0A) else if e = CHR ''f'' then Some (CHR 0x0C)
                         else if e = CHR ''r'' then Some (CHR 0x0D)
                         else if e = CHR 0x22 \<or> e = CHR 0x5C \<or> e = CHR ''/'' then Some e else None)
                in case d of None \<Rightarrow> None | Some x \<Rightarrow> map_option (apfst ((#) x)) (parse_chars cs')))
      else if (of_char c :: nat) < 32 then None
      else map_option (apfst ((#) c)) (parse_chars cs))"

definition is_digit_char :: "char \<Rightarrow> bool" where
  "is_digit_char c \<longleftrightarrow> 48 \<le> (of_char c :: nat) \<and> (of_char c :: nat) \<le> 57"

text \<open>An integer literal: \<open>-?(0|[1-9][0-9]*)\<close>, not followed by a fraction or an exponent.\<close>

definition parse_number :: "string \<Rightarrow> (jval \<times> string) option" where
  "parse_number s =
     (let neg = (s \<noteq> [] \<and> hd s = CHR ''-'');
          s1 = (if neg then tl s else s);
          ds = takeWhile is_digit_char s1;
          r = dropWhile is_digit_char s1
      in if ds = [] \<or> (hd ds = CHR ''0'' \<and> length ds > 1) then None
         else if r \<noteq> [] \<and> hd r \<in> {CHR ''.'', CHR ''e'', CHR ''E''} then None
         else Some (JNum ((if neg then -1 else 1) * int (js_digits_value ds)), r))"

text \<open>The object \<open>JSON.parse\<close> builds from its members, in order.\<close>

definition json_object :: "(string \<times> jval) list \<Rightarrow> (string \<times> jval) list" where
  "json_object ms = js_entries (foldl (\<lambda>ps (k, v). js_set k v ps) [] ms)"

fun parse_value :: "nat \<Rightarrow> string \<Rightarrow> (jval \<times> string) option"
and parse_elems :: "nat \<Rightarrow> string \<Rightarrow> (jval list \<times> string) option"
and parse_members :: "nat \<Rightarrow> string \<Rightarrow> ((string \<times> jval) list \<times> string) option" where
  "parse_value 0 s = None"
| "parse_value (Suc n) s =
     (case s of
        [] \<Rightarrow> None
      | c # cs \<Rightarrow>
          if c = CHR 0x22 then map_option (apfst JStr) (parse_chars cs)
          else if c = CHR ''['' then
            (if dropWhile json_ws cs \<noteq> [] \<and> hd (dropWhile json_ws cs) = CHR '']''
             then Some (JArr [], tl (dropWhile json_ws cs))
             else map_option (apfst JArr) (parse_elems n (dropWhile json_ws cs)))
          else if c = CHR ''{'' then
            (if dropWhile json_ws cs \<noteq> [] \<and> hd (dropWhile json_ws cs) = CHR ''}''
             then Some (JObj [], tl (dropWhile json_ws cs))
             else map_option (apfst (JObj \<circ> json_object)) (parse_members n (dropWhile json_ws cs)))
          else if take 4 s = ''true'' then Some (JBool True, drop 4 s)
          else if take 5 s = ''false'' then Some (JBool False, drop 5 s)
          else if take 4 s = ''null'' then Some (JNull, drop 4 s)
          else parse_number s)"
| "parse_elems 0 s = None"
| "parse_elems (Suc n) s =
     (case parse_value n s of
        None \<Rightarrow> None
      | Some (v, r) \<Rightarrow>
          (case dropWhile json_ws r of
             [] \<Rightarrow> None
           | c # r' \<Rightarrow>
               if c = CHR '']'' then Some ([v], r')
               else if c = CHR '','' then
                 map_option (apfst ((#) v)) (parse_elems n (dropWhile json_ws r'))
               else None))"
| "parse_members 0 s = None"
| "parse_members (Suc n) s =
     (case s of
        [] \<Rightarrow> None
      | c # cs \<Rightarrow>
          if c \<noteq> CHR 0x22 then None
          else
            (case parse_chars cs of
               None \<Rightarrow> None
             | Some (k, r) \<Rightarrow>
                 (case dropWhile json_ws r of
                    [] \<Rightarrow> None
                  | c' # r' \<Rightarrow>
                      if c' \<noteq> CHR '':'' then None
                      else
                        (case parse_value n (dropWhile json_ws r') of
                           None \<Rightarrow> None
                         | Some (v, r'') \<Rightarrow>
                             (case dropWhile json_ws r'' of
                                [] \<Rightarrow> None
                              | d # r3 \<Rightarrow>
                                  if d = CHR ''}'' then Some ([(k, v)], r3)
                                  else if d = CHR '','' then
                                    map_option (apfst ((#) (k, v))) (parse_members n (dropWhile json_ws r3))
                                  else None)))))"

definition JSON_parse :: "string \<Rightarrow> jval option" where
  "JSON_parse s =
     (case parse_value (length s) (dropWhile json_ws s) of
        None \<Rightarrow> None
      | Some (v, r) \<Rightarrow> if dropWhile json_ws r = [] then Some v else None)"

declare json_ws_def [eval_simps] hex_digit_def [eval_simps] hex_value_def [eval_simps]
  json_escape_def [eval_simps] json_quote_def [eval_simps] JSON_stringify_def [eval_simps]
  is_digit_char_def [eval_simps] parse_number_def [eval_simps] json_object_def [eval_simps]
  JSON_parse_def [eval_simps]

text \<open>A value \<open>JSON.parse\<close> can give back: the keys of each object are distinct and in the
  own-key order of \<open>js_entries\<close>, as the objects of a running program are.\<close>

fun json_wf :: "jval \<Rightarrow> bool" where
  "json_wf (JArr xs) = (\<forall>x\<in>set xs. json_wf x)"
| "json_wf (JObj ps) = (distinct (map fst ps) \<and> js_entries ps = ps \<and> (\<forall>p\<in>set ps. json_wf (snd p)))"
| "json_wf _ = True"

text \<open>The fuel the parser spends on a value: one unit per value and one per element or member.\<close>

fun json_fuel :: "jval \<Rightarrow> nat" where
  "json_fuel (JArr xs) = Suc (length xs + sum_list (map json_fuel xs))"
| "json_fuel (JObj ps) = Suc (length ps + sum_list (map (\<lambda>p. json_fuel (snd p)) ps))"
| "json_fuel _ = 1"

definition json_delim :: "string \<Rightarrow> bool" where
  "json_delim r \<longleftrightarrow> r = [] \<or> hd r \<in> {CHR '','', CHR '']'', CHR ''}''} \<or> json_ws (hd r)"

subsection \<open>The weekly report as JSON\<close>

text \<open>The object \<open>generateWeeklyReport\<close> returns (\<open>reportGenerator.ts\<close> lines 89-104), as
  \<open>JSON.stringify\<close> sees it: the properties in the order of the object literal, the record
  \<open>reportsByType\<close> in its own-key order.\<close>

definition area_json :: "area_count \<Rightarrow> jval" where
  "area_json a = JObj [(''area'', JStr (area a)), (''count'', JNum (int (area_reports a)))]"

definition contributor_json :: "contributor \<Rightarrow> jval" where
  "contributor_json c =
     JObj [(''userId'', JStr (contributor_userId c)), (''userName'', JStr (userName c)),
           (''reportCount'', JNum (int (reportCount c)))]"

definition weekly_json :: "weekly_report \<Rightarrow> jval" where
  "weekly_json r =
     JObj [(''reportDate'', JStr (reportDate r)), (''weekStart'', JStr (weekStart r)),
           (''weekEnd'', JStr (weekEnd r)),
           (''summary'', JObj [(''totalReports'', JNum (int (summary_totalReports (summary r)))),
                               (''pendingReports'', JNum (int (pendingReports (summary r)))),
                               (''reviewedReports'', JNum (int (reviewedReports (summary r)))),
                               (''resolvedReports'', JNum (int (resolvedReports (summary r)))),
                               (''newMembers'', JNum (int (newMembers (summary r)))),
                               (''totalMembers'', JNum (int (summary_totalMembers (summary r))))]),
           (''reportsByType'', JObj (map (\<lambda>(k, c). (k, JNum (int c))) (js_entries (reportsByType r)))),
           (''reportsByLocation'', JArr (map area_json (reportsByLocation r))),
           (''topContributors'', JArr (map contributor_json (topContributors r)))]"

text \<open>date-fns \<open>format(d, 'yyyy-MM-dd')\<close> and the name of the downloaded file.\<close>

definition format_yyyy_MM_dd :: "int \<Rightarrow> timestamp \<Rightarrow> string" where
  "format_yyyy_MM_dd tz t =
     (case civil_from_days (local_day tz t) of (y, m, d) \<Rightarrow>
        format_yyyy y @ ''-'' @ js_pad 2 m @ ''-'' @ js_pad 2 d)"

definition report_file_name :: "int \<Rightarrow> timestamp \<Rightarrow> string \<Rightarrow> string" where
  "report_file_name tz t ext = ''Sydney_Weekly_Rubbish_Report_'' @ format_yyyy_MM_dd tz t @ ext"

text \<open>The two downloads (lines 107-116 and 150-157): the name of the file and its text. The
  blob, its URL and the click are the browser's.\<close>

definition downloadWeeklyReportAsJSON :: "env \<Rightarrow> int \<Rightarrow> weekly_report \<Rightarrow> string \<times> string" where
  "downloadWeeklyReportAsJSON ev tz r =
     (report_file_name tz (now ev) ''.json'', json_str ''  '' [] (weekly_json r))"

definition downloadWeeklyReportAsCSV :: "env \<Rightarrow> int \<Rightarrow> weekly_report \<Rightarrow> string \<times> string" where
  "downloadWeeklyReportAsCSV ev tz r = (report_file_name tz (now ev) ''.csv'', weekly_csv r)"

declare area_json_def [eval_simps] contributor_json_def [eval_simps] weekly_json_def [eval_simps]
  format_yyyy_MM_dd_def [eval_simps] report_file_name_def [eval_simps]
  downloadWeeklyReportAsJSON_def [eval_simps] downloadWeeklyReportAsCSV_def [eval_simps]

subsection \<open>Reading back strings\<close>

lemma hex_value_hex_digit: "d < 16 \<Longrightarrow> hex_value (hex_digit d) = Some d"
  by (cases "d < 10") (auto simp: hex_value_def hex_digit_def of_char_of take_bit_nat_eq_self Let_def)

lemma parse_chars_escape:
  "parse_chars (json_escape c @ t) = map_option (apfst ((#) c)) (parse_chars t)"
proof -
  let ?n = "of_char c :: nat"
  consider "c = CHR 0x22" | "c = CHR 0x5C" | "c = CHR 0x08" | "c = CHR 0x09" | "c = CHR 0x0A"
    | "c = CHR 0x0C" | "c = CHR 0x0D"
    | "c \<notin> {CHR 0x22, CHR 0x5C, CHR 0x08, CHR 0x09, CHR 0x0A, CHR 0x0C, CHR 0x0D}" "?n < 32"
    | "c \<notin> {CHR 0x22, CHR 0x5C, CHR 0x08, CHR 0x09, CHR 0x0A, CHR 0x0C, CHR 0x0D}" "\<not> ?n < 32"
    by blast
  then show ?thesis
  proof cases
    case 8
    have h: "hex_value (hex_digit (?n div 16)) = Some (?n div 16)" "hex_value (hex_digit (?n mod 16)) = Some (?n mod 16)"
      using 8(2) by (simp_all add: hex_value_hex_digit)
    have "16 * (?n div 16) + ?n mod 16 = ?n" by simp
    then have "char_of (16 * (?n div 16) + ?n mod 16) = c" by simp
    with 8 h show ?thesis
      by (simp add: json_escape_def hex_value_def Let_def)
  next
    case 9
    have "c \<noteq> CHR 0x22" "c \<noteq> CHR 0x5C" using 9(1) by auto
    with 9 show ?thesis by (simp add: json_escape_def)
  qed (simp_all add: json_escape_def)
qed

lemma parse_chars_quote:
  "parse_chars (concat (map json_escape s) @ CHR 0x22 # rest) = Some (s, rest)"
  by (induction s) (simp_all add: parse_chars_escape)

subsection \<open>Reading back numbers\<close>

lemma is_digit_char_nat_digits: "c \<in> set (js_nat_digits m) \<Longrightarrow> is_digit_char c"
  using js_nat_digits_digits by (simp add: is_digit_char_def)

lemma js_nat_digits_lead: "hd (js_nat_digits m) = CHR ''0'' \<Longrightarrow> js_nat_digits m = ''0''"
proof (induction m rule: js_nat_digits.induct)
  case (1 m)
  show ?case
  proof (cases "m < 10")
    case True
    with "1.prems" have "char_of (48 + m) = CHR ''0''"
      by (subst (asm) js_nat_digits.simps) simp
    then have "(of_char (char_of (48 + m) :: char) :: nat) = 48" by simp
    moreover have "(of_char (char_of (48 + m) :: char) :: nat) = 48 + m"
      using True by (simp add: of_char_of take_bit_nat_eq_self)
    ultimately have "m = 0" by simp
    moreover have "js_nat_digits 0 = ''0''" by code_simp
    ultimately show ?thesis by simp
  next
    case False
    then have "js_nat_digits m = js_nat_digits (m div 10) @ [char_of (48 + m mod 10)]"
      by (subst js_nat_digits.simps) simp
    with "1.prems" js_nat_digits_not_Nil [of "m div 10"]
    have "hd (js_nat_digits (m div 10)) = CHR ''0''" by simp
    with "1.IH" False have "js_nat_digits (m div 10) = ''0''" by simp
    moreover have "js_nat_digits (m div 10) \<noteq> ''0''" if "m div 10 \<noteq> 0"
      using that js_digits_value_nat_digits [of "m div 10"] by (auto simp: js_digits_value_def)
    ultimately show ?thesis using False by simp
  qed
qed

lemma json_delim_hd:
  "json_delim r \<Longrightarrow> r \<noteq> [] \<Longrightarrow> \<not> is_digit_char (hd r) \<and> hd r \<notin> {CHR ''.'', CHR ''e'', CHR ''E''}"
  by (auto simp: json_delim_def is_digit_char_def json_ws_def)

lemma digits_then_delim:
  assumes "json_delim rest" "\<forall>c\<in>set ds. is_digit_char c"
  shows "takeWhile is_digit_char (ds @ rest) = ds" "dropWhile is_digit_char (ds @ rest) = rest"
    "\<not> (rest \<noteq> [] \<and> hd rest \<in> {CHR ''.'', CHR ''e'', CHR ''E''})"
  using assms json_delim_hd [OF assms(1)]
  by (cases rest; simp add: takeWhile_append2 dropWhile_append2)+

lemma parse_number_int:
  assumes "json_delim rest"
  shows "parse_number (js_int_to_string n @ rest) = Some (JNum n, rest)"
proof -
  define ds where "ds = js_nat_digits (nat \<bar>n\<bar>)"
  have dig: "\<forall>c\<in>set ds. is_digit_char c" using is_digit_char_nat_digits ds_def by blast
  have ne: "ds \<noteq> []" unfolding ds_def by (rule js_nat_digits_not_Nil)
  have lead: "\<not> (hd ds = CHR ''0'' \<and> 1 < length ds)" using js_nat_digits_lead ds_def by force
  have val: "int (js_digits_value ds) = \<bar>n\<bar>" by (simp add: ds_def js_digits_value_nat_digits)
  have hd: "hd (ds @ rest) \<noteq> CHR ''-''" using dig ne by (auto simp: is_digit_char_def neq_Nil_conv)
  note d = digits_then_delim [OF assms dig]
  show ?thesis
  proof (cases "n < 0")
    case True
    then have "js_int_to_string n @ rest = CHR ''-'' # ds @ rest"
      by (simp add: js_int_to_string_def ds_def del: js_nat_digits.simps)
    moreover have "(-1) * int (js_digits_value ds) = n" using True val by simp
    ultimately show ?thesis using d ne lead unfolding parse_number_def Let_def by simp
  next
    case False
    then have "js_int_to_string n @ rest = ds @ rest"
      by (simp add: js_int_to_string_def ds_def del: js_nat_digits.simps)
    moreover have "1 * int (js_digits_value ds) = n" using False val by simp
    ultimately show ?thesis using d ne lead hd unfolding parse_number_def Let_def by simp
  qed
qed

subsection \<open>Reading back arrays and objects\<close>

lemma js_join_Cons: "js_join sep (x # xs) = x @ (if xs = [] then [] else sep @ js_join sep xs)"
  by (cases xs) simp_all

lemma dropWhile_ws_prefix: "list_all json_ws w \<Longrightarrow> dropWhile json_ws (w @ s) = dropWhile json_ws s"
  by (induction w) simp_all

lemma dropWhile_ws_start: "s \<noteq> [] \<Longrightarrow> \<not> json_ws (hd s) \<Longrightarrow> dropWhile json_ws (s @ t) = s @ t"
  by (cases s) simp_all

lemma dropWhile_ws_punct:
  "list_all json_ws w \<Longrightarrow> c \<in> {CHR '','', CHR '']'', CHR ''}'', CHR '':''} \<Longrightarrow>
   dropWhile json_ws (w @ c # r) = c # r"
  by (auto simp: dropWhile_ws_prefix json_ws_def)

lemma json_delim_ws_prefix:
  "list_all json_ws w \<Longrightarrow> c \<in> {CHR '','', CHR '']'', CHR ''}''} \<Longrightarrow> json_delim (w @ c # r)"
  by (cases w) (auto simp: json_delim_def)

lemma json_str_start:
  "json_str gap ind v \<noteq> [] \<and> \<not> json_ws (hd (json_str gap ind v))
   \<and> hd (json_str gap ind v) \<notin> {CHR '','', CHR '']'', CHR ''}''}"
proof (cases v)
  case (JNum n)
  have "c \<in> set (js_nat_digits m) \<Longrightarrow> \<not> json_ws c \<and> c \<notin> {CHR '','', CHR '']'', CHR ''}'', CHR ''-''}"
    for c m using is_digit_char_nat_digits [of c m] by (auto simp: is_digit_char_def json_ws_def)
  from this [OF hd_in_set [OF js_nat_digits_not_Nil]] JNum show ?thesis
    by (simp add: js_int_to_string_def json_ws_def js_nat_digits_not_Nil del: js_nat_digits.simps)
qed (simp_all add: json_quote_def json_ws_def)

lemma foldl_js_set_distinct:
  "distinct (map fst (acc @ ps)) \<Longrightarrow> foldl (\<lambda>ps (k, v). js_set k v ps) acc ps = acc @ ps"
proof (induction ps arbitrary: acc)
  case (Cons p ps)
  obtain k v where p: "p = (k, v)" by (cases p)
  with Cons.prems have "js_set k v acc = acc @ [(k, v)]" by (auto simp: js_set_def)
  with Cons p show ?case by simp
qed simp

lemma json_object_wf: "distinct (map fst ps) \<Longrightarrow> js_entries ps = ps \<Longrightarrow> json_object ps = ps"
  using foldl_js_set_distinct [of "[]" ps] by (simp add: json_object_def)

lemma parse_elems_join:
  assumes "xs \<noteq> []"
    and start: "\<forall>x\<in>set xs. F x \<noteq> [] \<and> \<not> json_ws (hd (F x))"
    and val: "\<forall>x\<in>set xs. \<forall>n r. json_fuel x \<le> n \<longrightarrow> json_delim r \<longrightarrow> parse_value n (F x @ r) = Some (x, r)"
    and "list_all json_ws w" "list_all json_ws w'"
    and "length xs + sum_list (map json_fuel xs) \<le> m"
  shows "parse_elems m (js_join (CHR '','' # w) (map F xs) @ w' @ CHR '']'' # rest) = Some (xs, rest)"
  using assms
proof (induction xs arbitrary: m)
  case (Cons x xs)
  then obtain m' where m: "m = Suc m'" "json_fuel x \<le> m'" "length xs + sum_list (map json_fuel xs) \<le> m'"
    by (cases m) auto
  show ?case
  proof (cases "xs = []")
    case True
    have "parse_value m' (F x @ w' @ CHR '']'' # rest) = Some (x, w' @ CHR '']'' # rest)"
      using Cons.prems(3) m(2) json_delim_ws_prefix [OF Cons.prems(5)] by simp
    with True m(1) dropWhile_ws_punct [OF Cons.prems(5)] show ?thesis by simp
  next
    case False
    let ?t = "js_join (CHR '','' # w) (map F xs) @ w' @ CHR '']'' # rest"
    have "parse_value m' (F x @ CHR '','' # w @ ?t) = Some (x, CHR '','' # w @ ?t)"
      using Cons.prems(3) m(2) by (simp add: json_delim_def)
    moreover have "dropWhile json_ws (w @ ?t) = ?t"
      using Cons.prems(2,4) False by (cases xs) (simp_all add: dropWhile_ws_prefix dropWhile_ws_start js_join_Cons)
    moreover have "parse_elems m' ?t = Some (xs, rest)"
      using Cons False m(3) by simp
    ultimately show ?thesis using False m(1) by (simp add: json_ws_def js_join_Cons)
  qed
qed simp

lemma parse_members_step:
  assumes "G v \<noteq> []" "\<not> json_ws (hd (G v))" "list_all json_ws c"
    and "parse_value m (G v @ t) = Some (v, t)"
  shows "parse_members (Suc m) (json_quote k @ CHR '':'' # c @ G v @ t) =
           (case dropWhile json_ws t of
              [] \<Rightarrow> None
            | d # r \<Rightarrow>
                if d = CHR ''}'' then Some ([(k, v)], r)
                else if d = CHR '','' then map_option (apfst ((#) (k, v))) (parse_members m (dropWhile json_ws r))
                else None)"
proof -
  have "parse_chars (concat (map json_escape k) @ CHR 0x22 # CHR '':'' # c @ G v @ t)
        = Some (k, CHR '':'' # c @ G v @ t)" by (rule parse_chars_quote)
  moreover have "dropWhile json_ws (c @ G v @ t) = G v @ t"
    using assms(1-3) by (simp add: dropWhile_ws_prefix dropWhile_ws_start)
  ultimately show ?thesis using assms(4) by (simp add: json_quote_def json_ws_def)
qed

lemma parse_members_join:
  assumes "ps \<noteq> []"
    and start: "\<forall>p\<in>set ps. G (snd p) \<noteq> [] \<and> \<not> json_ws (hd (G (snd p)))"
    and val: "\<forall>p\<in>set ps. \<forall>n r. json_fuel (snd p) \<le> n \<longrightarrow> json_delim r \<longrightarrow>
                parse_value n (G (snd p) @ r) = Some (snd p, r)"
    and "list_all json_ws c" "list_all json_ws w" "list_all json_ws w'"
    and "length ps + sum_list (map (\<lambda>p. json_fuel (snd p)) ps) \<le> m"
  shows "parse_members m (js_join (CHR '','' # w) (map (\<lambda>(k, v). json_quote k @ CHR '':'' # c @ G v) ps)
           @ w' @ CHR ''}'' # rest) = Some (ps, rest)"
  using assms
proof (induction ps arbitrary: m)
  case (Cons p ps)
  obtain k v where p: "p = (k, v)" by (cases p)
  from Cons.prems(7) obtain m' where m: "m = Suc m'" "json_fuel v \<le> m'"
    "length ps + sum_list (map (\<lambda>p. json_fuel (snd p)) ps) \<le> m'"
    by (cases m) (auto simp: p)
  have gv: "G v \<noteq> []" "\<not> json_ws (hd (G v))" using Cons.prems(2) p by auto
  show ?case
  proof (cases "ps = []")
    case True
    have "parse_value m' (G v @ w' @ CHR ''}'' # rest) = Some (v, w' @ CHR ''}'' # rest)"
      using Cons.prems(3) m(2) p json_delim_ws_prefix [OF Cons.prems(6)] by simp
    from parse_members_step [where G = G and v = v, OF gv Cons.prems(4) this] True m(1) p dropWhile_ws_punct [OF Cons.prems(6)]
    show ?thesis by simp
  next
    case False
    let ?t = "js_join (CHR '','' # w) (map (\<lambda>(k, v). json_quote k @ CHR '':'' # c @ G v) ps)
              @ w' @ CHR ''}'' # rest"
    have "parse_value m' (G v @ CHR '','' # w @ ?t) = Some (v, CHR '','' # w @ ?t)"
      using Cons.prems(3) m(2) p by (simp add: json_delim_def)
    note step = parse_members_step [where G = G and v = v, OF gv Cons.prems(4) this, of k]
    have "dropWhile json_ws ?t = ?t"
      using False by (cases ps) (auto simp: js_join_Cons json_quote_def json_ws_def)
    then have "dropWhile json_ws (w @ ?t) = ?t" using dropWhile_ws_prefix [OF Cons.prems(5)] by simp
    moreover have "parse_members m' ?t = Some (ps, rest)"
      using Cons False m(3) by simp
    ultimately show ?thesis using step False m(1) p by (simp add: json_ws_def js_join_Cons)
  qed
qed simp

lemma parse_value_array:
  assumes "xs \<noteq> []"
    and start: "\<forall>x\<in>set xs. F x \<noteq> [] \<and> \<not> json_ws (hd (F x)) \<and> hd (F x) \<noteq> CHR '']''"
    and val: "\<forall>x\<in>set xs. \<forall>n r. json_fuel x \<le> n \<longrightarrow> json_delim r \<longrightarrow> parse_value n (F x @ r) = Some (x, r)"
    and "list_all json_ws w0" "list_all json_ws w" "list_all json_ws w'"
    and "length xs + sum_list (map json_fuel xs) \<le> n"
  shows "parse_value (Suc n) (CHR ''['' # w0 @ js_join (CHR '','' # w) (map F xs) @ w' @ CHR '']'' # rest)
         = Some (JArr xs, rest)"
proof -
  let ?t = "js_join (CHR '','' # w) (map F xs) @ w' @ CHR '']'' # rest"
  have "?t \<noteq> [] \<and> \<not> json_ws (hd ?t) \<and> hd ?t \<noteq> CHR '']''"
    using assms(1) start by (cases xs) (auto simp: js_join_Cons)
  then have "dropWhile json_ws (w0 @ ?t) = ?t \<and> ?t \<noteq> [] \<and> hd ?t \<noteq> CHR '']''"
    using dropWhile_ws_prefix [OF assms(4)] by (cases ?t) simp_all
  moreover have "parse_elems n ?t = Some (xs, rest)"
    using parse_elems_join [OF assms(1) _ val assms(5,6,7)] start by simp
  ultimately show ?thesis by simp
qed

lemma parse_value_object:
  assumes "ps \<noteq> []" "distinct (map fst ps)" "js_entries ps = ps"
    and start: "\<forall>p\<in>set ps. G (snd p) \<noteq> [] \<and> \<not> json_ws (hd (G (snd p)))"
    and val: "\<forall>p\<in>set ps. \<forall>n r. json_fuel (snd p) \<le> n \<longrightarrow> json_delim r \<longrightarrow>
                parse_value n (G (snd p) @ r) = Some (snd p, r)"
    and "list_all json_ws c" "list_all json_ws w0" "list_all json_ws w" "list_all json_ws w'"
    and "length ps + sum_list (map (\<lambda>p. json_fuel (snd p)) ps) \<le> n"
  shows "parse_value (Suc n) (CHR ''{'' # w0 @ js_join (CHR '','' # w)
           (map (\<lambda>(k, v). json_quote k @ CHR '':'' # c @ G v) ps) @ w' @ CHR ''}'' # rest)
         = Some (JObj ps, rest)"
proof -
  let ?t = "js_join (CHR '','' # w) (map (\<lambda>(k, v). json_quote k @ CHR '':'' # c @ G v) ps)
            @ w' @ CHR ''}'' # rest"
  have "?t \<noteq> [] \<and> hd ?t = CHR 0x22"
    using assms(1) by (cases ps) (auto simp: js_join_Cons json_quote_def)
  then have "dropWhile json_ws (w0 @ ?t) = ?t \<and> ?t \<noteq> [] \<and> hd ?t \<noteq> CHR ''}''"
    using dropWhile_ws_prefix [OF assms(7)] by (cases ?t) (simp_all add: json_ws_def)
  moreover have "parse_members n ?t = Some (ps, rest)"
    by (rule parse_members_join [OF assms(1) start val assms(6,8,9,10)])
  ultimately show ?thesis using json_object_wf [OF assms(2,3)] by simp
qed

lemma parse_value_num_start:
  "s \<noteq> [] \<Longrightarrow> hd s \<notin> {CHR 0x22, CHR ''['', CHR ''{'', CHR ''t'', CHR ''f'', CHR ''n''} \<Longrightarrow>
   parse_value (Suc n) s = parse_number s"
  by (cases s) auto

lemma js_int_to_string_start:
  "js_int_to_string i \<noteq> [] \<and> hd (js_int_to_string i) \<notin> {CHR 0x22, CHR ''['', CHR ''{'', CHR ''t'', CHR ''f'', CHR ''n''}"
proof -
  have "c \<in> set (js_nat_digits m) \<Longrightarrow> c \<notin> {CHR 0x22, CHR ''['', CHR ''{'', CHR ''t'', CHR ''f'', CHR ''n''}"
    for c m using is_digit_char_nat_digits [of c m] by (auto simp: is_digit_char_def)
  from this [OF hd_in_set [OF js_nat_digits_not_Nil]] show ?thesis
    by (simp add: js_int_to_string_def js_nat_digits_not_Nil del: js_nat_digits.simps)
qed

lemma parse_value_json_str:
  "json_wf v \<Longrightarrow> list_all json_ws gap \<Longrightarrow> list_all json_ws ind \<Longrightarrow> json_fuel v \<le> n \<Longrightarrow>
   json_delim rest \<Longrightarrow> parse_value n (json_str gap ind v @ rest) = Some (v, rest)"
proof (induction v arbitrary: n ind rest)
  case (JNum i)
  then obtain n' where "n = Suc n'" by (cases n) auto
  moreover have "parse_value (Suc n') (js_int_to_string i @ rest) = parse_number (js_int_to_string i @ rest)"
    using js_int_to_string_start [of i] by (intro parse_value_num_start) simp_all
  ultimately show ?case using parse_number_int [OF JNum.prems(5)] by simp
next
  case (JArr xs)
  obtain n' where n: "n = Suc n'" "length xs + sum_list (map json_fuel xs) \<le> n'"
    using JArr.prems(4) by (cases n) auto
  have start: "\<forall>x\<in>set xs. json_str gap i x \<noteq> [] \<and> \<not> json_ws (hd (json_str gap i x))
                 \<and> hd (json_str gap i x) \<noteq> CHR '']''" for i
    using json_str_start by blast
  have val: "\<forall>x\<in>set xs. \<forall>n r. json_fuel x \<le> n \<longrightarrow> json_delim r \<longrightarrow>
               parse_value n (json_str gap i x @ r) = Some (x, r)" if "list_all json_ws i" for i
    using JArr.IH JArr.prems(1,2) that by simp
  show ?case
  proof (cases "xs = []")
    case True
    with n show ?thesis by (simp add: json_ws_def)
  next
    case False
    show ?thesis
    proof (cases "gap = []")
      case True
      from parse_value_array [OF False start [of ind] val [OF JArr.prems(3)], of "[]" "[]" "[]" n' rest] n JArr.prems(3)
      show ?thesis using False True by simp
    next
      case gap: False
      from parse_value_array [OF False start [of "ind @ gap"] val, of "CHR 0x0A # ind @ gap"
          "CHR 0x0A # ind @ gap" "CHR 0x0A # ind" n' rest] n JArr.prems(2,3)
      show ?thesis using False gap by (simp add: json_ws_def)
    qed
  qed
next
  case (JObj ps)
  obtain n' where n: "n = Suc n'" "length ps + sum_list (map (\<lambda>p. json_fuel (snd p)) ps) \<le> n'"
    using JObj.prems(4) by (cases n) auto
  have wf: "distinct (map fst ps)" "js_entries ps = ps" using JObj.prems(1) by simp_all
  have start: "\<forall>p\<in>set ps. json_str gap i (snd p) \<noteq> [] \<and> \<not> json_ws (hd (json_str gap i (snd p)))" for i
    using json_str_start by blast
  have val: "\<forall>p\<in>set ps. \<forall>n r. json_fuel (snd p) \<le> n \<longrightarrow> json_delim r \<longrightarrow>
               parse_value n (json_str gap i (snd p) @ r) = Some (snd p, r)" if "list_all json_ws i" for i
  proof (intro ballI allI impI)
    fix p n r assume p: "p \<in> set ps" and "json_fuel (snd p) \<le> n" "json_delim r"
    moreover have "json_wf (snd p)" using JObj.prems(1) p by simp
    moreover have "snd p \<in> Basic_BNFs.snds p" by (cases p) simp
    ultimately show "parse_value n (json_str gap i (snd p) @ r) = Some (snd p, r)"
      using JObj.IH [OF p] JObj.prems(2) that by blast
  qed
  show ?case
  proof (cases "ps = []")
    case True
    with n show ?thesis by (simp add: json_ws_def)
  next
    case False
    show ?thesis
    proof (cases "gap = []")
      case True
      from parse_value_object [OF False wf start [of ind] val [OF JObj.prems(3)], of "[]" "[]" "[]" "[]" n' rest] n JObj.prems(3)
      show ?thesis using False True by simp
    next
      case gap: False
      from parse_value_object [OF False wf start [of "ind @ gap"] val, of "'' ''" "CHR 0x0A # ind @ gap"
          "CHR 0x0A # ind @ gap" "CHR 0x0A # ind" n' rest] n JObj.prems(2,3)
      show ?thesis using False gap by (simp add: json_ws_def)
    qed
  qed
qed (auto dest!: Suc_le_D simp: json_quote_def parse_chars_quote)

lemma length_js_join: "length (js_join sep xs) = sum_list (map length xs) + (length xs - 1) * length sep"
  by (induction sep xs rule: js_join.induct) simp_all

lemma json_fuel_le_length: "json_fuel v \<le> length (json_str gap ind v)"
proof (induction v arbitrary: ind)
  case (JNum i)
  then show ?case using js_int_to_string_start [of i] by (simp add: Suc_le_eq del: js_nat_digits.simps)
next
  case (JArr xs)
  have "sum_list (map json_fuel xs) \<le> sum_list (map length (map (json_str gap i) xs))" for i
    using JArr.IH by (simp add: sum_list_mono)
  from this [of ind] this [of "ind @ gap"] show ?case by (cases xs) (auto simp: length_js_join)
next
  case (JObj ps)
  let ?m = "\<lambda>i c. \<lambda>(k, v). json_quote k @ CHR '':'' # c @ json_str gap i v"
  have "Suc (Suc (json_fuel (snd p))) \<le> length (?m i c p)" if "p \<in> set ps" for i c p
    using JObj.IH [OF that, of "snd p" i] by (cases p) (simp add: json_quote_def)
  then have "sum_list (map (\<lambda>p. Suc (Suc (json_fuel (snd p)))) ps) \<le> sum_list (map length (map (?m i c) ps))"
    for i c by (simp add: sum_list_mono)
  moreover have "sum_list (map (\<lambda>p. Suc (Suc (json_fuel (snd p)))) ps)
                   = 2 * length ps + sum_list (map (\<lambda>p. json_fuel (snd p)) ps)"
    by (induction ps) simp_all
  ultimately have "2 * length ps + sum_list (map (\<lambda>p. json_fuel (snd p)) ps)
               \<le> sum_list (map length (map (?m i c) ps))" for i c
    by metis
  from this [where i = ind and c = "[]"] this [where i = "ind @ gap" and c = "'' ''"] show ?case
    by (cases ps) (auto simp: length_js_join)
qed (simp_all add: json_quote_def)

lemma json_str_parse:
  assumes "json_wf v" and "list_all json_ws gap"
  shows "JSON_parse (json_str gap [] v) = Some v"
proof -
  let ?s = "json_str gap [] v"
  have "dropWhile json_ws ?s = ?s"
    using json_str_start [of gap "[]" v] dropWhile_ws_start [of ?s "[]"] by simp
  moreover have "parse_value (length ?s) (?s @ []) = Some (v, [])"
    using assms json_fuel_le_length [of v gap "[]"]
    by (intro parse_value_json_str) (simp_all add: json_delim_def)
  ultimately show ?thesis by (simp add: JSON_parse_def)
qed

subsection \<open>The weekly report export\<close>

lemma js_entries_idem: "js_entries (js_entries xs) = js_entries xs"
  by (simp add: js_entries_def filter_sort sort_key_id_if_sorted)

lemma map_insort_key: "(\<And>x. f (g x) = h x) \<Longrightarrow> map g (insort_key h x xs) = insort_key f (g x) (map g xs)"
  by (induction xs) simp_all

lemma sort_key_map: "(\<And>x. f (g x) = h x) \<Longrightarrow> sort_key f (map g xs) = map g (sort_key h xs)"
  by (induction xs) (simp_all add: map_insort_key [where f = f and g = g and h = h])

lemma js_entries_map_value:
  "js_entries (map (\<lambda>(k, v). (k, h v)) ps) = map (\<lambda>(k, v). (k, h v)) (js_entries ps)"
proof -
  have "sort_key (\<lambda>p. js_digits_value (fst p)) (map (\<lambda>(k, v). (k, h v)) ys)
        = map (\<lambda>(k, v). (k, h v)) (sort_key (\<lambda>p. js_digits_value (fst p)) ys)" for ys
    by (rule sort_key_map) (simp add: split_def)
  then show ?thesis by (simp add: js_entries_def filter_map comp_def split_def)
qed

lemma json_wf_weekly:
  assumes "distinct (map fst (reportsByType r))"
  shows "json_wf (weekly_json r)"
proof -
  define t where "t = map (\<lambda>(k, c). (k, JNum (int c))) (js_entries (reportsByType r))"
  have "js_entries t = t" unfolding t_def by (simp only: js_entries_map_value js_entries_idem)
  moreover have "distinct (map fst t)"
    using distinct_js_entries [OF assms] by (simp add: t_def comp_def split_def)
  moreover have "\<forall>p\<in>set t. json_wf (snd p)" by (auto simp: t_def)
  ultimately have t: "distinct (map fst t)" "js_entries t = t" "\<forall>p\<in>set t. json_wf (snd p)" by blast+
  have "weekly_json r =
     JObj [(''reportDate'', JStr (reportDate r)), (''weekStart'', JStr (weekStart r)),
           (''weekEnd'', JStr (weekEnd r)),
           (''summary'', JObj [(''totalReports'', JNum (int (summary_totalReports (summary r)))),
                               (''pendingReports'', JNum (int (pendingReports (summary r)))),
                               (''reviewedReports'', JNum (int (reviewedReports (summary r)))),
                               (''resolvedReports'', JNum (int (resolvedReports (summary r)))),
                               (''newMembers'', JNum (int (newMembers (summary r)))),
                               (''totalMembers'', JNum (int (summary_totalMembers (summary r))))]),
           (''reportsByType'', JObj t),
           (''reportsByLocation'', JArr (map area_json (reportsByLocation r))),
           (''topContributors'', JArr (map contributor_json (topContributors r)))]"
    by (simp add: weekly_json_def t_def)
  with t show ?thesis
    by (simp add: area_json_def contributor_json_def js_entries_def js_is_array_index_def js_is_digit_def)
qed

text \<open>The weekly report's JSON holds only strings, integers, arrays and objects, so the
  integer-only parser of this theory reads the downloaded text back as the report value.\<close>

lemma weekly_download_reads_back:
  "JSON_parse (snd (downloadWeeklyReportAsJSON ev tz (generateWeeklyReport ev tz st)))
     = Some (weekly_json (generateWeeklyReport ev tz st))"
proof -
  have "distinct (map fst (reportsByType (generateWeeklyReport ev tz st)))"
    by (simp add: generateWeeklyReport_def Let_def distinct_count_by)
  then have "json_wf (weekly_json (generateWeeklyReport ev tz st))" by (rule json_wf_weekly)
  moreover have "list_all json_ws ''  ''" by (simp add: json_ws_def)
  ultimately show ?thesis by (simp add: downloadWeeklyReportAsJSON_def json_str_parse)
qed

subsection \<open>Examples\<close>

text \<open>With the Sydney offset the name carries the local date, which differs from the ISO date for part of each day.\<close>

lemma sydney_file_name_local_date:
  "report_file_name sydney_tz 1699902000000 ''.json'' = ''Sydney_Weekly_Rubbish_Report_2023-11-14.json''
   \<and> take 10 (js_toISOString 1699902000000) = ''2023-11-13''"
  by code_simp

end
