(* ===== verification/Bell.thy ===== *)
theory Bell
  imports Session
begin

text \<open>
  The view and the events of the notification bell (\<open>components/NotificationBell.tsx\<close>),
  over the bell state and handlers of \<open>Session\<close>.
  \<^item> \<open>formatDistance\<close> is date-fns \<open>formatDistance(date, base, {addSuffix: true})\<close> in the
    English locale, which \<open>formatDistanceToNow\<close> (line 125) calls with the clock; it is a
    library function, modelled from its published algorithm: whole seconds between the two
    instants, rounded to minutes (\<open>Math.round\<close>, half up), then the bands less than a minute,
    minutes, about hours, days, about a month, months and years, and \<open>in \<dots>\<close> or
    \<open>\<dots> ago\<close>. The calendar month difference it uses beyond two months
    (\<open>differenceInMonths\<close>) is the argument \<open>dm\<close>; with a fixed zone offset the offset
    correction of the minutes is zero.
  \<^item> \<open>bell_view\<close> is what the component renders (lines 50-147): nothing for no user or an
    admin; else the bell button with its badge and, when open, the \<open>Mark all read\<close> button
    (only with unread notifications), the close button, and the list: a row per notification
    with title, message, relative time and, for an unread one, the highlight and the
    mark-as-read button, or the empty message.
  \<^item> \<open>bell_step\<close> is one event: the bell button toggles the panel (line 57), the backdrop and
    the close button close it (lines 74, 92), the row button and \<open>Mark all read\<close> run the
    handlers (lines 130, 85), and a poll or a change of user reloads (lines 13-28).
\<close>

subsection \<open>\<open>formatDistanceToNow\<close>\<close>

text \<open>\<open>Math.round(a / b)\<close> for \<open>b > 0\<close>: the floor of \<open>a / b + 1/2\<close>.\<close>

definition js_round_div :: "int \<Rightarrow> int \<Rightarrow> int" where
  "js_round_div a b = (2 * a + b) div (2 * b)"

datatype distance_token =
    LessThanXMinutes | XMinutes | AboutXHours | XDays | AboutXMonths | XMonths
  | AboutXYears | OverXYears | AlmostXYears

text \<open>The English locale's \<open>formatDistance\<close>: the singular form for a count of one.\<close>

fun en_distance :: "distance_token \<Rightarrow> int \<Rightarrow> string" where
  "en_distance LessThanXMinutes c = (if c = 1 then ''less than a minute'' else ''less than '' @ js_int_to_string c @ '' minutes'')"
| "en_distance XMinutes c = (if c = 1 then ''1 minute'' else js_int_to_string c @ '' minutes'')"
| "en_distance AboutXHours c = (if c = 1 then ''about 1 hour'' else ''about '' @ js_int_to_string c @ '' hours'')"
| "en_distance XDays c = (if c = 1 then ''1 day'' else js_int_to_string c @ '' days'')"
| "en_distance AboutXMonths c = (if c = 1 then ''about 1 month'' else ''about '' @ js_int_to_string c @ '' months'')"
| "en_distance XMonths c = (if c = 1 then ''1 month'' else js_int_to_string c @ '' months'')"
| "en_distance AboutXYears c = (if c = 1 then ''about 1 year'' else ''about '' @ js_int_to_string c @ '' years'')"
| "en_distance OverXYears c = (if c = 1 then ''over 1 year'' else ''over '' @ js_int_to_string c @ '' years'')"
| "en_distance AlmostXYears c = (if c = 1 then ''almost 1 year'' else ''almost '' @ js_int_to_string c @ '' years'')"

text \<open>The band and count for a distance in minutes and whole calendar months.\<close>

definition distance_band :: "int \<Rightarrow> int \<Rightarrow> distance_token \<times> int" where
  "distance_band minutes months =
     (if minutes < 2 then (if minutes = 0 then (LessThanXMinutes, 1) else (XMinutes, minutes))
      else if minutes < 45 then (XMinutes, minutes)
      else if minutes < 90 then (AboutXHours, 1)
      else if minutes < 1440 then (AboutXHours, js_round_div minutes 60)
      else if minutes < 2520 then (XDays, 1)
      else if minutes < 43200 then (XDays, js_round_div minutes 1440)
      else if minutes < 86400 then (AboutXMonths, js_round_div minutes 43200)
      else if months < 12 then (XMonths, js_round_div minutes 43200)
      else if months mod 12 < 3 then (AboutXYears, months div 12)
      else if months mod 12 < 9 then (OverXYears, months div 12)
      else (AlmostXYears, months div 12 + 1))"

definition formatDistance :: "(timestamp \<Rightarrow> timestamp \<Rightarrow> int) \<Rightarrow> timestamp \<Rightarrow> timestamp \<Rightarrow> string" where
  "formatDistance dm date base =
     (let later = max date base;
          earlier = min date base;
          seconds = (later - earlier) div 1000;
          minutes = js_round_div seconds 60;
          res = case_prod en_distance (distance_band minutes (dm later earlier))
      in if base < date then ''in '' @ res else res @ '' ago'')"

definition formatDistanceToNow :: "(timestamp \<Rightarrow> timestamp \<Rightarrow> int) \<Rightarrow> env \<Rightarrow> timestamp \<Rightarrow> string" where
  "formatDistanceToNow dm ev date = formatDistance dm date (now ev)"

subsection \<open>The view\<close>

datatype bell_item =
    BellButton bell_badge
  | MarkAllReadButton
  | ClosePanelButton
  | NoNotificationsYet
  | NotificationRow string string string string bool

text \<open>A row: id (the React key), title, message, relative time, and whether it is unread,
  which both the highlight (line 113) and the mark-as-read button (line 128) test.\<close>

definition notification_row :: "(timestamp \<Rightarrow> timestamp \<Rightarrow> int) \<Rightarrow> env \<Rightarrow> notification \<Rightarrow> bell_item" where
  "notification_row dm ev n =
     NotificationRow (notification_id n) (title n) (message n)
       (formatDistanceToNow dm ev (notif_createdAt n)) (\<not> read n)"

definition bell_view :: "(timestamp \<Rightarrow> timestamp \<Rightarrow> int) \<Rightarrow> env \<Rightarrow> user option \<Rightarrow> bell_state \<Rightarrow> bell_item list" where
  "bell_view dm ev u b =
     (if \<not> bell_visible u then []
      else BellButton (badge (unreadCount b))
           # (if isOpen b
              then (if 0 < unreadCount b then [MarkAllReadButton] else [])
                   @ [ClosePanelButton]
                   @ (if bell_notifications b = [] then [NoNotificationsYet]
                      else map (notification_row dm ev) (bell_notifications b))
              else []))"

definition mark_buttons :: "bell_item list \<Rightarrow> string list" where
  "mark_buttons xs = [nid. NotificationRow nid _ _ _ True \<leftarrow> xs]"

subsection \<open>The events\<close>

datatype bell_event = ClickBell | ClickBackdrop | ClickClose | ClickMarkRead string | ClickMarkAll | Poll

fun bell_step :: "env \<Rightarrow> user option \<Rightarrow> bell_event \<Rightarrow> bell_state \<times> store \<Rightarrow> bell_state \<times> store" where
  "bell_step ev u ClickBell (b, st) = (b\<lparr>isOpen := \<not> isOpen b\<rparr>, st)"
| "bell_step ev u ClickBackdrop (b, st) = (b\<lparr>isOpen := False\<rparr>, st)"
| "bell_step ev u ClickClose (b, st) = (b\<lparr>isOpen := False\<rparr>, st)"
| "bell_step ev u (ClickMarkRead nid) (b, st) = handleMarkAsRead ev u nid st b"
| "bell_step ev u ClickMarkAll (b, st) = handleMarkAllAsRead ev u st b"
| "bell_step ev u Poll (b, st) = (case u of None \<Rightarrow> (b, st) | Some _ \<Rightarrow> loadNotifications ev u st b)"

declare js_round_div_def [eval_simps] distance_band_def [eval_simps] formatDistance_def [eval_simps]
  formatDistanceToNow_def [eval_simps] notification_row_def [eval_simps] bell_view_def [eval_simps]
  mark_buttons_def [eval_simps]

subsection \<open>Lemmas\<close>

lemma js_round_div_exact: "0 < b \<Longrightarrow> js_round_div (b * k) b = k"
proof -
  assume "0 < b"
  then have "(2 * (b * k) + b) div (2 * b) = (b + k * (2 * b)) div (2 * b)" by (simp add: algebra_simps)
  also have "\<dots> = k" using \<open>0 < b\<close> by simp
  finally show ?thesis by (simp add: js_round_div_def)
qed

lemma formatDistance_minutes_ago:
  assumes "2 \<le> k" "k < 45"
  shows "formatDistance dm (base - 60000 * k) base = js_int_to_string k @ '' minutes ago''"
proof -
  have "(base - (base - 60000 * k)) div 1000 = 60 * k" by simp
  moreover have "js_round_div (60 * k) 60 = k" by (rule js_round_div_exact) simp
  ultimately show ?thesis using assms
    by (simp add: formatDistance_def distance_band_def Let_def max_def min_def)
qed

lemma mark_buttons_rows:
  "mark_buttons (map (notification_row dm ev) ns) = map notification_id (filter (\<lambda>n. \<not> read n) ns)"
  by (induction ns) (simp_all add: mark_buttons_def notification_row_def)

lemma mark_buttons_append: "mark_buttons (xs @ ys) = mark_buttons xs @ mark_buttons ys"
  by (simp add: mark_buttons_def)

lemma mark_buttons_Cons_other:
  "(case x of NotificationRow _ _ _ _ u \<Rightarrow> \<not> u | _ \<Rightarrow> True) \<Longrightarrow> mark_buttons (x # xs) = mark_buttons xs"
  by (simp add: mark_buttons_def split: bell_item.splits)

lemma mark_buttons_view:
  "bell_visible u \<Longrightarrow> isOpen b \<Longrightarrow>
   mark_buttons (bell_view dm ev u b) = map notification_id (filter (\<lambda>n. \<not> read n) (bell_notifications b))"
proof -
  have "mark_buttons [] = []" by (simp add: mark_buttons_def)
  then show "bell_visible u \<Longrightarrow> isOpen b \<Longrightarrow> ?thesis"
    by (simp add: bell_view_def mark_buttons_Cons_other mark_buttons_rows)
qed

lemma mark_all_view:
  "bell_visible u \<Longrightarrow> isOpen b \<Longrightarrow> MarkAllReadButton \<in> set (bell_view dm ev u b) \<longleftrightarrow> 0 < unreadCount b"
  by (auto simp: bell_view_def notification_row_def)

lemma unread_count_pos: "0 < unread_count uid ns \<longleftrightarrow> (\<exists>n\<in>set ns. notif_userId n = uid \<and> \<not> read n)"
  by (simp add: unread_count_def filter_empty_conv)

lemma formatDistance_examples:
  "formatDistance dm 1000000000 1000020000 = ''less than a minute ago''"
  "formatDistance dm 1000000000 1010800000 = ''about 3 hours ago''"
  "formatDistance dm 1086400000 1000000000 = ''in 1 day''"
  "formatDistance dm 1000000000 1432000000 = ''5 days ago''"
  by (simp_all add: eval_simps)

subsection \<open>Properties\<close>

text \<open>C27: After the bell loads the stored outbox for a member with the panel open, the rows with a mark-as-read button are exactly the member's unread notifications, newest first, and the Mark all read button is shown exactly when there is one.\<close>

theorem bell_mark_buttons_unread:
  assumes "notifications_data st = Some ns" and "role usr \<noteq> RoleAdmin" and "isOpen b"
  shows "mark_buttons (bell_view dm ev (Some usr) (fst (loadNotifications ev (Some usr) st b)))
           = map notification_id (newest_first (filter (\<lambda>n. notif_userId n = user_id usr \<and> \<not> read n) ns))
         \<and> (MarkAllReadButton \<in> set (bell_view dm ev (Some usr) (fst (loadNotifications ev (Some usr) st b)))
            \<longleftrightarrow> (\<exists>n\<in>set ns. notif_userId n = user_id usr \<and> \<not> read n))"
proof -
  have v: "bell_visible (Some usr)" using assms(2) by (simp add: bell_visible_def)
  have "filter (\<lambda>n. \<not> read n) (newest_first (filter (\<lambda>n. notif_userId n = user_id usr) ns))
        = newest_first (filter (\<lambda>n. notif_userId n = user_id usr \<and> \<not> read n) ns)"
    by (simp add: newest_first_def filter_sort filter_filter conj_commute)
  with assms(1,3) v show ?thesis
    by (simp add: loadNotifications_Some mark_buttons_view mark_all_view unread_count_pos)
qed

text \<open>C28: When the outbox exists and its write succeeds, Mark all read leaves the open panel of a member with no mark-as-read button and no Mark all read button.\<close>

theorem bell_mark_all_clears_buttons:
  assumes "notifications_data st = Some ns" and "\<not> write_fails ev NOTIFICATIONS"
    and "role usr \<noteq> RoleAdmin" and "isOpen b"
  shows "mark_buttons (bell_view dm ev (Some usr) (fst (bell_step ev (Some usr) ClickMarkAll (b, st)))) = []
         \<and> MarkAllReadButton \<notin> set (bell_view dm ev (Some usr) (fst (bell_step ev (Some usr) ClickMarkAll (b, st))))"
proof -
  have v: "bell_visible (Some usr)" using assms(3) by (simp add: bell_visible_def)
  have "filter (\<lambda>n. notif_userId n = user_id usr \<and> \<not> read n) (map (mark_read_for (user_id usr)) ns) = []"
    by (auto simp: filter_empty_conv mark_read_for_def)
  then have "filter (\<lambda>n. \<not> read n) (newest_first (filter (\<lambda>n. notif_userId n = user_id usr) (map (mark_read_for (user_id usr)) ns))) = []"
    by (simp add: newest_first_def filter_sort filter_filter conj_commute)
  with assms(1,2,4) v show ?thesis
    by (simp add: handleMarkAllAsRead_def markAllNotificationsAsRead_Some loadNotifications_Some
        mark_buttons_view mark_all_view unread_count_mark_read_for)
qed

theorem bell_mark_buttons_unread_witness:
  "notifications_data (empty_store\<lparr>notifications_data := Some demo_outbox\<rparr>) = Some demo_outbox \<and> role (user.truncate demo_member) \<noteq> RoleAdmin \<and> isOpen \<lparr>isOpen = True, bell_notifications = [], unreadCount = 0\<rparr>
   \<and> mark_buttons (bell_view (\<lambda>_ _. 0) (demo_env 50) (Some (user.truncate demo_member)) (fst (loadNotifications (demo_env 50) (Some (user.truncate demo_member)) (empty_store\<lparr>notifications_data := Some demo_outbox\<rparr>) \<lparr>isOpen = True, bell_notifications = [], unreadCount = 0\<rparr>)))
       = map notification_id (newest_first (filter (\<lambda>n. notif_userId n = user_id (user.truncate demo_member) \<and> \<not> read n) demo_outbox))"
proof -
  have h: "notifications_data (empty_store\<lparr>notifications_data := Some demo_outbox\<rparr>) = Some demo_outbox" "role (user.truncate demo_member) \<noteq> RoleAdmin" "isOpen \<lparr>isOpen = True, bell_notifications = [], unreadCount = 0\<rparr>"
    by (simp_all add: demo_member_def new_member_def user.truncate_def)
  show ?thesis using h bell_mark_buttons_unread [OF h, of "\<lambda>_ _. 0" "demo_env 50"] by blast
qed

theorem bell_mark_all_clears_buttons_witness:
  "notifications_data (empty_store\<lparr>notifications_data := Some demo_outbox\<rparr>) = Some demo_outbox \<and> \<not> write_fails (demo_env 50) NOTIFICATIONS
   \<and> role (user.truncate demo_member) \<noteq> RoleAdmin \<and> isOpen \<lparr>isOpen = True, bell_notifications = [], unreadCount = 0\<rparr>
   \<and> mark_buttons (bell_view (\<lambda>_ _. 0) (demo_env 50) (Some (user.truncate demo_member)) (fst (bell_step (demo_env 50) (Some (user.truncate demo_member)) ClickMarkAll (\<lparr>isOpen = True, bell_notifications = [], unreadCount = 0\<rparr>, (empty_store\<lparr>notifications_data := Some demo_outbox\<rparr>))))) = []"
proof -
  have h: "notifications_data (empty_store\<lparr>notifications_data := Some demo_outbox\<rparr>) = Some demo_outbox" "\<not> write_fails (demo_env 50) NOTIFICATIONS"
    "role (user.truncate demo_member) \<noteq> RoleAdmin" "isOpen \<lparr>isOpen = True, bell_notifications = [], unreadCount = 0\<rparr>"
    by (simp_all add: demo_member_def new_member_def user.truncate_def demo_env_def)
  show ?thesis using h bell_mark_all_clears_buttons [OF h, of "\<lambda>_ _. 0"] by blast
qed

end
