(* ===== verification/Heat.thy ===== *)
theory Heat
  imports MapView
begin

text \<open>
  The component \<open>HeatMap\<close> of \<open>src/src/app/components/HeatMap.tsx\<close> beyond its colour and
  radius helpers (theory \<open>MapView\<close>):
  \<^item> \<open>heatmap_props\<close> are its props (lines 15-22), with the defaults of lines 50-57 in
    \<open>default_props\<close>; a callback prop is modelled by whether it is present, and its call by
    the arguments it receives.
  \<^item> \<open>heat_view\<close> is what it renders (lines 76-164): the loading placeholder until the mount
    effect has set \<open>isClient\<close> (lines 58-62), then the map, one circle marker per location
    with its popup (address, report count, colour swatch and \<open>toFixed(0)\<close> of the intensity
    in percent), the marker of the selected location, and the legend.
  \<^item> \<open>leaflet_map\<close> is the part of the Leaflet map the component acts on: whether it has
    loaded, its view centre and zoom. \<open>MapContainer\<close> reads \<open>center\<close> and \<open>zoom\<close> only when it
    creates the map (\<open>map_created\<close>); afterwards the effect of \<open>RecenterMap\<close> (lines 25-35)
    moves the view when the \<open>center\<close> prop changes, but only if the map has loaded.
    \<open>map_step\<close> is one event: the map finishes loading, the effect runs with a new centre,
    the user zooms, or the user clicks, which calls \<open>onMapClick\<close> (lines 38-48, \<open>heat_click\<close>).
  Shown: each marker is followed by its own popup with the same legend colour; the popup's
  percentage of an intensity in \<open>[0, 1]\<close> is the whole number from 0 to 100 nearest to it; the recentring acts only on a loaded map, so an
  effect run before loading leaves the view on its creation centre. (Leaflet marks a map
  loaded as soon as it is created with a centre and a zoom, as \<open>MapContainer\<close> creates it,
  so with this container the effect always finds the map loaded.)
\<close>

record heatmap_props =
  hm_locations :: "location_point list"
  hm_center :: "real \<times> real"
  hm_zoom :: int
  hm_height :: string
  hm_onMapClick :: bool
  hm_selected :: "(real \<times> real) option"

definition default_props :: "location_point list \<Rightarrow> heatmap_props" where
  "default_props ls =
     \<lparr>hm_locations = ls, hm_center = (-33.8688, 151.2093), hm_zoom = 13, hm_height = ''600px'',
      hm_onMapClick = False, hm_selected = None\<rparr>"

text \<open>\<open>Number.prototype.toFixed(0)\<close>: the nearest integer, halves away from zero, and a
  minus sign for a negative number.\<close>

definition js_toFixed0 :: "real \<Rightarrow> string" where
  "js_toFixed0 x = (if x < 0 then ''-'' else []) @ js_nat_digits (nat \<lfloor>\<bar>x\<bar> + 1 / 2\<rfloor>)"

datatype heat_item =
    LoadingMap
  | MapAt "real \<times> real" int
  | CircleMarkerAt string "real \<times> real" real string
  | MarkerPopup string string string string
  | SelectedMarker "real \<times> real"
  | LegendTitle
  | LegendEntry string string

text \<open>A location's marker (lines 107-116) and its popup (lines 117-133): address, the text
  \<open><count> reports\<close>, the swatch colour and the text \<open><percent>% intensity\<close>.\<close>

definition location_items :: "location_point \<Rightarrow> heat_item list" where
  "location_items l =
     [CircleMarkerAt (point_id l) (point_lat l, point_lng l) (getRadius (of_int (reports l)))
        (getColor (intensity l)),
      MarkerPopup (point_address l) (js_int_to_string (reports l) @ '' reports'') (getColor (intensity l))
        (js_toFixed0 (intensity l * 100) @ ''% intensity'')]"

definition heat_view :: "heatmap_props \<Rightarrow> bool \<Rightarrow> heat_item list" where
  "heat_view p isClient =
     (if \<not> isClient then [LoadingMap]
      else MapAt (hm_center p) (hm_zoom p)
           # concat (map location_items (hm_locations p))
           @ (case hm_selected p of Some s \<Rightarrow> [SelectedMarker s] | None \<Rightarrow> [])
           @ LegendTitle # map (\<lambda>(lb, c). LegendEntry lb c) legend)"

record leaflet_map =
  map_loaded :: bool
  view_center :: "real \<times> real"
  view_zoom :: int

definition map_created :: "heatmap_props \<Rightarrow> leaflet_map" where
  "map_created p = \<lparr>map_loaded = False, view_center = hm_center p, view_zoom = hm_zoom p\<rparr>"

datatype map_event = MapLoaded | CenterEffect "real \<times> real" | UserZoom int | MapClick "real \<times> real"

fun map_step :: "map_event \<Rightarrow> leaflet_map \<Rightarrow> leaflet_map" where
  "map_step MapLoaded m = m\<lparr>map_loaded := True\<rparr>"
| "map_step (CenterEffect c) m = (if map_loaded m then m\<lparr>view_center := c\<rparr> else m)"
| "map_step (UserZoom z) m = m\<lparr>view_zoom := z\<rparr>"
| "map_step (MapClick ll) m = m"

definition heat_click :: "heatmap_props \<Rightarrow> real \<times> real \<Rightarrow> (real \<times> real) option" where
  "heat_click p ll = (if hm_onMapClick p then Some ll else None)"

definition run_map :: "map_event list \<Rightarrow> leaflet_map \<Rightarrow> leaflet_map" where
  "run_map es m = fold map_step es m"

declare default_props_def [eval_simps] js_toFixed0_def [eval_simps] location_items_def [eval_simps]
  heat_view_def [eval_simps] map_created_def [eval_simps] heat_click_def [eval_simps]
  run_map_def [eval_simps]

subsection \<open>Lemmas\<close>

lemma js_toFixed0_round:
  assumes "0 \<le> x" "x \<le> 1"
  shows "nat \<lfloor>x * 100 + 1 / 2\<rfloor> \<le> 100 \<and> \<bar>real (nat \<lfloor>x * 100 + 1 / 2\<rfloor>) - x * 100\<bar> \<le> 1 / 2"
proof -
  have le: "\<lfloor>x * 100 + 1 / 2\<rfloor> \<le> 100" using assms(2) by (simp add: floor_le_iff)
  have ge: "0 \<le> \<lfloor>x * 100 + 1 / 2\<rfloor>" using assms(1) by simp
  have "real_of_int \<lfloor>x * 100 + 1 / 2\<rfloor> \<le> x * 100 + 1 / 2" by (rule of_int_floor_le)
  moreover have "x * 100 + 1 / 2 < real_of_int \<lfloor>x * 100 + 1 / 2\<rfloor> + 1" by (rule real_of_int_floor_add_one_gt)
  moreover have "real (nat \<lfloor>x * 100 + 1 / 2\<rfloor>) = real_of_int \<lfloor>x * 100 + 1 / 2\<rfloor>" using ge by simp
  ultimately have "\<bar>real (nat \<lfloor>x * 100 + 1 / 2\<rfloor>) - x * 100\<bar> \<le> 1 / 2" by linarith
  moreover have "nat \<lfloor>x * 100 + 1 / 2\<rfloor> \<le> nat 100" using le by (rule nat_mono)
  ultimately show ?thesis by (simp del: of_int_numeral)
qed

lemma getColor_legend: "getColor it \<in> snd ` set legend"
  using getColor_in_legend by blast

lemma set_heat_view:
  "set (heat_view p True) =
     {MapAt (hm_center p) (hm_zoom p)} \<union> (\<Union>l\<in>set (hm_locations p). set (location_items l))
     \<union> set (case hm_selected p of Some s \<Rightarrow> [SelectedMarker s] | None \<Rightarrow> [])
     \<union> {LegendTitle} \<union> set (map (\<lambda>(lb, c). LegendEntry lb c) legend)"
  by (auto simp: heat_view_def)

lemma recenter_needs_loaded_map:
  "view_center (run_map [CenterEffect c, MapLoaded] (map_created p)) = hm_center p
   \<and> view_center (run_map [MapLoaded, CenterEffect c] (map_created p)) = c"
  by (simp add: run_map_def map_created_def)

subsection \<open>Properties\<close>

text \<open>C29: Once mounted, for locations with intensities in [0, 1], each location's circle marker is directly followed in the view by its popup: the marker at its coordinates with a radius from 10 to 30 and a legend colour, the popup with its address, its report count, the same colour and the intensity as the whole percentage k from 0 to 100 nearest to 100 times the intensity.\<close>

theorem heat_markers_bounded:
  assumes "\<forall>l\<in>set (hm_locations p). 0 \<le> intensity l \<and> intensity l \<le> 1"
  shows "\<forall>l\<in>set (hm_locations p). \<exists>us vs r c k.
           heat_view p True =
             us @ [CircleMarkerAt (point_id l) (point_lat l, point_lng l) r c,
                   MarkerPopup (point_address l) (js_int_to_string (reports l) @ '' reports'') c
                     (js_nat_digits k @ ''% intensity'')] @ vs
           \<and> 10 \<le> r \<and> r \<le> 30 \<and> c \<in> snd ` set legend
           \<and> k \<le> 100 \<and> \<bar>real k - intensity l * 100\<bar> \<le> 1 / 2"
proof
  fix l assume l: "l \<in> set (hm_locations p)"
  then obtain xs ys where split: "hm_locations p = xs @ l # ys" by (meson split_list)
  define k where "k = nat \<lfloor>intensity l * 100 + 1 / 2\<rfloor>"
  have i: "0 \<le> intensity l" "intensity l \<le> 1" using assms l by auto
  have fixed: "js_toFixed0 (intensity l * 100) = js_nat_digits k"
    using i(1) by (simp add: js_toFixed0_def k_def)
  have round: "k \<le> 100 \<and> \<bar>real k - intensity l * 100\<bar> \<le> 1 / 2"
    using js_toFixed0_round [OF i] by (simp add: k_def)
  define us where "us = MapAt (hm_center p) (hm_zoom p) # concat (map location_items xs)"
  define vs where "vs = concat (map location_items ys)
          @ (case hm_selected p of Some s \<Rightarrow> [SelectedMarker s] | None \<Rightarrow> [])
          @ LegendTitle # map (\<lambda>(lb, c). LegendEntry lb c) legend"
  have "heat_view p True =
          us @ [CircleMarkerAt (point_id l) (point_lat l, point_lng l) (getRadius (of_int (reports l)))
                  (getColor (intensity l)),
                MarkerPopup (point_address l) (js_int_to_string (reports l) @ '' reports'')
                  (getColor (intensity l)) (js_nat_digits k @ ''% intensity'')] @ vs"
    by (simp add: heat_view_def split us_def vs_def location_items_def fixed)
  with round show "\<exists>us vs r c k.
           heat_view p True =
             us @ [CircleMarkerAt (point_id l) (point_lat l, point_lng l) r c,
                   MarkerPopup (point_address l) (js_int_to_string (reports l) @ '' reports'') c
                     (js_nat_digits k @ ''% intensity'')] @ vs
           \<and> 10 \<le> r \<and> r \<le> 30 \<and> c \<in> snd ` set legend
           \<and> k \<le> 100 \<and> \<bar>real k - intensity l * 100\<bar> \<le> 1 / 2"
    using getRadius_bounds [of "of_int (reports l)"] getColor_legend [of "intensity l"] by blast
qed

theorem heat_markers_bounded_witness:
  "list_all (\<lambda>l. 0 \<le> intensity l \<and> intensity l \<le> 1) (hm_locations (default_props SYDNEY_LOCATIONS))
   \<and> list_all (\<lambda>l. \<exists>us vs r c k.
           heat_view (default_props SYDNEY_LOCATIONS) True =
             us @ [CircleMarkerAt (point_id l) (point_lat l, point_lng l) r c,
                   MarkerPopup (point_address l) (js_int_to_string (reports l) @ '' reports'') c
                     (js_nat_digits k @ ''% intensity'')] @ vs
           \<and> 10 \<le> r \<and> r \<le> 30 \<and> c \<in> snd ` set legend
           \<and> k \<le> 100 \<and> \<bar>real k - intensity l * 100\<bar> \<le> 1 / 2) (hm_locations (default_props SYDNEY_LOCATIONS))"
proof -
  have h: "\<forall>l\<in>set (hm_locations (default_props SYDNEY_LOCATIONS)). 0 \<le> intensity l \<and> intensity l \<le> 1"
    by (simp add: default_props_def SYDNEY_LOCATIONS_def mk_point_def)
  show ?thesis using h heat_markers_bounded [OF h] by (simp only: list_all_iff)
qed

end
