(* ===== verification/AuthRace.thy ===== *)
theory AuthRace
  imports Session
begin

text \<open>
  The auth context of \<open>src/src/app/context/AuthContext.tsx\<close> as its consumers see it, and
  \<open>refreshUser\<close> as the two steps it takes.
  \<^item> \<open>auth_context\<close> is the interface \<open>AuthContextType\<close> (lines 6-14) without its three
    functions, which are the events of \<open>Session\<close>; \<open>provider_value\<close> is the value the
    provider passes down (lines 76-90) and \<open>useAuth\<close> the hook (lines 93-99), whose
    \<open>throw\<close> is an \<open>Inl\<close>.
  \<^item> \<open>refreshUser\<close> (lines 67-74) tests \<open>if (user)\<close> when it is called, then awaits the
    backend and sets the user it answers. \<open>auth_runtime\<close> adds to the auth state the calls
    that passed the test and are still awaiting (by a call id); \<open>auth_act\<close> is one step: a
    callback of \<open>Session\<close>, a call of \<open>refreshUser\<close>, or the answer to one. The answer of a
    pending call is the event \<open>RefreshUser True\<close> of \<open>Session\<close>.
  Shown: a call answered at once is the single event of \<open>Session\<close> with the test made on
  the current state; a logout that completes while a refresh is awaiting is undone when the
  refresh is answered, so the user is signed in again.
\<close>

record auth_context =
  ctx_user :: "user option"
  ctx_isAuthenticated :: bool
  ctx_isAdmin :: bool
  ctx_isLoading :: bool

definition provider_value :: "auth_state \<Rightarrow> auth_context" where
  "provider_value s =
     \<lparr>ctx_user = session_user s, ctx_isAuthenticated = (session_user s \<noteq> None),
      ctx_isAdmin = (case session_user s of Some u \<Rightarrow> role u = RoleAdmin | None \<Rightarrow> False),
      ctx_isLoading = isLoading s\<rparr>"

definition useAuth :: "auth_context option \<Rightarrow> string + auth_context" where
  "useAuth c = (case c of None \<Rightarrow> Inl ''useAuth must be used within an AuthProvider'' | Some v \<Rightarrow> Inr v)"

record auth_runtime =
  rt_auth :: auth_state
  pending_refresh :: "nat list"

datatype auth_action = Callback auth_event | RefreshCall nat | RefreshResolve nat "user option"

fun auth_act :: "auth_action \<Rightarrow> auth_runtime \<Rightarrow> auth_runtime" where
  "auth_act (Callback e) r = r\<lparr>rt_auth := auth_step e (rt_auth r)\<rparr>"
| "auth_act (RefreshCall i) r =
     (if session_user (rt_auth r) \<noteq> None \<and> i \<notin> set (pending_refresh r)
      then r\<lparr>pending_refresh := pending_refresh r @ [i]\<rparr> else r)"
| "auth_act (RefreshResolve i cu) r =
     (if i \<in> set (pending_refresh r)
      then \<lparr>rt_auth = auth_step (RefreshUser True cu) (rt_auth r),
            pending_refresh = removeAll i (pending_refresh r)\<rparr>
      else r)"

definition auth_acts :: "auth_action list \<Rightarrow> auth_runtime \<Rightarrow> auth_runtime" where
  "auth_acts as r = fold auth_act as r"

declare provider_value_def [eval_simps] useAuth_def [eval_simps] auth_acts_def [eval_simps]

subsection \<open>Lemmas\<close>

lemma useAuth_cases:
  "useAuth None = Inl ''useAuth must be used within an AuthProvider''"
  "useAuth (Some (provider_value s)) = Inr (provider_value s)"
  "ctx_isAuthenticated (provider_value s) = isAuthenticated s"
  "ctx_isAdmin (provider_value s) = isAdmin s"
  by (simp_all add: useAuth_def provider_value_def isAuthenticated_def isAdmin_def split: option.split)

text \<open>A refresh answered before anything else happens is the single event of \<open>Session\<close>,
  its test made on the state at the call.\<close>

lemma refresh_call_resolve:
  assumes "i \<notin> set (pending_refresh r)"
  shows "auth_acts [RefreshCall i, RefreshResolve i cu] r =
           r\<lparr>rt_auth := auth_step (RefreshUser (session_user (rt_auth r) \<noteq> None) cu) (rt_auth r)\<rparr>"
  using assms by (simp add: auth_acts_def)

subsection \<open>Properties\<close>

text \<open>C30: A logout that completes while a refreshUser call made by the signed-in user is still awaiting the backend is undone when that call is answered with the user: the session is signed in again although the user logged out.\<close>

theorem refresh_undoes_logout:
  assumes "session_user s \<noteq> None"
  shows "session_user (rt_auth (auth_acts [RefreshCall 0, Callback Logout, RefreshResolve 0 (Some u)]
           \<lparr>rt_auth = s, pending_refresh = []\<rparr>)) = Some u"
  using assms by (simp add: auth_acts_def)

theorem refresh_undoes_logout_witness:
  "session_user \<lparr>session_user = Some (user.truncate demo_member), isLoading = False\<rparr> \<noteq> None
   \<and> session_user (rt_auth (auth_acts [RefreshCall 0, Callback Logout, RefreshResolve 0 (Some (user.truncate demo_member))]
       \<lparr>rt_auth = \<lparr>session_user = Some (user.truncate demo_member), isLoading = False\<rparr>, pending_refresh = []\<rparr>))
     = Some (user.truncate demo_member)"
  using refresh_undoes_logout [of "\<lparr>session_user = Some (user.truncate demo_member), isLoading = False\<rparr>"
      "user.truncate demo_member"] by simp

end
