(* ===== verification/Spec2Isabelle.thy ===== *)
theory Spec2Isabelle
  imports Weekly Notifications Session MapView TagScan Migration Tabs Geocoding Header Json Bell Heat AuthRace
begin

text \<open>
  \<^bold>\<open>Smart-Rubbish-Detection: a verification development of its data layer.\<close>

  The program is a browser application in which citizens report litter and earn points.
  Its logic lives in \<open>src/src/app/utils/storage.ts\<close>: an adapter over the browser's
  local storage, an account directory, a report ledger and a notification outbox, each a
  read-modify-write of one JSON array under a key. \<open>reportGenerator.ts\<close> derives a
  weekly summary from the ledger; the pages and components under \<open>src/src/app\<close> render
  and call these functions.

  \<^bold>\<open>Theories.\<close>
  \<^item> \<open>Prelude\<close>: the collections \<open>model_defs\<close> and \<open>eval_simps\<close>, the timestamp
    type (milliseconds; ISO strings order as their instants), \<open>findIndex\<close> with its
    \<open>-1\<close> as \<open>None\<close>, decimal printing of the numbers in identifiers, list lemmas.
  \<^item> \<open>Sanitize\<close>: \<open>isValidEmail\<close>, \<open>sanitizeString\<close> (tag stripping as the global
    regex replacement scans, then \<open>trim\<close>), \<open>isValidPassword\<close>, \<open>isValidName\<close>,
    \<open>isValidCoordinates\<close> (storage.ts 55-76). Shown: the email check is the language
    of its regular expression; the sanitiser leaves no tag and is idempotent.
  \<^item> \<open>Store\<close>: the records \<open>User\<close>, \<open>Report\<close>, \<open>Notification\<close>; the store, one
    field per storage key holding the parsed array (\<open>None\<close> for \<open>null\<close>); the
    environment of an operation (clock, random suffix, which key refuses a write);
    \<open>safeSetItem\<close> and \<open>initializeStorage\<close>.
  \<^item> \<open>Accounts\<close>: \<open>registerUser\<close>, \<open>loginUser\<close>, \<open>loginAdmin\<close>,
    \<open>getAllUsers\<close>, \<open>getCurrentUser\<close>, \<open>updateCurrentUser\<close>, and the point award
    \<open>award_points\<close> that \<open>saveReport\<close> applies to its owner. Shown: errors leave the
    store as it was; a second registration of the same normalised email fails with
    \<open>USER_EXISTS\<close>; login after registration returns the registered user; unique emails
    and \<open>credits = floor(ecoPoints/100)\<close> are kept by every operation.
  \<^item> \<open>Reports\<close>: \<open>saveReport\<close>, \<open>getReports\<close>, \<open>updateReportStatus\<close>,
    \<open>getUserStats\<close>; the abstract ledger \<open>ledger\<close> (report id to report, first match)
    that \<open>saveReport\<close> and \<open>updateReportStatus\<close> refine. Shown: duplicate suppression
    with its inclusive five-minute boundary, the point award, that a submission passing the
    checks on its raw fields is stored with the sanitised description (which can be shorter
    than the ten characters checked), and that every stored report has an owner, valid coordinates and
    \<open>createdAt = timestamp\<close>.
  \<^item> \<open>Notifications\<close>: the outbox operations. Shown: creating adds one unread
    notification for its user, marking all read empties the unread count, the listing is
    newest first, stable and a permutation of the user's notifications, and no operation
    removes a notification or clears a read flag.
  \<^item> \<open>JsRecord\<close>: plain objects used as dictionaries (\<open>obj[k] = (obj[k] || 0) + 1\<close>
    and \<open>Object.entries\<close>, whose key order puts array-index keys first). Shown: the counting
    loop computes occurrence counts, lists each key once in order of first occurrence, and
    \<open>Object.entries\<close> is a permutation; the first \<open>n\<close> of a list sorted by decreasing
    count hold the \<open>n\<close> largest counts. \<open>js_proto_keys\<close> lists the own properties of
    \<open>Object.prototype\<close>: for such a key the code's \<open>{}\<close> reads an inherited member (a
    function, or the prototype for \<open>__proto__\<close>), which the model does not follow, so the
    counting lemmas that are claims assume no key is one of them.
  \<^item> \<open>DateFns\<close>: \<open>getDay\<close> and the \<open>date-fns\<close> functions \<open>startOfWeek\<close>,
    \<open>endOfWeek\<close>, \<open>isWithinInterval\<close>, \<open>format\<close>, modelled from the library's
    behaviour (it is not repository code) with a fixed zone offset. Shown: the window from
    \<open>startOfWeek\<close> to \<open>endOfWeek\<close> is one Monday-to-Sunday week, starting at local
    midnight and lasting seven days less a millisecond.
  \<^item> \<open>Weekly\<close>: \<open>reportGenerator.ts\<close>: \<open>generateWeeklyReport\<close>, the CSV text of
    \<open>downloadWeeklyReportAsCSV\<close>, \<open>getNextSundayDate\<close>. Shown: the window holds exactly
    the reports of the current week (with the spec's boundary example), the type counts refine
    the abstract count function, both top-ten lists (for types and areas that are not
    \<open>Object.prototype\<close> keys) are exact, sorted and maximal, the CSV has
    no line feed, an empty stored name shows as \<open>Unknown User\<close>.
  \<^item> \<open>Session\<close>: the auth context of \<open>AuthContext.tsx\<close> as events over
    \<open>auth_state\<close>, \<open>ProtectedRoute.tsx\<close>, and the notification bell of
    \<open>NotificationBell.tsx\<close> over the outbox. Shown: admin routes render exactly for an
    admin once loading ends, the badge is absent exactly for zero and reads \<open>9+\<close> above
    nine, loading never returns after \<open>initAuth\<close>, an admin login
    opens admin routes, the badge matches the list and disappears after marking all read.
  \<^item> \<open>MapView\<close>: \<open>mockData.ts\<close> and the colour, radius and legend of
    \<open>HeatMap.tsx\<close>. Shown: the demo data is well formed, every colour is in the legend,
    the radius is bounded, every offered rubbish type is accepted and stored unchanged.
  \<^item> \<open>TagScan\<close>: the loop the engine runs for \<open>input.replace(/<[^>]*>/g, '')\<close>
    in \<open>sanitizeString\<close> (storage.ts 62): \<open>find_tag\<close> finds the next match from
    \<open>lastIndex\<close>, \<open>replace_tags_loop\<close> is the loop as a \<open>partial_function
    (option)\<close>, not returning being \<open>None\<close>. Shown: it returns on every input, with
    \<open>strip_tags\<close> of it, so the recursive \<open>strip_tags\<close> of \<open>Sanitize\<close> is the
    engine's result.
  \<^item> \<open>Migration\<close>: \<open>initializeStorage\<close> and \<open>migrateStorage\<close> (storage.ts
    122-175) on the stored JSON rather than the typed records: JSON values \<open>jval\<close>,
    unparsable text, property reads that throw on \<open>null\<close>, object spread,
    \<open>||\<close>, \<open>typeof\<close>, \<open>Array.prototype.map\<close>, \<open>toISOString\<close>. Shown:
    an unversioned store whose arrays parse comes out with every timestamp filled in; a
    complete record is left exactly as it is (so the typed \<open>initializeStorage\<close> of
    \<open>Store\<close>, which has no migration step, is the same function on typed data); a store
    marked with another version is only stamped \<open>1.0.0\<close>, legacy records included;
    initialising twice changes nothing, whatever writes fail and whatever the clock.
  \<^item> \<open>Tabs\<close>: two tabs sharing one local storage. \<open>saveReport\<close> is split at its read
    of the report array and its write back into \<open>save_read\<close> and \<open>save_commit\<close>
    (storage.ts 300-365 and 366-386); \<open>run_tabs\<close> runs two calls along a schedule.
    The split is checked against the whole function: the two phases back to back are
    \<open>saveReport\<close>. Shown: when both reads come before both writes, both tabs get success and the
    ledger keeps only the last writer's report (section 5 of the specification), while the
    member is still awarded points for both.
  \<^item> \<open>Geocoding\<close>: \<open>reverseGeocode\<close> and \<open>getCurrentLocation\<close> of
    \<open>geocoding.ts\<close>, with the outcome of the network or geolocation call as input, and
    \<open>Number.prototype.toFixed(4)\<close> on exact reals. Shown: the printed number is within
    half a unit of the fourth decimal, so the fallback address is the two coordinates each
    within half a unit of its fourth decimal; a failed lookup yields the printed coordinates,
    which the weekly report ranks under the longitude.
  \<^item> \<open>Header\<close>: what \<open>components/Header.tsx\<close> renders for each variant, auth state and
    menu flag, and its handlers over the auth state of \<open>Session\<close>: \<open>handleLogout\<close>
    (lines 16-20) calls \<open>logout()\<close> without awaiting it, so \<open>header_step\<close> counts the
    sign-outs it has started (\<open>signout_pending\<close>) and their resolution or rejection are
    later events. Shown: once the sign-out the logout button starts resolves, only the logo
    remains and every protected route sends to \<open>/auth\<close>; the button itself does not wait for
    it, so a rejected sign-out leaves the user signed in after the app has navigated to
    \<open>/\<close>.
  \<^item> \<open>Json\<close>: the engine's \<open>JSON.stringify\<close> (\<open>json_str\<close>, with the gap argument) and
    \<open>JSON.parse\<close> (\<open>JSON_parse\<close>, a recursive descent with fuel), on JSON values whose
    numbers are integers, and the JSON download of the weekly report
    (\<open>downloadWeeklyReportAsJSON\<close>, reportGenerator.ts 107-116, with \<open>weekly_json\<close>, the
    returned object in the property order of lines 89-104) beside the CSV download, with its file
    name. Lemmas: parsing what is printed, with or without a gap, gives back every such value
    whose objects have distinct keys in own-key order, the fuel being the length of the text; the
    downloaded weekly report, whose numbers are counts, reads back as the report value; with the
    Sydney offset the file's name carries the local date, not the ISO date, for part of each day.
  \<^item> \<open>Bell\<close>: the view and the events of \<open>NotificationBell.tsx\<close> over the bell of
    \<open>Session\<close>: \<open>bell_view\<close> (bell button and badge, the open panel with \<open>Mark all read\<close>,
    close button and one row per notification with its relative time), \<open>bell_step\<close> (toggle,
    close, the two mark handlers, the poll), and date-fns \<open>formatDistanceToNow\<close> with its
    time bands. Shown: after a load, the rows offering mark-as-read are exactly the member's
    unread notifications, newest first, and \<open>Mark all read\<close> is offered exactly when one
    exists; after a successful \<open>Mark all read\<close> neither is offered; a notification k
    minutes old (2 to 44) reads \<open>k minutes ago\<close>.
  \<^item> \<open>Heat\<close>: the rest of \<open>HeatMap.tsx\<close>: its props and defaults, \<open>heat_view\<close> (loading
    placeholder, map, a marker and popup per location with \<open>toFixed(0)\<close> of the intensity in
    percent, selected marker, legend) and the Leaflet map's centre, zoom and load flag under
    the \<open>RecenterMap\<close> effect and the click handler. Shown: for intensities in \<open>[0, 1]\<close> every
    marker has a radius from 10 to 30 and a legend colour and is followed by its popup, with the
    whole percentage from 0 to 100 nearest to the intensity times 100; recentring acts only on a loaded map.
  \<^item> \<open>AuthRace\<close>: the value \<open>AuthContext.tsx\<close> provides and \<open>useAuth\<close>, and
    \<open>refreshUser\<close> as its two steps (the \<open>if (user)\<close> test at the call, the \<open>setUser\<close>
    after the backend answers) interleaved with the other callbacks. Shown: answered at once
    it is the event of \<open>Session\<close>; a logout completing in between is undone by the answer.
  \<^item> This theory: the state-changing operations as a datatype \<open>op\<close> with one step
    function \<open>step\<close>, the states \<open>reachable\<close> from an empty storage under any
    environment, and the invariants that hold in all of them.

  \<^bold>\<open>Modelling choices.\<close> Every loop of the source is a list function or a
  \<open>fun\<close>/\<open>function\<close> with its termination proof (\<open>strip_tags\<close> by the length of
  the input), except the engine's replace loop of \<open>TagScan\<close>, a \<open>partial_function
  (option)\<close> proved to return on every input, and the JSON parser of \<open>Json\<close>, whose
  recursion spends one unit of fuel per value, element and member: \<open>JSON_parse\<close> gives it the
  length of the text, and \<open>json_fuel_le_length\<close> shows this is never less than the fuel the
  printed value needs, so the bound costs no generality. Strings are byte lists, with ASCII whitespace and case
  folding; reals stand for doubles, without rounding or \<open>NaN\<close>. The random suffix of
  identifiers is an input, so identifier freshness is a hypothesis where a theorem needs it.
  A read failure and a missing key are the same \<open>null\<close>. The typed records of
  \<open>Store\<close> cannot lack a timestamp, so the migration is modelled on JSON values in
  \<open>Migration\<close>, where JSON numbers are integers (only their truthiness matters) and one
  run reads one clock.

  \<^bold>\<open>Not modelled.\<close> The static pages \<open>Landing.tsx\<close> and \<open>AboutUs.tsx\<close> (text,
  images and links, with no state and no call into the data layer) and the bundler
  configuration \<open>vite.config.ts\<close> (build time only); styling, icons and the map
  tiles; the route table (it is not in the repository); the
  remote backend client (\<open>supabase.ts\<close>) and the \<open>cloudStorage\<close> module the auth context
  calls, which is not in the repository (its answers are the payloads of \<open>auth_event\<close>);
  the network and geolocation services themselves (their answers are inputs of
  \<open>Geocoding\<close>); the console e-mail stub; the blob, object URL and click of the two
  downloads (their name and text are modelled); the bell's polling timer itself (a poll is an
  event of \<open>bell_step\<close> that may come at any time); the calendar month difference date-fns
  uses for distances over two months (an argument of \<open>formatDistance\<close>); daylight-saving
  changes of the zone offset; keys of \<open>Object.prototype\<close> as report types or areas
  (above); JSON numbers with a fraction or an exponent, so the ledger's coordinates do not go
  through \<open>JSON_parse\<close> (the migration only tests numbers for truthiness, and the weekly
  download holds integers only); a stored empty string under a key, which \<open>getItem\<close>
  returns and \<open>migrateStorage\<close> treats as absent, is the same as a missing key in
  \<open>Migration\<close>; a write failure is a fixed property of the key in one environment, not
  of each call. Of the
  races between tabs only \<open>saveReport\<close>'s is modelled; \<open>registerUser\<close>,
  \<open>updateReportStatus\<close> and the outbox operations are read-modify-writes of the same kind;
  \<open>save_commit\<close> writes the array and re-reads the users in one step, which leaves out
  interleavings within it but not the lost write between the two tabs' reads and writes.
\<close>

section \<open>The whole data layer as a state machine\<close>

datatype op =
    Initialize
  | Register string string string
  | SyncCredits string
  | SubmitReport report_input
  | UpdateStatus string status
  | Notify string string notification_type "string \<times> string"
  | ListNotifications string
  | MarkRead string
  | MarkAllRead string

fun step :: "env \<Rightarrow> op \<Rightarrow> store \<Rightarrow> store" where
  "step ev Initialize st = initializeStorage ev st"
| "step ev (Register em pw nm) st = snd (registerUser ev em pw nm st)"
| "step ev (SyncCredits uid) st = snd (updateCurrentUser ev uid st)"
| "step ev (SubmitReport inp) st = snd (saveReport ev inp st)"
| "step ev (UpdateStatus rid s) st = updateReportStatus ev rid s st"
| "step ev (Notify uid rid t d) st = snd (createNotification ev uid rid t d st)"
| "step ev (ListNotifications uid) st = snd (getUserNotifications ev uid st)"
| "step ev (MarkRead nid) st = snd (markNotificationAsRead ev nid st)"
| "step ev (MarkAllRead uid) st = snd (markAllNotificationsAsRead ev uid st)"

inductive reachable :: "store \<Rightarrow> bool" where
  start: "reachable empty_store"
| step: "reachable st \<Longrightarrow> reachable (step ev a st)"

definition store_ok :: "store \<Rightarrow> bool" where
  "store_ok st \<longleftrightarrow> accounts_ok st \<and> ledger_ok st"

definition demo_run :: store where
  "demo_run = step (demo_env 1000) Initialize empty_store"

lemma registerUser_reports: "reports_data (snd (registerUser ev em pw nm st)) = reports_data st"
  by (subst registerUser_only_users) simp

lemma registerUser_notifications: "notifications_data (snd (registerUser ev em pw nm st)) = notifications_data st"
  by (subst registerUser_only_users) simp

lemma updateCurrentUser_reports: "reports_data (snd (updateCurrentUser ev uid st)) = reports_data st"
  by (subst updateCurrentUser_only_users) simp

lemma updateCurrentUser_notifications: "notifications_data (snd (updateCurrentUser ev uid st)) = notifications_data st"
  by (subst updateCurrentUser_only_users) simp

lemma updateReportStatus_users: "users_data (updateReportStatus ev rid s st) = users_data st"
  by (subst updateReportStatus_only_reports) simp

lemma updateReportStatus_notifications: "notifications_data (updateReportStatus ev rid s st) = notifications_data st"
  by (subst updateReportStatus_only_reports) simp

lemma saveReport_notifications: "notifications_data (snd (saveReport ev inp st)) = notifications_data st"
  by (subst saveReport_only_users_reports) simp

lemma initializeStorage_store_ok:
  "store_ok st \<Longrightarrow> store_ok (initializeStorage ev st)"
  by (auto simp: store_ok_def accounts_ok_def ledger_ok_def users_wf_def initializeStorage_def Let_def
      model_defs split: option.splits)

lemmas op_frames = registerUser_reports registerUser_notifications updateCurrentUser_reports updateCurrentUser_notifications updateReportStatus_users updateReportStatus_notifications saveReport_notifications initializeStorage_keeps(3)


lemma step_store_ok:
  assumes ok: "store_ok st"
  shows "store_ok (step ev a st)"
proof (cases a)
  case Initialize
  then show ?thesis using initializeStorage_store_ok ok by simp
next
  case (Register em pw nm)
  then show ?thesis using ok registerUser_accounts_ok
    by (simp add: store_ok_def ledger_ok_def op_frames)
next
  case (SyncCredits uid)
  then show ?thesis using ok updateCurrentUser_accounts_ok
    by (simp add: store_ok_def ledger_ok_def op_frames)
next
  case (SubmitReport inp)
  then show ?thesis using ok saveReport_accounts_ok saveReport_ledger_ok
    by (simp add: store_ok_def)
next
  case (UpdateStatus rid s)
  then show ?thesis using ok updateReportStatus_ledger_ok
    by (simp add: store_ok_def accounts_ok_def op_frames)
next
  case (Notify uid rid t d)
  then show ?thesis using ok
    by (simp add: store_ok_def ledger_ok_def accounts_ok_def notification_ops_frame)
next
  case (ListNotifications uid)
  then show ?thesis using ok
    by (simp add: store_ok_def ledger_ok_def accounts_ok_def notification_ops_frame)
next
  case (MarkRead nid)
  then show ?thesis using ok
    by (simp add: store_ok_def ledger_ok_def accounts_ok_def notification_ops_frame)
next
  case (MarkAllRead uid)
  then show ?thesis using ok
    by (simp add: store_ok_def ledger_ok_def accounts_ok_def notification_ops_frame)
qed

text \<open>C3: In every state reachable from empty storage by any sequence of the data layer's operations under any clock, ids and write failures, stored emails are unique, every stored credits equals floor(ecoPoints/100), and every stored report has an owner, valid coordinates and createdAt = timestamp.\<close>

theorem reachable_store_ok: "reachable st \<Longrightarrow> store_ok st"
proof (induction rule: reachable.induct)
  case start
  show ?case by (simp add: store_ok_def accounts_ok_def ledger_ok_def empty_store_def)
next
  case (step st ev a)
  from step.IH show ?case by (rule step_store_ok)
qed

lemma outbox_grows_same: "notifications_data st' = notifications_data st \<Longrightarrow> outbox_grows st st'"
  by (simp add: outbox_grows_def split: option.splits)

text \<open>C13: No operation of the data layer removes a stored notification, changes anything of it but its read flag, or turns a read flag back to unread.\<close>

lemma step_outbox_grows: "outbox_grows st (step ev a st)"
proof (cases a)
  case (Notify uid rid t d)
  then show ?thesis by (simp add: createNotification_grows)
next
  case (ListNotifications uid)
  then show ?thesis by (simp add: getUserNotifications_grows)
next
  case (MarkRead nid)
  then show ?thesis by (simp add: markNotificationAsRead_grows)
next
  case (MarkAllRead uid)
  then show ?thesis by (simp add: markAllNotificationsAsRead_grows)
qed (simp_all add: outbox_grows_same op_frames)

theorem reachable_store_ok_witness: "reachable demo_run \<and> store_ok demo_run"
proof -
  have h: "reachable demo_run" unfolding demo_run_def by (rule reachable.step [OF reachable.start])
  from h reachable_store_ok [OF h] show ?thesis by blast
qed

end
